theory Spec2Isabelle
  imports Main "HOL-Library.Word" "HOL-Library.AList"
begin

section \<open>Data model of the node coordinator (server.go)\<close>

text \<open>
  The catalog of \<^verbatim>\<open>Server\<close> is modelled by explicit state passing: every apply
  handler takes the decoded command and the server, and returns the error it
  reports (\<open>None\<close> for Go's \<^verbatim>\<open>nil\<close>) together with the server it leaves behind.
  Go maps that are only looked up and updated are partial functions; maps that the
  code iterates over (\<^verbatim>\<open>dataNodes\<close>, \<^verbatim>\<open>databases\<close>, \<^verbatim>\<open>policies\<close>) are association
  lists read with \<open>map_of\<close> and written with \<open>AList.update\<close>, their list order
  standing for one of Go's iteration orders. Pointers into the catalog
  (\<^verbatim>\<open>*User\<close>, \<^verbatim>\<open>*database\<close>, \<^verbatim>\<open>*RetentionPolicy\<close>) are replaced by writing the changed
  value back under the key it was read from.
\<close>

type_synonym u64 = "64 word"
type_synonym u32 = "32 word"
type_synonym byte = "8 word"

text \<open>
  \<^verbatim>\<open>time.Time\<close> is a count of nanoseconds since Go's zero time and
  \<^verbatim>\<open>time.Duration\<close> a count of nanoseconds; both are unbounded integers here
  (the overflow of Go's \<^verbatim>\<open>int64\<close> durations is not modelled).
\<close>

type_synonym Time = int
type_synonym Duration = int

datatype error =
    ErrDataNodeURLRequired
  | ErrDataNodeExists
  | ErrDataNodeNotFound
  | ErrDatabaseExists
  | ErrDatabaseNotFound
  | ErrRetentionPolicyExists
  | ErrRetentionPolicyNotFound
  | ErrRetentionPolicyNameRequired
  | ErrDefaultRetentionPolicyNotFound
  | ErrUsernameRequired
  | ErrUserExists
  | ErrUserNotFound
  | ErrInvalidGrantRevoke
  | ErrShardNotFound
  | ErrMeasurementNotFound
  | ErrFieldOverflow
  | ErrFieldTypeConflict
  | ErrContinuousQueryExists
  | ErrNotExecuted
  | Errorf string

text \<open>\<^verbatim>\<open>influxql.Privilege\<close>, an enumeration of the query language package.\<close>

datatype Privilege = NoPrivileges | ReadPrivilege | WritePrivilege | AllPrivileges

text \<open>
  The create-user command carries the name, the password and the admin flag of
  the user to create.
\<close>

record createUserCommand =
  Username :: string
  Password :: string
  Admin :: bool

record User =
  Name :: string
  Hash :: string
  Privileges :: "string \<rightharpoonup> Privilege"
  Admin :: bool

text \<open>
  A data node holds a pointer to a parsed URL (\<^verbatim>\<open>*url.URL\<close>). The model keeps a URL
  as the string that its \<^verbatim>\<open>String\<close> method gives, and \<open>None\<close> for the \<^verbatim>\<open>nil\<close>
  pointer.
\<close>

record DataNode =
  ID :: u64
  URL :: "string option"

record Shard =
  ID :: u64
  DataNodeIDs :: "u64 list"

record ShardGroup =
  ID :: u64
  StartTime :: Time
  EndTime :: Time
  Shards :: "Shard list"

record RetentionPolicy =
  Name :: string
  Duration :: Duration
  ReplicaN :: u32
  shardGroups :: "ShardGroup list"

text \<open>
  \<^verbatim>\<open>influxql.DataType\<close>, an enumeration of the query language package (its
  \<^verbatim>\<open>String\<close>, \<^verbatim>\<open>Time\<close> and \<^verbatim>\<open>Duration\<close> carry a suffix here).
\<close>

datatype DataType = Unknown | Number | Boolean | StringType | TimeType | DurationType

type_synonym Tags = "(string \<times> string) list"

record Field =
  ID :: byte
  Name :: string
  Type :: DataType

record Series =
  ID :: u32
  Tags :: Tags

record Measurement =
  Name :: string
  Fields :: "Field list"
  series :: "Series list"

text \<open>
  A continuous query: its text, the name and the database of the parsed
  \<^verbatim>\<open>CREATE CONTINUOUS QUERY\<close> statement (\<^verbatim>\<open>cq.cq.Name\<close>, \<^verbatim>\<open>cq.cq.Database\<close>), and
  the target it writes into.
\<close>

record ContinuousQuery =
  Query :: string
  cq_Name :: string
  cq_Database :: string
  intoDB :: string
  intoRP :: string
  intoMeasurement :: string

record database =
  name :: string
  policies :: "(string \<times> RetentionPolicy) list"
  defaultRetentionPolicy :: string
  measurements :: "(string \<times> Measurement) list"
  continuousQueries :: "ContinuousQuery list"

text \<open>
  Modelled from the spec: the metastore (\<^verbatim>\<open>metastore.mustUpdate\<close> and the \<^verbatim>\<open>metatx\<close>
  calls) is not part of server.go. The spec describes it as a transactional store
  with the sequence generators \<^verbatim>\<open>nextDataNodeID\<close>, \<^verbatim>\<open>nextShardID\<close> and
  \<^verbatim>\<open>nextShardGroupID\<close>; the model keeps the three counters. What an update
  returns (the error of \<^verbatim>\<open>tx.saveUser\<close>, \<^verbatim>\<open>tx.saveDatabase\<close>, ...) is the
  parameter \<open>persist\<close> of each handler, \<open>None\<close> for success.
\<close>

record metastore =
  dataNodeSeq :: u64
  shardSeq :: u64
  shardGroupSeq :: u64

text \<open>
  Modelled from the spec: a shard's store (shard.go is not among the sources) is a
  durable map from series id and timestamp to the encoded fields. The open stores
  are kept in the server under the shard's id, which is also what names the
  store's file, so that the copies of a shard reachable from a shard group and
  from \<^verbatim>\<open>Server.shards\<close> share one store as the Go pointers do. A Go map from
  series id to a slice of shards is a total function whose default is the empty
  list.
\<close>

type_synonym store = "u32 \<times> int \<rightharpoonup> byte list"

record Server =
  server_id :: u64
  index :: u64
  errors :: "u64 \<rightharpoonup> error"
  meta :: metastore
  dataNodes :: "(u64 \<times> DataNode) list"
  databases :: "(string \<times> database) list"
  users :: "string \<rightharpoonup> User"
  shards :: "u64 \<rightharpoonup> Shard"
  shardsBySeriesID :: "u32 \<Rightarrow> Shard list"
  stores :: "u64 \<rightharpoonup> store"

section \<open>Users and privileges\<close>

text \<open>
  \<^verbatim>\<open>applyCreateUser\<close>. \<^verbatim>\<open>HashPassword\<close> calls bcrypt, a library outside the
  repository: it is the parameter \<open>HashPassword\<close>, \<open>Inl\<close> the error it may return.
  The user is entered into \<^verbatim>\<open>users\<close> after the update, whatever the update
  returned.
\<close>

definition applyCreateUser ::
  "(string \<Rightarrow> error + string) \<Rightarrow> error option \<Rightarrow> createUserCommand \<Rightarrow> Server
    \<Rightarrow> error option \<times> Server" where
  "applyCreateUser HashPassword persist c s =
     (if createUserCommand.Username c = [] then (Some ErrUsernameRequired, s)
      else if users s (createUserCommand.Username c) \<noteq> None then (Some ErrUserExists, s)
      else
        (case HashPassword (createUserCommand.Password c) of
           Inl err \<Rightarrow> (Some err, s)
         | Inr hash \<Rightarrow>
             (let u = \<lparr>User.Name = createUserCommand.Username c, Hash = hash,
                        Privileges = Map.empty, User.Admin = createUserCommand.Admin c\<rparr>
              in (persist, s\<lparr>users := (users s)(User.Name u \<mapsto> u)\<rparr>))))"

record deleteUserCommand =
  Username :: string

text \<open>
  \<^verbatim>\<open>applyDeleteUser\<close>. The result of the metastore update is dropped by the code,
  so the handler has no \<open>persist\<close> parameter.
\<close>

definition applyDeleteUser :: "deleteUserCommand \<Rightarrow> Server \<Rightarrow> error option \<times> Server" where
  "applyDeleteUser c s =
     (if deleteUserCommand.Username c = [] then (Some ErrUsernameRequired, s)
      else if users s (deleteUserCommand.Username c) = None then (Some ErrUserNotFound, s)
      else (None, s\<lparr>users := (users s)(deleteUserCommand.Username c := None)\<rparr>))"

record updateUserCommand =
  Username :: string
  Password :: string

text \<open>\<^verbatim>\<open>applyUpdateUser\<close>, with \<open>HashPassword\<close> as above.\<close>

definition applyUpdateUser ::
  "(string \<Rightarrow> error + string) \<Rightarrow> error option \<Rightarrow> updateUserCommand \<Rightarrow> Server
    \<Rightarrow> error option \<times> Server" where
  "applyUpdateUser HashPassword persist c s =
     (case users s (updateUserCommand.Username c) of
        None \<Rightarrow> (Some ErrUserNotFound, s)
      | Some u \<Rightarrow>
          if Password c \<noteq> [] then
            (case HashPassword (Password c) of
               Inl err \<Rightarrow> (Some err, s)
             | Inr hash \<Rightarrow>
                 (persist,
                  s\<lparr>users := (users s)(updateUserCommand.Username c \<mapsto> u\<lparr>Hash := hash\<rparr>)\<rparr>))
          else (persist, s))"

record setPrivilegeCommand =
  Privilege :: Privilege
  Username :: string
  Database :: string

text \<open>\<^verbatim>\<open>applySetPrivilege\<close>.\<close>

definition applySetPrivilege ::
  "error option \<Rightarrow> setPrivilegeCommand \<Rightarrow> Server \<Rightarrow> error option \<times> Server" where
  "applySetPrivilege persist c s =
     (if Username c = [] then (Some ErrUsernameRequired, s)
      else
        (case users s (Username c) of
           None \<Rightarrow> (Some ErrUserNotFound, s)
         | Some u \<Rightarrow>
             if Database c = [] \<and> (Privilege c = AllPrivileges \<or> Privilege c = NoPrivileges)
             then (persist,
                   s\<lparr>users := (users s)(Username c \<mapsto> u\<lparr>Admin := (Privilege c = AllPrivileges)\<rparr>)\<rparr>)
             else if Database c \<noteq> []
             then (persist,
                   s\<lparr>users := (users s)(Username c \<mapsto>
                        u\<lparr>Privileges := (Privileges u)(Database c \<mapsto> Privilege c)\<rparr>)\<rparr>)
             else (Some ErrInvalidGrantRevoke, s)))"

section \<open>Synchronizing to an index\<close>

text \<open>
  The tail of \<^verbatim>\<open>processor\<close>'s loop body: after a message with index \<open>idx\<close> has
  been applied with result \<open>err\<close>, the high water mark is set and the error, if
  any, stored under the index.
\<close>

definition processor_record :: "u64 \<times> error option \<Rightarrow> Server \<Rightarrow> Server" where
  "processor_record m s =
     (case snd m of
        None \<Rightarrow> s\<lparr>index := fst m\<rparr>
      | Some e \<Rightarrow> s\<lparr>index := fst m, errors := (errors s)(fst m \<mapsto> e)\<rparr>)"

text \<open>
  One pass of the loop of \<^verbatim>\<open>Sync\<close>: \<open>None\<close> when the index has not occurred yet
  (the code sleeps and checks again), otherwise the error found under the index
  and the server with that entry deleted.
\<close>

definition Sync_poll :: "u64 \<Rightarrow> Server \<Rightarrow> (error option \<times> Server) option" where
  "Sync_poll idx s =
     (if index s \<ge> idx then
        (case errors s idx of
           Some e \<Rightarrow> Some (Some e, s\<lparr>errors := (errors s)(idx := None)\<rparr>)
         | None \<Rightarrow> Some (None, s))
      else None)"

text \<open>
  \<^verbatim>\<open>Sync\<close> runs beside the processor. The schedule \<open>env\<close> lists, for each sleep of
  the loop, the messages the processor records during it. \<open>None\<close> means that the
  call is still blocked when the schedule ends.
\<close>

fun Sync :: "u64 \<Rightarrow> Server \<Rightarrow> (u64 \<times> error option) list list
    \<Rightarrow> (error option \<times> Server) option" where
  "Sync idx s [] = Sync_poll idx s"
| "Sync idx s (ms # env) =
     (case Sync_poll idx s of
        Some r \<Rightarrow> Some r
      | None \<Rightarrow> Sync idx (fold processor_record ms s) env)"

section \<open>Data nodes and databases\<close>

text \<open>
  Modelled from the spec: \<^verbatim>\<open>tx.nextDataNodeID\<close> is a sequence generator of the
  metastore; the first id it hands out is 1.
\<close>

definition nextDataNodeID :: "metastore \<Rightarrow> u64 \<times> metastore" where
  "nextDataNodeID m = (dataNodeSeq m + 1, m\<lparr>dataNodeSeq := dataNodeSeq m + 1\<rparr>)"

text \<open>
  Modelled from the spec: the metastore's \<^verbatim>\<open>update\<close> is atomic, so the metastore
  keeps a transaction's changes only when the update returns no error.
\<close>

definition commit :: "error option \<Rightarrow> metastore \<Rightarrow> metastore \<Rightarrow> metastore" where
  "commit persist before after = (case persist of None \<Rightarrow> after | Some e \<Rightarrow> before)"

record createDataNodeCommand =
  URL :: string

text \<open>
  The loop of \<^verbatim>\<open>applyCreateDataNode\<close> that looks for a data node with the same
  URL. It calls \<^verbatim>\<open>String\<close> on the URL of each node and on the parsed URL \<open>u\<close>; the
  call on a \<^verbatim>\<open>nil\<close> URL panics (\<open>Inl\<close>).
\<close>

fun urlExists :: "string option \<Rightarrow> DataNode list \<Rightarrow> string + bool" where
  "urlExists u [] = Inr False"
| "urlExists u (n # ns) =
     (case DataNode.URL n of
        None \<Rightarrow> Inl ''nil pointer dereference''
      | Some a \<Rightarrow>
          (case u of
             None \<Rightarrow> Inl ''nil pointer dereference''
           | Some b \<Rightarrow> if a = b then Inr True else urlExists u ns))"

text \<open>
  \<^verbatim>\<open>applyCreateDataNode\<close>. The parameter \<open>Parse\<close> stands for Go's \<^verbatim>\<open>url.Parse\<close>: the
  URL, or \<open>None\<close> for the \<^verbatim>\<open>nil\<close> URL that \<^verbatim>\<open>url.Parse\<close> returns together with an
  error; the code drops that error. \<open>Inl\<close> is a panic of the handler. The node is
  entered into \<^verbatim>\<open>dataNodes\<close> after the update, under the id it holds then,
  whatever the update returned.
\<close>

definition applyCreateDataNode ::
  "(string \<Rightarrow> string option) \<Rightarrow> error option \<Rightarrow> createDataNodeCommand \<Rightarrow> Server
    \<Rightarrow> string + (error option \<times> Server)" where
  "applyCreateDataNode Parse persist c s =
     (if createDataNodeCommand.URL c = [] then Inr (Some ErrDataNodeURLRequired, s)
      else
        (let u = Parse (createDataNodeCommand.URL c) in
         case urlExists u (map snd (dataNodes s)) of
           Inl p \<Rightarrow> Inl p
         | Inr True \<Rightarrow> Inr (Some ErrDataNodeExists, s)
         | Inr False \<Rightarrow>
             (let (nid, m') = nextDataNodeID (meta s);
                  n = \<lparr>DataNode.ID = nid, DataNode.URL = u\<rparr>
              in Inr (persist,
                      s\<lparr>meta := commit persist (meta s) m',
                        dataNodes := AList.update nid n (dataNodes s)\<rparr>))))"

record deleteDataNodeCommand =
  ID :: u64

text \<open>\<^verbatim>\<open>applyDeleteDataNode\<close>.\<close>

definition applyDeleteDataNode ::
  "error option \<Rightarrow> deleteDataNodeCommand \<Rightarrow> Server \<Rightarrow> error option \<times> Server" where
  "applyDeleteDataNode persist c s =
     (case map_of (dataNodes s) (deleteDataNodeCommand.ID c) of
        None \<Rightarrow> (Some ErrDataNodeNotFound, s)
      | Some n \<Rightarrow> (persist, s\<lparr>dataNodes := AList.delete (DataNode.ID n) (dataNodes s)\<rparr>))"

text \<open>
  Modelled from the spec: \<^verbatim>\<open>newDatabase\<close> (not in server.go) returns a database
  with no policies, no default policy, no measurements and no continuous queries.
\<close>

definition newDatabase :: database where
  "newDatabase = \<lparr>name = [], policies = [], defaultRetentionPolicy = [],
     measurements = [], continuousQueries = []\<rparr>"

record createDatabaseCommand =
  Name :: string

text \<open>
  \<^verbatim>\<open>applyCreateDatabase\<close>. The database is entered into \<^verbatim>\<open>databases\<close> after the
  update, whatever the update returned.
\<close>

definition applyCreateDatabase ::
  "error option \<Rightarrow> createDatabaseCommand \<Rightarrow> Server \<Rightarrow> error option \<times> Server" where
  "applyCreateDatabase persist c s =
     (case map_of (databases s) (createDatabaseCommand.Name c) of
        Some d \<Rightarrow> (Some ErrDatabaseExists, s)
      | None \<Rightarrow>
          (let db = newDatabase\<lparr>name := createDatabaseCommand.Name c\<rparr>
           in (persist,
               s\<lparr>databases := AList.update (createDatabaseCommand.Name c) db (databases s)\<rparr>)))"

record deleteDatabaseCommand =
  Name :: string

text \<open>\<^verbatim>\<open>applyDeleteDatabase\<close>.\<close>

definition applyDeleteDatabase ::
  "error option \<Rightarrow> deleteDatabaseCommand \<Rightarrow> Server \<Rightarrow> error option \<times> Server" where
  "applyDeleteDatabase persist c s =
     (case map_of (databases s) (deleteDatabaseCommand.Name c) of
        None \<Rightarrow> (Some ErrDatabaseNotFound, s)
      | Some d \<Rightarrow>
          (persist, s\<lparr>databases := AList.delete (deleteDatabaseCommand.Name c) (databases s)\<rparr>))"

section \<open>Retention policies\<close>

record createRetentionPolicyCommand =
  Database :: string
  Name :: string
  Duration :: Duration
  ReplicaN :: u32
  SplitN :: u32

text \<open>
  \<^verbatim>\<open>applyCreateRetentionPolicy\<close>. The result of the metastore update is dropped by
  the code, so the handler has no \<open>persist\<close> parameter.
\<close>

definition applyCreateRetentionPolicy ::
  "createRetentionPolicyCommand \<Rightarrow> Server \<Rightarrow> error option \<times> Server" where
  "applyCreateRetentionPolicy c s =
     (case map_of (databases s) (createRetentionPolicyCommand.Database c) of
        None \<Rightarrow> (Some ErrDatabaseNotFound, s)
      | Some db \<Rightarrow>
          if createRetentionPolicyCommand.Name c = [] then (Some ErrRetentionPolicyNameRequired, s)
          else if map_of (policies db) (createRetentionPolicyCommand.Name c) \<noteq> None
          then (Some ErrRetentionPolicyExists, s)
          else
            (let rp = \<lparr>RetentionPolicy.Name = createRetentionPolicyCommand.Name c,
                       RetentionPolicy.Duration = createRetentionPolicyCommand.Duration c,
                       RetentionPolicy.ReplicaN = createRetentionPolicyCommand.ReplicaN c,
                       shardGroups = []\<rparr>;
                 db' = db\<lparr>policies :=
                          AList.update (createRetentionPolicyCommand.Name c) rp (policies db)\<rparr>
             in (None,
                 s\<lparr>databases :=
                     AList.update (createRetentionPolicyCommand.Database c) db' (databases s)\<rparr>)))"

text \<open>\<^verbatim>\<open>RetentionPolicyUpdate\<close>: each field is a pointer, \<open>None\<close> for \<^verbatim>\<open>nil\<close>.\<close>

record RetentionPolicyUpdate =
  Name :: "string option"
  Duration :: "Duration option"
  ReplicaN :: "u32 option"

record updateRetentionPolicyCommand =
  Database :: string
  Name :: string
  Policy :: "RetentionPolicyUpdate option"

text \<open>
  \<^verbatim>\<open>applyUpdateRetentionPolicy\<close>. The command's \<^verbatim>\<open>Policy\<close> is a pointer that the
  code dereferences without a check: \<open>Inl\<close> is the panic on \<^verbatim>\<open>nil\<close>. The policy
  \<^verbatim>\<open>p\<close> is one object: after a rename it is reachable under the new key, and
  still under the command's key when that key is not the name the policy carried.
  The shard groups of the policy are not touched.
\<close>

definition applyUpdateRetentionPolicy ::
  "error option \<Rightarrow> updateRetentionPolicyCommand \<Rightarrow> Server
    \<Rightarrow> string + (error option \<times> Server)" where
  "applyUpdateRetentionPolicy persist c s =
     (case map_of (databases s) (updateRetentionPolicyCommand.Database c) of
        None \<Rightarrow> Inr (Some ErrDatabaseNotFound, s)
      | Some db \<Rightarrow>
          if updateRetentionPolicyCommand.Name c = []
          then Inr (Some ErrRetentionPolicyNameRequired, s)
          else
            (case map_of (policies db) (updateRetentionPolicyCommand.Name c) of
               None \<Rightarrow> Inr (Some ErrRetentionPolicyNotFound, s)
             | Some p \<Rightarrow>
                 (case Policy c of
                    None \<Rightarrow> Inl ''nil pointer dereference''
                  | Some u \<Rightarrow>
                      (let p' = p\<lparr>RetentionPolicy.Name :=
                                     (case RetentionPolicyUpdate.Name u of
                                        None \<Rightarrow> RetentionPolicy.Name p | Some n \<Rightarrow> n),
                                   RetentionPolicy.Duration :=
                                     (case RetentionPolicyUpdate.Duration u of
                                        None \<Rightarrow> RetentionPolicy.Duration p | Some d \<Rightarrow> d),
                                   RetentionPolicy.ReplicaN :=
                                     (case RetentionPolicyUpdate.ReplicaN u of
                                        None \<Rightarrow> RetentionPolicy.ReplicaN p | Some r \<Rightarrow> r)\<rparr>;
                           ck = updateRetentionPolicyCommand.Name c;
                           pols =
                             (case RetentionPolicyUpdate.Name u of
                                None \<Rightarrow> AList.update ck p' (policies db)
                              | Some n \<Rightarrow>
                                  AList.update n p'
                                    (if RetentionPolicy.Name p = ck
                                     then AList.delete (RetentionPolicy.Name p) (policies db)
                                     else AList.update ck p'
                                            (AList.delete (RetentionPolicy.Name p) (policies db))));
                           db' = db\<lparr>policies := pols\<rparr>
                       in Inr (persist,
                               s\<lparr>databases :=
                                   AList.update (updateRetentionPolicyCommand.Database c) db'
                                     (databases s)\<rparr>)))))"

record deleteRetentionPolicyCommand =
  Database :: string
  Name :: string

text \<open>\<^verbatim>\<open>applyDeleteRetentionPolicy\<close>.\<close>

definition applyDeleteRetentionPolicy ::
  "error option \<Rightarrow> deleteRetentionPolicyCommand \<Rightarrow> Server \<Rightarrow> error option \<times> Server" where
  "applyDeleteRetentionPolicy persist c s =
     (case map_of (databases s) (deleteRetentionPolicyCommand.Database c) of
        None \<Rightarrow> (Some ErrDatabaseNotFound, s)
      | Some db \<Rightarrow>
          if deleteRetentionPolicyCommand.Name c = [] then (Some ErrRetentionPolicyNameRequired, s)
          else if map_of (policies db) (deleteRetentionPolicyCommand.Name c) = None
          then (Some ErrRetentionPolicyNotFound, s)
          else
            (let db' = db\<lparr>policies :=
                          AList.delete (deleteRetentionPolicyCommand.Name c) (policies db)\<rparr>
             in (persist,
                 s\<lparr>databases :=
                     AList.update (deleteRetentionPolicyCommand.Database c) db' (databases s)\<rparr>)))"

record setDefaultRetentionPolicyCommand =
  Database :: string
  Name :: string

text \<open>\<^verbatim>\<open>applySetDefaultRetentionPolicy\<close>.\<close>

definition applySetDefaultRetentionPolicy ::
  "error option \<Rightarrow> setDefaultRetentionPolicyCommand \<Rightarrow> Server \<Rightarrow> error option \<times> Server" where
  "applySetDefaultRetentionPolicy persist c s =
     (case map_of (databases s) (setDefaultRetentionPolicyCommand.Database c) of
        None \<Rightarrow> (Some ErrDatabaseNotFound, s)
      | Some db \<Rightarrow>
          if map_of (policies db) (setDefaultRetentionPolicyCommand.Name c) = None
          then (Some ErrRetentionPolicyNotFound, s)
          else
            (let db' = db\<lparr>defaultRetentionPolicy := setDefaultRetentionPolicyCommand.Name c\<rparr>
             in (persist,
                 s\<lparr>databases :=
                     AList.update (setDefaultRetentionPolicyCommand.Database c) db'
                       (databases s)\<rparr>)))"

section \<open>Shard groups\<close>

text \<open>
  Go's \<^verbatim>\<open>Time.Truncate\<close>: the time rounded down to a multiple of \<open>d\<close> since the zero
  time, and the time itself when \<open>d\<close> is not positive. \<^verbatim>\<open>UTC()\<close> changes the location
  a time is shown in, not the instant, and has no counterpart here.
\<close>

definition Truncate :: "Time \<Rightarrow> Duration \<Rightarrow> Time" where
  "Truncate t d = (if d \<le> 0 then t else t - t mod d)"

text \<open>
  Modelled from the spec: the methods of \<^verbatim>\<open>RetentionPolicy\<close> and \<^verbatim>\<open>Shard\<close> that
  server.go calls are not among the sources. \<^verbatim>\<open>shardGroupByTimestamp\<close> is the group
  whose window \<open>[startTime, endTime)\<close> contains the timestamp, \<^verbatim>\<open>shardGroupByID\<close>
  the group with the id, \<^verbatim>\<open>removeShardGroupByID\<close> removes the groups with the id,
  and a shard has a data node id when it appears in its \<^verbatim>\<open>dataNodeIDs\<close>.
  \<^verbatim>\<open>newShard\<close> and \<^verbatim>\<open>newShardGroup\<close> return zero values, and the metastore's
  sequence generators hand out the next number.
\<close>

definition contains :: "ShardGroup \<Rightarrow> Time \<Rightarrow> bool" where
  "contains g t = (StartTime g \<le> t \<and> t < EndTime g)"

definition shardGroupByTimestamp :: "RetentionPolicy \<Rightarrow> Time \<Rightarrow> ShardGroup option" where
  "shardGroupByTimestamp rp t = find (\<lambda>g. contains g t) (shardGroups rp)"

definition shardGroupByID :: "RetentionPolicy \<Rightarrow> u64 \<Rightarrow> ShardGroup option" where
  "shardGroupByID rp gid = find (\<lambda>g. ShardGroup.ID g = gid) (shardGroups rp)"

definition removeShardGroupByID :: "RetentionPolicy \<Rightarrow> u64 \<Rightarrow> RetentionPolicy" where
  "removeShardGroupByID rp gid =
     rp\<lparr>shardGroups := filter (\<lambda>g. ShardGroup.ID g \<noteq> gid) (shardGroups rp)\<rparr>"

definition HasDataNodeID :: "Shard \<Rightarrow> u64 \<Rightarrow> bool" where
  "HasDataNodeID sh nid = List.member (DataNodeIDs sh) nid"

definition newShard :: Shard where
  "newShard = \<lparr>Shard.ID = 0, DataNodeIDs = []\<rparr>"

definition newShardGroup :: ShardGroup where
  "newShardGroup = \<lparr>ShardGroup.ID = 0, StartTime = 0, EndTime = 0, Shards = []\<rparr>"

definition nextShardGroupID :: "metastore \<Rightarrow> u64 \<times> metastore" where
  "nextShardGroupID m = (shardGroupSeq m + 1, m\<lparr>shardGroupSeq := shardGroupSeq m + 1\<rparr>)"

definition nextShardID :: "metastore \<Rightarrow> u64 \<times> metastore" where
  "nextShardID m = (shardSeq m + 1, m\<lparr>shardSeq := shardSeq m + 1\<rparr>)"

text \<open>The loop that generates an id for each shard of the new group.\<close>

fun assignShardIDs :: "metastore \<Rightarrow> Shard list \<Rightarrow> Shard list \<times> metastore" where
  "assignShardIDs m [] = ([], m)"
| "assignShardIDs m (sh # shs) =
     (let (i, m1) = nextShardID m;
          (shs', m2) = assignShardIDs m1 shs
      in (sh\<lparr>Shard.ID := i\<rparr> # shs', m2))"

text \<open>
  The round robin. \<open>appendReplicas nodes k nodeIndex sh\<close> is the inner loop with
  \<open>k\<close> iterations to go: it appends the id of \<^verbatim>\<open>nodes[nodeIndex%len(nodes)]\<close> and
  increments \<^verbatim>\<open>nodeIndex\<close>. \<open>assignDataNodes\<close> is the outer loop over the shards,
  which hands the running \<^verbatim>\<open>nodeIndex\<close> from one shard to the next. Both are called
  with a non-empty node list only (see the handler), and no Go \<^verbatim>\<open>int\<close> overflows:
  \<^verbatim>\<open>nodeIndex\<close> stays below twice the number of nodes.
\<close>

fun appendReplicas :: "DataNode list \<Rightarrow> nat \<Rightarrow> nat \<Rightarrow> Shard \<Rightarrow> Shard \<times> nat" where
  "appendReplicas nodes 0 nodeIndex sh = (sh, nodeIndex)"
| "appendReplicas nodes (Suc k) nodeIndex sh =
     appendReplicas nodes k (nodeIndex + 1)
       (sh\<lparr>DataNodeIDs := DataNodeIDs sh @ [DataNode.ID (nodes ! (nodeIndex mod length nodes))]\<rparr>)"

fun assignDataNodes :: "DataNode list \<Rightarrow> nat \<Rightarrow> nat \<Rightarrow> Shard list \<Rightarrow> Shard list" where
  "assignDataNodes nodes replicaN nodeIndex [] = []"
| "assignDataNodes nodes replicaN nodeIndex (sh # shs) =
     (let (sh', nodeIndex') = appendReplicas nodes replicaN nodeIndex sh
      in sh' # assignDataNodes nodes replicaN nodeIndex' shs)"

text \<open>
  Opening the stores of the shards assigned to this server, and entering the
  shards of the group into \<^verbatim>\<open>Server.shards\<close>.
\<close>

definition openShards :: "u64 \<Rightarrow> Shard list \<Rightarrow> (u64 \<rightharpoonup> store) \<Rightarrow> (u64 \<rightharpoonup> store)" where
  "openShards sid shs st =
     fold (\<lambda>sh st. if HasDataNodeID sh sid then st(Shard.ID sh \<mapsto> Map.empty) else st) shs st"

definition addShards :: "Shard list \<Rightarrow> (u64 \<rightharpoonup> Shard) \<Rightarrow> (u64 \<rightharpoonup> Shard)" where
  "addShards shs m = fold (\<lambda>sh m. m(Shard.ID sh \<mapsto> sh)) shs m"

record createShardGroupIfNotExistsCommand =
  Database :: string
  Policy :: string
  Timestamp :: Time

text \<open>
  \<^verbatim>\<open>applyCreateShardGroupIfNotExists\<close>, for a message with index \<open>mIndex\<close>.
  \<open>Inl\<close> is a panic: the integer division by zero when there is no data node, and
  the handler's own panic when a store cannot be opened (\<open>openShard\<close> gives the
  result of \<^verbatim>\<open>sh.open\<close> for a shard id). The group is appended to the policy
  inside the update's function, so it is in the catalog also when the update
  returns an error. Subscribing to the shards' topics acts on the broker only and
  its error is only logged.
\<close>

definition applyCreateShardGroupIfNotExists ::
  "(u64 \<Rightarrow> error option) \<Rightarrow> error option \<Rightarrow> u64 \<Rightarrow> createShardGroupIfNotExistsCommand
    \<Rightarrow> Server \<Rightarrow> string + (error option \<times> Server)" where
  "applyCreateShardGroupIfNotExists openShard persist mIndex c s =
     (case map_of (databases s) (createShardGroupIfNotExistsCommand.Database c) of
        None \<Rightarrow> Inr (Some ErrDatabaseNotFound, s)
      | Some db \<Rightarrow>
     (case map_of (policies db) (createShardGroupIfNotExistsCommand.Policy c) of
        None \<Rightarrow> Inr (Some ErrRetentionPolicyNotFound, s)
      | Some rp \<Rightarrow>
     (case shardGroupByTimestamp rp (Timestamp c) of
        Some g \<Rightarrow> Inr (None, s)
      | None \<Rightarrow>
         (let start = Truncate (Timestamp c) (RetentionPolicy.Duration rp);
              nodes = sort_key DataNode.ID (map snd (dataNodes s));
              replicaN =
                (if unat (RetentionPolicy.ReplicaN rp) = 0 then 1
                 else if unat (RetentionPolicy.ReplicaN rp) > length nodes then length nodes
                 else unat (RetentionPolicy.ReplicaN rp))
          in
            if replicaN = 0 then Inl ''integer divide by zero''
            else
              (let shardN = length nodes div replicaN;
                   (gid, m1) = nextShardGroupID (meta s);
                   (shs, m2) = assignShardIDs m1 (replicate shardN newShard)
               in
                 if length nodes = 0 then Inl ''integer divide by zero''
                 else
                   (let nodeIndex = unat mIndex mod length nodes;
                        g = newShardGroup
                              \<lparr>ShardGroup.ID := gid,
                               StartTime := start,
                               EndTime := start + RetentionPolicy.Duration rp,
                               Shards := assignDataNodes nodes replicaN nodeIndex shs\<rparr>;
                        rp' = rp\<lparr>shardGroups := shardGroups rp @ [g]\<rparr>;
                        db' = db\<lparr>policies :=
                                 AList.update (createShardGroupIfNotExistsCommand.Policy c) rp'
                                   (policies db)\<rparr>;
                        s1 = s\<lparr>meta := commit persist (meta s) m2,
                               databases :=
                                 AList.update (createShardGroupIfNotExistsCommand.Database c) db'
                                   (databases s)\<rparr>
                    in
                      (case persist of
                         Some e \<Rightarrow> Inr (Some e, s1)
                       | None \<Rightarrow>
                           if list_ex (\<lambda>sh. HasDataNodeID sh (server_id s)
                                          \<and> openShard (Shard.ID sh) \<noteq> None) (Shards g)
                           then Inl ''unable to open shard''
                           else Inr (None,
                                     s1\<lparr>stores := openShards (server_id s) (Shards g) (stores s1),
                                        shards := addShards (Shards g) (shards s1)\<rparr>))))))))"

record deleteShardGroupCommand =
  Database :: string
  Policy :: string
  ID :: u64

text \<open>
  \<^verbatim>\<open>applyDeleteShardGroup\<close>. The stores of the group's shards that this server
  holds are closed and their files removed; \<^verbatim>\<open>Server.shards\<close> is left as it is.
\<close>

definition applyDeleteShardGroup ::
  "error option \<Rightarrow> deleteShardGroupCommand \<Rightarrow> Server \<Rightarrow> error option \<times> Server" where
  "applyDeleteShardGroup persist c s =
     (case map_of (databases s) (deleteShardGroupCommand.Database c) of
        None \<Rightarrow> (Some ErrDatabaseNotFound, s)
      | Some db \<Rightarrow>
     (case map_of (policies db) (deleteShardGroupCommand.Policy c) of
        None \<Rightarrow> (Some ErrRetentionPolicyNotFound, s)
      | Some rp \<Rightarrow>
     (case shardGroupByID rp (deleteShardGroupCommand.ID c) of
        None \<Rightarrow> (None, s)
      | Some g \<Rightarrow>
         (let st = fold (\<lambda>sh st. if HasDataNodeID sh (server_id s)
                                   then st(Shard.ID sh := None) else st) (Shards g) (stores s);
              rp' = removeShardGroupByID rp (deleteShardGroupCommand.ID c);
              db' = db\<lparr>policies :=
                       AList.update (deleteShardGroupCommand.Policy c) rp' (policies db)\<rparr>
          in (persist,
              s\<lparr>stores := st,
                databases :=
                  AList.update (deleteShardGroupCommand.Database c) db' (databases s)\<rparr>)))))"

text \<open>The shard groups of a policy of a database, empty when either is missing.\<close>

definition policyGroups :: "string \<Rightarrow> string \<Rightarrow> Server \<Rightarrow> ShardGroup list" where
  "policyGroups dbName rpName s =
     (case map_of (databases s) dbName of
        None \<Rightarrow> []
      | Some db \<Rightarrow>
          (case map_of (policies db) rpName of
             None \<Rightarrow> []
           | Some rp \<Rightarrow> shardGroups rp))"

section \<open>Shard group windows\<close>

text \<open>
  The properties of the windows that the claims speak of. A group is a window of
  duration \<open>d\<close> when its start is a multiple of \<open>d\<close> (a fixed point of
  \<^verbatim>\<open>Truncate\<close>) and its end is its start plus \<open>d\<close>. The groups of a policy are
  aligned when each is a window of the policy's current duration and, for a
  positive duration, no two start at the same time. \<open>containing rp t\<close> lists the
  groups of a policy whose window contains \<open>t\<close>.
\<close>

definition window_of :: "Duration \<Rightarrow> ShardGroup \<Rightarrow> bool" where
  "window_of d g = (StartTime g = Truncate (StartTime g) d \<and> EndTime g = StartTime g + d)"

definition windows_aligned :: "RetentionPolicy \<Rightarrow> bool" where
  "windows_aligned rp =
     (list_all (window_of (RetentionPolicy.Duration rp)) (shardGroups rp)
      \<and> (if 0 < RetentionPolicy.Duration rp then distinct (map StartTime (shardGroups rp))
         else True))"

definition windows_inv :: "Server \<Rightarrow> bool" where
  "windows_inv s =
     list_all (\<lambda>db. list_all windows_aligned (map snd (policies db))) (map snd (databases s))"

definition containing :: "RetentionPolicy \<Rightarrow> Time \<Rightarrow> ShardGroup list" where
  "containing rp t = filter (\<lambda>g. contains g t) (shardGroups rp)"

definition windows_disjoint :: "Server \<Rightarrow> bool" where
  "windows_disjoint s =
     (\<forall>db \<in> snd ` set (databases s). \<forall>rp \<in> snd ` set (policies db).
        \<forall>t. length (containing rp t) \<le> 1)"

section \<open>Retention enforcement\<close>

text \<open>
  \<^verbatim>\<open>EnforceRetentionPolicies\<close>, as the list of delete-shard-group commands it
  broadcasts through \<^verbatim>\<open>DeleteShardGroup\<close> (whose error is only logged). The sweep
  reads the wall clock for every group; \<open>now\<close> stands for the time of the sweep.
  Each range loop runs over the databases, policies and shard groups as they are
  when the sweep starts.
\<close>

definition EnforceRetentionPolicies :: "Time \<Rightarrow> Server \<Rightarrow> deleteShardGroupCommand list" where
  "EnforceRetentionPolicies now s =
     concat (map (\<lambda>db.
       concat (map (\<lambda>rp.
         map (\<lambda>g. \<lparr>deleteShardGroupCommand.Database = name db,
                   deleteShardGroupCommand.Policy = RetentionPolicy.Name rp,
                   deleteShardGroupCommand.ID = ShardGroup.ID g\<rparr>)
           (filter (\<lambda>g. EndTime g + RetentionPolicy.Duration rp < now) (shardGroups rp)))
         (map snd (policies db))))
       (map snd (databases s)))"

section \<open>Write path\<close>

text \<open>A broker message: its type, topic id, index and payload.\<close>

record Message =
  Type :: byte
  TopicID :: u64
  Index :: u64
  Data :: "byte list"

text \<open>
  A point: the values are Go values of any type (\<^verbatim>\<open>interface{}\<close>), whose data
  type \<^verbatim>\<open>influxql.InspectDataType\<close> tells; that function of the query language
  package is the parameter \<open>InspectDataType\<close> below. The create-measurements
  command keeps its measurements, tag sets and fields in maps.
\<close>

record 'v Point =
  Name :: string
  Tags :: Tags
  Timestamp :: Time
  Values :: "(string \<times> 'v) list"

record createMeasurementSubcommand =
  Name :: string
  Tags :: "(string \<times> Tags) list"
  Fields :: "(string \<times> DataType) list"

record createMeasurementsIfNotExistsCommand =
  Database :: string
  Measurements :: "(string \<times> createMeasurementSubcommand) list"

text \<open>
  \<^verbatim>\<open>newCreateMeasurementsIfNotExistsCommand\<close>, \<^verbatim>\<open>addMeasurementIfNotExists\<close>,
  \<^verbatim>\<open>addSeriesIfNotExists\<close> and \<^verbatim>\<open>addFieldIfNotExists\<close>, each returning its error
  and the command it leaves. \<^verbatim>\<open>marshalTags\<close>, which turns a tag set into its
  canonical string, is not in server.go and is a parameter.
\<close>

definition newCreateMeasurementsIfNotExistsCommand ::
  "string \<Rightarrow> createMeasurementsIfNotExistsCommand" where
  "newCreateMeasurementsIfNotExistsCommand database =
     \<lparr>createMeasurementsIfNotExistsCommand.Database = database, Measurements = []\<rparr>"

definition addMeasurementIfNotExists ::
  "createMeasurementsIfNotExistsCommand \<Rightarrow> string
    \<Rightarrow> error option \<times> createMeasurementsIfNotExistsCommand" where
  "addMeasurementIfNotExists c nm =
     (case map_of (Measurements c) nm of
        Some sub \<Rightarrow> (None, c)
      | None \<Rightarrow>
          (None, c\<lparr>Measurements := AList.update nm
             \<lparr>createMeasurementSubcommand.Name = nm, createMeasurementSubcommand.Tags = [],
              createMeasurementSubcommand.Fields = []\<rparr> (Measurements c)\<rparr>))"

definition addSeriesIfNotExists ::
  "(Tags \<Rightarrow> string) \<Rightarrow> createMeasurementsIfNotExistsCommand \<Rightarrow> string \<Rightarrow> Tags
    \<Rightarrow> error option \<times> createMeasurementsIfNotExistsCommand" where
  "addSeriesIfNotExists marshalTags c measurement tags =
     (case map_of (Measurements c) measurement of
        None \<Rightarrow> (Some ErrMeasurementNotFound, c)
      | Some sub \<Rightarrow>
          (let tagset = marshalTags tags in
           case map_of (createMeasurementSubcommand.Tags sub) tagset of
             Some ts \<Rightarrow> (None, c)
           | None \<Rightarrow>
               (None, c\<lparr>Measurements := AList.update measurement
                  (sub\<lparr>createMeasurementSubcommand.Tags :=
                          AList.update tagset tags (createMeasurementSubcommand.Tags sub)\<rparr>)
                  (Measurements c)\<rparr>)))"

definition addFieldIfNotExists ::
  "createMeasurementsIfNotExistsCommand \<Rightarrow> string \<Rightarrow> string \<Rightarrow> DataType
    \<Rightarrow> error option \<times> createMeasurementsIfNotExistsCommand" where
  "addFieldIfNotExists c measurement nm typ =
     (case map_of (Measurements c) measurement of
        None \<Rightarrow> (Some ErrMeasurementNotFound, c)
      | Some sub \<Rightarrow>
          (case map_of (Fields sub) nm of
             Some t \<Rightarrow> if typ \<noteq> t then (Some ErrFieldTypeConflict, c) else (None, c)
           | None \<Rightarrow>
               (None, c\<lparr>Measurements := AList.update measurement
                  (sub\<lparr>Fields := AList.update nm typ (Fields sub)\<rparr>) (Measurements c)\<rparr>)))"

text \<open>
  Modelled from the spec: \<^verbatim>\<open>database.MeasurementAndSeries\<close> and
  \<^verbatim>\<open>Measurement.FieldByName\<close> are not in server.go. The first looks the
  measurement up by name and then the series by tag set, the second finds the
  field with the name in the measurement's ordered list of fields.
\<close>

definition MeasurementAndSeries ::
  "(Tags \<Rightarrow> string) \<Rightarrow> database \<Rightarrow> string \<Rightarrow> Tags \<Rightarrow> Measurement option \<times> Series option" where
  "MeasurementAndSeries marshalTags db nm tags =
     (case map_of (measurements db) nm of
        None \<Rightarrow> (None, None)
      | Some m \<Rightarrow>
          (Some m, find (\<lambda>sr. marshalTags (Series.Tags sr) = marshalTags tags) (series m)))"

definition FieldByName :: "Measurement \<Rightarrow> string \<Rightarrow> Field option" where
  "FieldByName m nm = find (\<lambda>f. Field.Name f = nm) (Measurement.Fields m)"

text \<open>
  The loop over \<^verbatim>\<open>p.Values\<close> inside the local function of
  \<^verbatim>\<open>createMeasurementsIfNotExists\<close>; a \<open>Some\<close> error is the local function's
  \<^verbatim>\<open>return\<close>. The text of the formatted error is shortened.
\<close>

fun addValues ::
  "('v \<Rightarrow> DataType) \<Rightarrow> Measurement option \<Rightarrow> string \<Rightarrow> (string \<times> 'v) list
    \<Rightarrow> createMeasurementsIfNotExistsCommand
    \<Rightarrow> error option \<times> createMeasurementsIfNotExistsCommand" where
  "addValues InspectDataType measurement pname [] c = (None, c)"
| "addValues InspectDataType measurement pname ((k, v) # kvs) c =
     (case measurement of
        Some m \<Rightarrow>
          (case FieldByName m k of
             Some f \<Rightarrow>
               if Field.Type f \<noteq> InspectDataType v
               then (Some (Errorf (''field type conflict: '' @ k)), c)
               else
                 (case addFieldIfNotExists c pname k (InspectDataType v) of
                    (Some err, c') \<Rightarrow> (Some err, c')
                  | (None, c') \<Rightarrow> addValues InspectDataType measurement pname kvs c')
           | None \<Rightarrow> addValues InspectDataType measurement pname kvs c)
      | None \<Rightarrow>
          (case addFieldIfNotExists c pname k (InspectDataType v) of
             (Some err, c') \<Rightarrow> (Some err, c')
           | (None, c') \<Rightarrow> addValues InspectDataType measurement pname kvs c'))"

text \<open>The loop over the points inside the local function.\<close>

fun addPoints ::
  "(Tags \<Rightarrow> string) \<Rightarrow> ('v \<Rightarrow> DataType) \<Rightarrow> database \<Rightarrow> 'v Point list
    \<Rightarrow> createMeasurementsIfNotExistsCommand
    \<Rightarrow> error option \<times> createMeasurementsIfNotExistsCommand" where
  "addPoints marshalTags InspectDataType db [] c = (None, c)"
| "addPoints marshalTags InspectDataType db (p # ps) c =
     (case MeasurementAndSeries marshalTags db (Point.Name p) (Point.Tags p) of
        (measurement, sr) \<Rightarrow>
          (let c1 = (if measurement = None
                     then snd (addMeasurementIfNotExists c (Point.Name p)) else c);
               c2 = (if sr = None
                     then snd (addSeriesIfNotExists marshalTags c1 (Point.Name p) (Point.Tags p))
                     else c1)
           in
             (case addValues InspectDataType measurement (Point.Name p) (Values p) c2 of
                (Some err, c3) \<Rightarrow> (Some err, c3)
              | (None, c3) \<Rightarrow> addPoints marshalTags InspectDataType db ps c3)))"

text \<open>
  The local function of \<^verbatim>\<open>createMeasurementsIfNotExists\<close>
  (\<^verbatim>\<open>func() error { ... }()\<close>): the error it returns and the command it has built.
\<close>

definition localCheck ::
  "(Tags \<Rightarrow> string) \<Rightarrow> ('v \<Rightarrow> DataType) \<Rightarrow> Server \<Rightarrow> string \<Rightarrow> 'v Point list
    \<Rightarrow> error option \<times> createMeasurementsIfNotExistsCommand" where
  "localCheck marshalTags InspectDataType s database points =
     (case map_of (databases s) database of
        None \<Rightarrow> (Some (Errorf (''database not found '' @ database)),
                 newCreateMeasurementsIfNotExistsCommand database)
      | Some db \<Rightarrow>
          addPoints marshalTags InspectDataType db points
            (newCreateMeasurementsIfNotExistsCommand database))"

text \<open>
  \<^verbatim>\<open>createMeasurementsIfNotExists\<close>. The call of the local function is a
  statement of its own, so the error it returns is dropped and only the command
  is used. \<open>broadcast\<close> stands for \<^verbatim>\<open>s.broadcast\<close> of the command: the error that
  comes back from the broker or from the apply, and the server after it.
\<close>

definition createMeasurementsIfNotExists ::
  "(Tags \<Rightarrow> string) \<Rightarrow> ('v \<Rightarrow> DataType)
    \<Rightarrow> (createMeasurementsIfNotExistsCommand \<Rightarrow> Server \<Rightarrow> error option \<times> Server)
    \<Rightarrow> Server \<Rightarrow> string \<Rightarrow> string \<Rightarrow> 'v Point list \<Rightarrow> error option \<times> Server" where
  "createMeasurementsIfNotExists marshalTags InspectDataType broadcast s database retentionPolicy
       points =
     (let c = snd (localCheck marshalTags InspectDataType s database points)
      in if length (Measurements c) > 0
         then (case broadcast c s of
                 (Some err, s') \<Rightarrow> (Some err, s')
               | (None, s') \<Rightarrow> (None, s'))
         else (None, s))"

text \<open>
  Modelled from the spec: \<^verbatim>\<open>database.addSeriesToIndex\<close> and
  \<^verbatim>\<open>Measurement.createFieldIfNotExists\<close> are not in server.go. The first adds the
  series to the measurement with the name, which it creates when the database
  has none. The second keeps a field that exists (with the type-conflict error
  when the types differ) and otherwise appends the field under the next field
  id, with the overflow error when the ids of a byte are used up.
\<close>

definition addSeriesToIndex :: "database \<Rightarrow> string \<Rightarrow> Series \<Rightarrow> database" where
  "addSeriesToIndex db nm sr =
     (let m = (case map_of (measurements db) nm of
                 None \<Rightarrow> \<lparr>Measurement.Name = nm, Measurement.Fields = [], series = []\<rparr>
               | Some m \<Rightarrow> m)
      in db\<lparr>measurements := AList.update nm (m\<lparr>series := series m @ [sr]\<rparr>) (measurements db)\<rparr>)"

definition createFieldIfNotExists ::
  "Measurement \<Rightarrow> string \<Rightarrow> DataType \<Rightarrow> error option \<times> Measurement" where
  "createFieldIfNotExists m nm typ =
     (case FieldByName m nm of
        Some f \<Rightarrow> (if Field.Type f \<noteq> typ then Some ErrFieldTypeConflict else None, m)
      | None \<Rightarrow>
          if length (Measurement.Fields m) + 1 > 255 then (Some ErrFieldOverflow, m)
          else (None,
                m\<lparr>Measurement.Fields := Measurement.Fields m @
                     [\<lparr>Field.ID = of_nat (length (Measurement.Fields m) + 1), Field.Name = nm,
                       Field.Type = typ\<rparr>]\<rparr>))"

text \<open>
  The three loops of the function that \<^verbatim>\<open>applyCreateMeasurementsIfNotExists\<close>
  runs inside the metastore update: over the tag sets of a measurement of the
  command, over its fields, and over the measurements. \<open>createSeries\<close> and
  \<open>saveMeasurement\<close> stand for \<^verbatim>\<open>tx.createSeries\<close> (which also chooses the id of
  the series) and \<^verbatim>\<open>tx.saveMeasurement\<close>, \<open>persist\<close> is the error of
  \<^verbatim>\<open>tx.saveDatabase\<close>. What has been changed in the database before an error stays
  changed. \<open>Inl\<close> is the handler's panic for a measurement that does not exist.
\<close>

fun createSeriesAll ::
  "(Tags \<Rightarrow> string) \<Rightarrow> (string \<Rightarrow> string \<Rightarrow> Tags \<Rightarrow> error + Series) \<Rightarrow> string \<Rightarrow> Tags list
    \<Rightarrow> database \<Rightarrow> error option \<times> database" where
  "createSeriesAll marshalTags createSeries nm [] db = (None, db)"
| "createSeriesAll marshalTags createSeries nm (t # ts) db =
     (case snd (MeasurementAndSeries marshalTags db nm t) of
        Some ss \<Rightarrow> createSeriesAll marshalTags createSeries nm ts db
      | None \<Rightarrow>
          (case createSeries (name db) nm t of
             Inl err \<Rightarrow> (Some err, db)
           | Inr sr \<Rightarrow> createSeriesAll marshalTags createSeries nm ts (addSeriesToIndex db nm sr)))"

fun createFieldsAll ::
  "(string \<Rightarrow> Measurement \<Rightarrow> error option) \<Rightarrow> string \<Rightarrow> (string \<times> DataType) list \<Rightarrow> Measurement
    \<Rightarrow> error option \<times> Measurement" where
  "createFieldsAll saveMeasurement dbname [] mm = (None, mm)"
| "createFieldsAll saveMeasurement dbname ((k, v) # fs) mm =
     (case createFieldIfNotExists mm k v of
        (Some err, mm') \<Rightarrow>
          if err = ErrFieldOverflow \<or> err = ErrFieldTypeConflict
          then createFieldsAll saveMeasurement dbname fs mm'
          else (Some err, mm')
      | (None, mm') \<Rightarrow>
          (case saveMeasurement dbname mm' of
             Some err \<Rightarrow> (Some (Errorf ''save measurement''), mm')
           | None \<Rightarrow> createFieldsAll saveMeasurement dbname fs mm'))"

fun createMeasurementsAll ::
  "(Tags \<Rightarrow> string) \<Rightarrow> (string \<Rightarrow> string \<Rightarrow> Tags \<Rightarrow> error + Series)
    \<Rightarrow> (string \<Rightarrow> Measurement \<Rightarrow> error option) \<Rightarrow> error option
    \<Rightarrow> (string \<times> createMeasurementSubcommand) list \<Rightarrow> database
    \<Rightarrow> string + (error option \<times> database)" where
  "createMeasurementsAll marshalTags createSeries saveMeasurement persist [] db = Inr (None, db)"
| "createMeasurementsAll marshalTags createSeries saveMeasurement persist ((k, cm) # cms) db =
     (case createSeriesAll marshalTags createSeries (createMeasurementSubcommand.Name cm)
             (map snd (createMeasurementSubcommand.Tags cm)) db of
        (Some err, db1) \<Rightarrow> Inr (Some err, db1)
      | (None, db1) \<Rightarrow>
          (case map_of (measurements db1) (createMeasurementSubcommand.Name cm) of
             None \<Rightarrow> Inl ''Measurement does not exist''
           | Some mm \<Rightarrow>
               (case createFieldsAll saveMeasurement (name db1)
                       (createMeasurementSubcommand.Fields cm) mm of
                  (r, mm') \<Rightarrow>
                    (let db2 = db1\<lparr>measurements :=
                                  AList.update (createMeasurementSubcommand.Name cm) mm'
                                    (measurements db1)\<rparr>
                     in case r of
                          Some err \<Rightarrow> Inr (Some err, db2)
                        | None \<Rightarrow>
                            (case persist of
                               Some err \<Rightarrow> Inr (Some (Errorf ''save database''), db2)
                             | None \<Rightarrow>
                                 createMeasurementsAll marshalTags createSeries saveMeasurement
                                   persist cms db2)))))"

text \<open>\<^verbatim>\<open>applyCreateMeasurementsIfNotExists\<close>.\<close>

definition applyCreateMeasurementsIfNotExists ::
  "(Tags \<Rightarrow> string) \<Rightarrow> (string \<Rightarrow> string \<Rightarrow> Tags \<Rightarrow> error + Series)
    \<Rightarrow> (string \<Rightarrow> Measurement \<Rightarrow> error option) \<Rightarrow> error option
    \<Rightarrow> createMeasurementsIfNotExistsCommand \<Rightarrow> Server \<Rightarrow> string + (error option \<times> Server)" where
  "applyCreateMeasurementsIfNotExists marshalTags createSeries saveMeasurement persist c s =
     (case map_of (databases s) (createMeasurementsIfNotExistsCommand.Database c) of
        None \<Rightarrow> Inr (Some ErrDatabaseNotFound, s)
      | Some db \<Rightarrow>
          (case createMeasurementsAll marshalTags createSeries saveMeasurement persist
                  (Measurements c) db of
             Inl pn \<Rightarrow> Inl pn
           | Inr (err, db') \<Rightarrow>
               Inr (err,
                    s\<lparr>databases :=
                        AList.update (createMeasurementsIfNotExistsCommand.Database c) db'
                          (databases s)\<rparr>)))"

text \<open>\<^verbatim>\<open>DefaultRetentionPolicy\<close>.\<close>

definition DefaultRetentionPolicy :: "Server \<Rightarrow> string \<Rightarrow> error + RetentionPolicy option" where
  "DefaultRetentionPolicy s database =
     (case map_of (databases s) database of
        None \<Rightarrow> Inl ErrDatabaseNotFound
      | Some db \<Rightarrow> Inr (map_of (policies db) (defaultRetentionPolicy db)))"

text \<open>
  Modelled from the spec: \<^verbatim>\<open>database.shardGroupByTimestamp\<close> is not in server.go;
  it gives the policy-not-found error for a policy the database does not have,
  and otherwise the policy's group for the timestamp.
\<close>

definition database_shardGroupByTimestamp ::
  "database \<Rightarrow> string \<Rightarrow> Time \<Rightarrow> error + ShardGroup option" where
  "database_shardGroupByTimestamp db policy timestamp =
     (case map_of (policies db) policy of
        None \<Rightarrow> Inl ErrRetentionPolicyNotFound
      | Some rp \<Rightarrow> Inr (shardGroupByTimestamp rp timestamp))"

text \<open>\<^verbatim>\<open>Server.shardGroupByTimestamp\<close>.\<close>

definition Server_shardGroupByTimestamp ::
  "Server \<Rightarrow> string \<Rightarrow> string \<Rightarrow> Time \<Rightarrow> error + ShardGroup option" where
  "Server_shardGroupByTimestamp s database policy timestamp =
     (case map_of (databases s) database of
        None \<Rightarrow> Inl ErrDatabaseNotFound
      | Some db \<Rightarrow> database_shardGroupByTimestamp db policy timestamp)"

text \<open>
  \<^verbatim>\<open>createShardGroupsIfNotExists\<close>. \<open>createGroup\<close> stands for the method
  \<^verbatim>\<open>CreateShardGroupIfNotExists\<close>, which broadcasts the command and waits for its
  apply: the error that comes back and the server after it. The text of the
  formatted error is shortened.
\<close>

fun createShardGroupsIfNotExists ::
  "(createShardGroupIfNotExistsCommand \<Rightarrow> Server \<Rightarrow> error option \<times> Server)
    \<Rightarrow> Server \<Rightarrow> string \<Rightarrow> string \<Rightarrow> 'v Point list \<Rightarrow> error option \<times> Server" where
  "createShardGroupsIfNotExists createGroup s database retentionPolicy [] =
     (None, s)"
| "createShardGroupsIfNotExists createGroup s database retentionPolicy (p # ps) =
     (case Server_shardGroupByTimestamp s database retentionPolicy (Point.Timestamp p) of
        Inl err \<Rightarrow> (Some err, s)
      | Inr (Some g) \<Rightarrow>
          createShardGroupsIfNotExists createGroup s database retentionPolicy ps
      | Inr None \<Rightarrow>
          (case createGroup
                  \<lparr>createShardGroupIfNotExistsCommand.Database = database,
                   createShardGroupIfNotExistsCommand.Policy = retentionPolicy,
                   createShardGroupIfNotExistsCommand.Timestamp = Point.Timestamp p\<rparr> s of
             (Some err, s') \<Rightarrow> (Some (Errorf ''create shard''), s')
           | (None, s') \<Rightarrow>
               createShardGroupsIfNotExists createGroup s' database
                 retentionPolicy ps))"

text \<open>
  Modelled from the spec: \<^verbatim>\<open>ShardGroup.ShardBySeriesID\<close> is not in server.go; the
  spec routes a series to \<open>group.shards[seriesID mod |shards|]\<close>. \<open>Inl\<close> is the panic
  of the division when the group has no shard.
\<close>

definition ShardBySeriesID :: "ShardGroup \<Rightarrow> u32 \<Rightarrow> string + Shard" where
  "ShardBySeriesID g seriesID =
     (if Shards g = [] then Inl ''integer divide by zero''
      else Inr (Shards g ! (unat seriesID mod length (Shards g))))"

text \<open>
  The loop of \<^verbatim>\<open>WriteSeries\<close> over the points, which builds the payload of each
  shard in the map \<^verbatim>\<open>shardData\<close>. \<open>Inl\<close> is a panic (of the code's own
  \<^verbatim>\<open>panic("series not found")\<close> and \<^verbatim>\<open>panic("field codec is nil")\<close>, or of the
  call of \<^verbatim>\<open>ShardBySeriesID\<close> on a \<^verbatim>\<open>nil\<close> group); \<open>Inr (Inl err)\<close> is the
  \<^verbatim>\<open>return 0, err\<close> of the loop. The field codec (\<^verbatim>\<open>NewFieldCodec\<close>,
  \<^verbatim>\<open>EncodeFields\<close>) and \<^verbatim>\<open>marshalPointHeader\<close> are not in server.go and are
  parameters; the third argument of \<open>marshalPointHeader\<close> is the time whose
  \<^verbatim>\<open>UnixNano\<close> the code passes.
\<close>

fun buildShardData ::
  "(Tags \<Rightarrow> string) \<Rightarrow> (Measurement option \<Rightarrow> 'c option)
    \<Rightarrow> ('c \<Rightarrow> (string \<times> 'v) list \<Rightarrow> error + byte list) \<Rightarrow> (u32 \<Rightarrow> u32 \<Rightarrow> Time \<Rightarrow> byte list)
    \<Rightarrow> Server \<Rightarrow> string \<Rightarrow> string \<Rightarrow> 'v Point list \<Rightarrow> (u64 \<times> byte list) list
    \<Rightarrow> string + (error + (u64 \<times> byte list) list)" where
  "buildShardData marshalTags NewFieldCodec EncodeFields marshalPointHeader s database
       retentionPolicy [] shardData = Inr (Inr shardData)"
| "buildShardData marshalTags NewFieldCodec EncodeFields marshalPointHeader s database
       retentionPolicy (p # ps) shardData =
     (case map_of (databases s) database of
        None \<Rightarrow> Inr (Inl (Errorf (''database not found '' @ database)))
      | Some db \<Rightarrow>
     (case MeasurementAndSeries marshalTags db (Point.Name p) (Point.Tags p) of
        (measurement, None) \<Rightarrow> Inl ''series not found''
      | (measurement, Some sr) \<Rightarrow>
     (case Server_shardGroupByTimestamp s database retentionPolicy (Point.Timestamp p) of
        Inl err \<Rightarrow> Inr (Inl err)
      | Inr None \<Rightarrow> Inl ''nil pointer dereference''
      | Inr (Some g) \<Rightarrow>
     (case ShardBySeriesID g (Series.ID sr) of
        Inl pn \<Rightarrow> Inl pn
      | Inr sh \<Rightarrow>
     (case NewFieldCodec measurement of
        None \<Rightarrow> Inl ''field codec is nil''
      | Some codec \<Rightarrow>
     (case EncodeFields codec (Values p) of
        Inl err \<Rightarrow> Inr (Inl err)
      | Inr encodedFields \<Rightarrow>
          (let data = marshalPointHeader (Series.ID sr) (of_nat (length encodedFields))
                        (Point.Timestamp p) @ encodedFields;
               batch = (case map_of shardData (Shard.ID sh) of None \<Rightarrow> [] | Some d \<Rightarrow> d)
           in buildShardData marshalTags NewFieldCodec EncodeFields marshalPointHeader s database
                retentionPolicy ps (AList.update (Shard.ID sh) (batch @ data) shardData))))))))"

text \<open>
  The loop of \<^verbatim>\<open>WriteSeries\<close> that publishes the payload of each shard;
  \<open>Publish\<close> gives the index and the error that the broker's client returns for a
  message.
\<close>

definition writeRawSeriesMessageType :: byte where
  "writeRawSeriesMessageType = 0x70"

fun publishAll ::
  "(Message \<Rightarrow> u64 \<times> error option) \<Rightarrow> (u64 \<times> byte list) list \<Rightarrow> u64 \<Rightarrow> u64 \<times> error option" where
  "publishAll Publish [] maxIndex = (maxIndex, None)"
| "publishAll Publish ((i, d) # rest) maxIndex =
     (case Publish \<lparr>Message.Type = writeRawSeriesMessageType, TopicID = i, Index = 0, Data = d\<rparr> of
        (idx, Some err) \<Rightarrow> (maxIndex, Some err)
      | (idx, None) \<Rightarrow> publishAll Publish rest (if idx > maxIndex then idx else maxIndex))"

text \<open>
  \<^verbatim>\<open>WriteSeries\<close>. The result is the index and the error, with the server that
  the broadcasts have left, or \<open>Inl\<close> for a panic.
\<close>

definition WriteSeries ::
  "(Tags \<Rightarrow> string) \<Rightarrow> ('v \<Rightarrow> DataType)
    \<Rightarrow> (createMeasurementsIfNotExistsCommand \<Rightarrow> Server \<Rightarrow> error option \<times> Server)
    \<Rightarrow> (createShardGroupIfNotExistsCommand \<Rightarrow> Server \<Rightarrow> error option \<times> Server)
    \<Rightarrow> (Measurement option \<Rightarrow> 'c option) \<Rightarrow> ('c \<Rightarrow> (string \<times> 'v) list \<Rightarrow> error + byte list)
    \<Rightarrow> (u32 \<Rightarrow> u32 \<Rightarrow> Time \<Rightarrow> byte list) \<Rightarrow> (Message \<Rightarrow> u64 \<times> error option)
    \<Rightarrow> Server \<Rightarrow> string \<Rightarrow> string \<Rightarrow> 'v Point list
    \<Rightarrow> string + ((u64 \<times> error option) \<times> Server)" where
  "WriteSeries marshalTags InspectDataType broadcast createGroup NewFieldCodec
       EncodeFields marshalPointHeader Publish s database retentionPolicy points =
     (case (if retentionPolicy = [] then
              (case DefaultRetentionPolicy s database of
                 Inl err \<Rightarrow> Inl (Errorf ''failed to determine default retention policy'')
               | Inr None \<Rightarrow> Inl ErrDefaultRetentionPolicyNotFound
               | Inr (Some rp) \<Rightarrow> Inr (RetentionPolicy.Name rp))
            else Inr retentionPolicy) of
        Inl err \<Rightarrow> Inr ((0, Some err), s)
      | Inr rpName \<Rightarrow>
     (case createMeasurementsIfNotExists marshalTags InspectDataType broadcast s database
             rpName points of
        (Some err, s1) \<Rightarrow> Inr ((0, Some err), s1)
      | (None, s1) \<Rightarrow>
     (case createShardGroupsIfNotExists createGroup s1 database rpName points of
        (Some err, s2) \<Rightarrow> Inr ((0, Some err), s2)
      | (None, s2) \<Rightarrow>
     (case buildShardData marshalTags NewFieldCodec EncodeFields marshalPointHeader s2 database
             rpName points [] of
        Inl pn \<Rightarrow> Inl pn
      | Inr (Inl err) \<Rightarrow> Inr ((0, Some err), s2)
      | Inr (Inr shardData) \<Rightarrow> Inr (publishAll Publish shardData 0, s2)))))"

section \<open>Raw series writes\<close>

text \<open>
  Modelled from the spec: the point header (\<^verbatim>\<open>pointHeaderSize\<close>,
  \<^verbatim>\<open>unmarshalPointHeader\<close>) is declared outside server.go. A record is
  \<open>[seriesID:u32 | payloadLen:u32 | unixNanoTs:i64 | encodedFields]\<close>, so the header
  has 16 bytes; the spec leaves the byte order open, and \<^verbatim>\<open>unmarshalPointHeader\<close>
  is a parameter of the handler.
\<close>

definition pointHeaderSize :: nat where
  "pointHeaderSize = 4 + 4 + 8"

text \<open>\<^verbatim>\<open>addShardBySeriesID\<close>.\<close>

definition addShardBySeriesID :: "Shard \<Rightarrow> u32 \<Rightarrow> Server \<Rightarrow> Server" where
  "addShardBySeriesID sh seriesID s =
     (if list_ex (\<lambda>other. Shard.ID other = Shard.ID sh) (shardsBySeriesID s seriesID) then s
      else s\<lparr>shardsBySeriesID :=
               (shardsBySeriesID s)(seriesID := shardsBySeriesID s seriesID @ [sh])\<rparr>)"

text \<open>
  Modelled from the spec: \<^verbatim>\<open>Shard.writeSeries\<close> stores the bytes under the series
  id and timestamp, keeping an existing entry only when \<^verbatim>\<open>overwrite\<close> is false.
  \<open>storeError\<close> gives the error of the store, if any.
\<close>

definition writeSeries ::
  "(u32 \<Rightarrow> int \<Rightarrow> error option) \<Rightarrow> Shard \<Rightarrow> u32 \<Rightarrow> int \<Rightarrow> byte list \<Rightarrow> bool \<Rightarrow> Server
    \<Rightarrow> error option \<times> Server" where
  "writeSeries storeError sh seriesID timestamp data overwrite s =
     (case storeError seriesID timestamp of
        Some err \<Rightarrow> (Some err, s)
      | None \<Rightarrow>
          (let st = (case stores s (Shard.ID sh) of None \<Rightarrow> Map.empty | Some st \<Rightarrow> st);
               st' = (if \<not> overwrite \<and> st (seriesID, timestamp) \<noteq> None then st
                      else st((seriesID, timestamp) \<mapsto> data))
           in (None, s\<lparr>stores := (stores s)(Shard.ID sh \<mapsto> st')\<rparr>)))"

text \<open>
  The loop of \<^verbatim>\<open>applyWriteRawSeries\<close>, with fuel: \<open>None\<close> means that the loop is
  still running when the fuel is used up, \<open>Inl\<close> is a panic of a slice expression
  (the capacity of \<^verbatim>\<open>m.Data\<close> is taken to be its length). The variable \<^verbatim>\<open>i\<close> is
  declared before the loop and never assigned; the body reads the header at the
  start of \<^verbatim>\<open>m.Data\<close> in every iteration and slices the payload as
  \<^verbatim>\<open>m.Data[pointHeaderSize:payloadLength]\<close>.
\<close>

fun applyWriteRawSeries_loop ::
  "(byte list \<Rightarrow> u32 \<times> u32 \<times> int) \<Rightarrow> (u32 \<Rightarrow> int \<Rightarrow> error option) \<Rightarrow> nat \<Rightarrow> Message
    \<Rightarrow> Shard \<Rightarrow> int \<Rightarrow> Server \<Rightarrow> (string + (error option \<times> Server)) option" where
  "applyWriteRawSeries_loop unmarshalPointHeader storeError 0 m sh i s = None"
| "applyWriteRawSeries_loop unmarshalPointHeader storeError (Suc fuel) m sh i s =
     (if length (Data m) < pointHeaderSize then Some (Inl ''slice bounds out of range'')
      else
        (case unmarshalPointHeader (take pointHeaderSize (Data m)) of
           (seriesID, payloadLength, timestamp) \<Rightarrow>
             if unat payloadLength < pointHeaderSize \<or> length (Data m) < unat payloadLength
             then Some (Inl ''slice bounds out of range'')
             else
               (let data = drop pointHeaderSize (take (unat payloadLength) (Data m));
                    s1 = addShardBySeriesID sh seriesID s
                in
                  (case writeSeries storeError sh seriesID timestamp data True s1 of
                     (Some err, s2) \<Rightarrow> Some (Inr (Some err, s2))
                   | (None, s2) \<Rightarrow>
                       if i > int (length (Data m)) then Some (Inr (None, s2))
                       else applyWriteRawSeries_loop unmarshalPointHeader storeError fuel m sh i s2))))"

text \<open>\<^verbatim>\<open>applyWriteRawSeries\<close>: \<^verbatim>\<open>var i int\<close> starts the loop with \<open>i = 0\<close>.\<close>

definition applyWriteRawSeries ::
  "(byte list \<Rightarrow> u32 \<times> u32 \<times> int) \<Rightarrow> (u32 \<Rightarrow> int \<Rightarrow> error option) \<Rightarrow> nat \<Rightarrow> Message
    \<Rightarrow> Server \<Rightarrow> (string + (error option \<times> Server)) option" where
  "applyWriteRawSeries unmarshalPointHeader storeError fuel m s =
     (case shards s (TopicID m) of
        None \<Rightarrow> Some (Inr (Some ErrShardNotFound, s))
      | Some sh \<Rightarrow> applyWriteRawSeries_loop unmarshalPointHeader storeError fuel m sh 0 s)"

section \<open>Continuous queries\<close>

record createContinuousQueryCommand =
  Query :: string

text \<open>
  Modelled from the spec: \<^verbatim>\<open>database.continuousQueryByName\<close> is not in server.go;
  it finds the continuous query of the database with the name.
\<close>

definition continuousQueryByName :: "database \<Rightarrow> string \<Rightarrow> ContinuousQuery option" where
  "continuousQueryByName db nm = find (\<lambda>cq. cq_Name cq = nm) (continuousQueries db)"

text \<open>
  \<^verbatim>\<open>applyCreateContinuousQueryCommand\<close>. \<^verbatim>\<open>NewContinuousQuery\<close> parses the query
  with the parser of the query language package and is a parameter, as is the
  normalization of the parsed statement (\<open>NormalizeStatement\<close>, which gives the
  error or the continuous query with its statement normalized). The result of
  the metastore update is dropped by the code.
\<close>

definition applyCreateContinuousQueryCommand ::
  "(string \<Rightarrow> error + ContinuousQuery) \<Rightarrow> (Server \<Rightarrow> ContinuousQuery \<Rightarrow> error + ContinuousQuery)
    \<Rightarrow> createContinuousQueryCommand \<Rightarrow> Server \<Rightarrow> error option \<times> Server" where
  "applyCreateContinuousQueryCommand NewContinuousQuery NormalizeStatement c s =
     (case NewContinuousQuery (createContinuousQueryCommand.Query c) of
        Inl err \<Rightarrow> (Some err, s)
      | Inr parsed \<Rightarrow>
          (case NormalizeStatement s parsed of
             Inl err \<Rightarrow> (Some err, s)
           | Inr cq \<Rightarrow>
               if map_of (databases s) (intoDB cq) = None then (Some ErrDatabaseNotFound, s)
               else
                 (case map_of (databases s) (cq_Database cq) of
                    None \<Rightarrow> (Some ErrDatabaseNotFound, s)
                  | Some db \<Rightarrow>
                      if continuousQueryByName db (cq_Name cq) \<noteq> None
                      then (Some ErrContinuousQueryExists, s)
                      else
                        (None,
                         s\<lparr>databases :=
                             AList.update (cq_Database cq)
                               (db\<lparr>continuousQueries := continuousQueries db @ [cq]\<rparr>)
                               (databases s)\<rparr>))))"

section \<open>The apply engine\<close>

text \<open>
  The type switch of \<^verbatim>\<open>processor\<close>. A broker message is modelled by its decoded
  command, one constructor for each message type of the switch (the message
  itself for a raw write); \<open>OtherMessage\<close> is a message of a type that the switch
  does not name, for which no handler runs. Decoding is \<^verbatim>\<open>mustUnmarshalJSON\<close> in
  every handler and is not modelled.
\<close>

datatype Command =
    WriteRawSeries Message
  | CreateDataNode createDataNodeCommand
  | DeleteDataNode deleteDataNodeCommand
  | CreateDatabase createDatabaseCommand
  | DeleteDatabase deleteDatabaseCommand
  | CreateUser createUserCommand
  | UpdateUser updateUserCommand
  | DeleteUser deleteUserCommand
  | CreateRetentionPolicy createRetentionPolicyCommand
  | UpdateRetentionPolicy updateRetentionPolicyCommand
  | DeleteRetentionPolicy deleteRetentionPolicyCommand
  | CreateShardGroupIfNotExists createShardGroupIfNotExistsCommand
  | DeleteShardGroup deleteShardGroupCommand
  | SetDefaultRetentionPolicy setDefaultRetentionPolicyCommand
  | CreateMeasurementsIfNotExists createMeasurementsIfNotExistsCommand
  | SetPrivilege setPrivilegeCommand
  | CreateContinuousQuery createContinuousQueryCommand
  | OtherMessage

text \<open>
  What the handlers take from outside server.go while one message is applied:
  the results of bcrypt, of the metastore update, of \<^verbatim>\<open>url.Parse\<close>, of opening a
  shard's store, of the metastore's calls for series and measurements, of the
  parser and the normalization for a continuous query, the reading of a point
  header, the error of a shard's store, and the number of iterations granted to
  the loop of a raw write.
\<close>

record environment =
  hash_password :: "string \<Rightarrow> error + string"
  update_result :: "error option"
  parse_url :: "string \<Rightarrow> string option"
  open_shard :: "u64 \<Rightarrow> error option"
  marshal_tags :: "Tags \<Rightarrow> string"
  create_series :: "string \<Rightarrow> string \<Rightarrow> Tags \<Rightarrow> error + Series"
  save_measurement :: "string \<Rightarrow> Measurement \<Rightarrow> error option"
  new_continuous_query :: "string \<Rightarrow> error + ContinuousQuery"
  normalize_statement :: "Server \<Rightarrow> ContinuousQuery \<Rightarrow> error + ContinuousQuery"
  unmarshal_point_header :: "byte list \<Rightarrow> u32 \<times> u32 \<times> int"
  store_error :: "u32 \<Rightarrow> int \<Rightarrow> error option"
  loop_fuel :: nat

text \<open>
  \<open>processor_apply env idx m s\<close> is the outcome of the switch for the message with
  index \<open>idx\<close>: \<open>None\<close> when the handler is still running (a raw write out of
  fuel), \<open>Some (Inl p)\<close> for a panic, and otherwise the handler's error and the
  server it leaves.
\<close>

definition processor_apply ::
  "environment \<Rightarrow> u64 \<Rightarrow> Command \<Rightarrow> Server \<Rightarrow> (string + (error option \<times> Server)) option" where
  "processor_apply env idx m s =
     (case m of
        WriteRawSeries msg \<Rightarrow>
          applyWriteRawSeries (unmarshal_point_header env) (store_error env) (loop_fuel env) msg s
      | CreateDataNode c \<Rightarrow> Some (applyCreateDataNode (parse_url env) (update_result env) c s)
      | DeleteDataNode c \<Rightarrow> Some (Inr (applyDeleteDataNode (update_result env) c s))
      | CreateDatabase c \<Rightarrow> Some (Inr (applyCreateDatabase (update_result env) c s))
      | DeleteDatabase c \<Rightarrow> Some (Inr (applyDeleteDatabase (update_result env) c s))
      | CreateUser c \<Rightarrow>
          Some (Inr (applyCreateUser (hash_password env) (update_result env) c s))
      | UpdateUser c \<Rightarrow>
          Some (Inr (applyUpdateUser (hash_password env) (update_result env) c s))
      | DeleteUser c \<Rightarrow> Some (Inr (applyDeleteUser c s))
      | CreateRetentionPolicy c \<Rightarrow> Some (Inr (applyCreateRetentionPolicy c s))
      | UpdateRetentionPolicy c \<Rightarrow> Some (applyUpdateRetentionPolicy (update_result env) c s)
      | DeleteRetentionPolicy c \<Rightarrow>
          Some (Inr (applyDeleteRetentionPolicy (update_result env) c s))
      | CreateShardGroupIfNotExists c \<Rightarrow>
          Some (applyCreateShardGroupIfNotExists (open_shard env) (update_result env) idx c s)
      | DeleteShardGroup c \<Rightarrow> Some (Inr (applyDeleteShardGroup (update_result env) c s))
      | SetDefaultRetentionPolicy c \<Rightarrow>
          Some (Inr (applySetDefaultRetentionPolicy (update_result env) c s))
      | CreateMeasurementsIfNotExists c \<Rightarrow>
          Some (applyCreateMeasurementsIfNotExists (marshal_tags env) (create_series env)
                  (save_measurement env) (update_result env) c s)
      | SetPrivilege c \<Rightarrow> Some (Inr (applySetPrivilege (update_result env) c s))
      | CreateContinuousQuery c \<Rightarrow>
          Some (Inr (applyCreateContinuousQueryCommand (new_continuous_query env)
                       (normalize_statement env) c s))
      | OtherMessage \<Rightarrow> Some (Inr (None, s)))"

text \<open>
  An update-retention-policy command changes a duration under shard groups when
  it sets the duration of an existing policy that has shard groups to a value
  other than the policy's duration.
\<close>

definition changesDuration :: "Server \<Rightarrow> Command \<Rightarrow> bool" where
  "changesDuration s m =
     (case m of
        UpdateRetentionPolicy c \<Rightarrow>
          (case updateRetentionPolicyCommand.Policy c of
             None \<Rightarrow> False
           | Some u \<Rightarrow>
               (case RetentionPolicyUpdate.Duration u of
                  None \<Rightarrow> False
                | Some d \<Rightarrow>
                    (case map_of (databases s) (updateRetentionPolicyCommand.Database c) of
                       None \<Rightarrow> False
                     | Some db \<Rightarrow>
                         (case map_of (policies db) (updateRetentionPolicyCommand.Name c) of
                            None \<Rightarrow> False
                          | Some p \<Rightarrow> d \<noteq> RetentionPolicy.Duration p \<and> shardGroups p \<noteq> []))))
      | _ \<Rightarrow> False)"

section \<open>Query dispatcher\<close>

text \<open>
  The statement types of the type switch in \<^verbatim>\<open>ExecuteQuery\<close>, in the order of its
  cases; \<open>OtherStatement\<close> is any statement type the switch does not name. The
  statements themselves are syntax trees of the query language package: a
  statement is its type together with a body of an arbitrary type.
\<close>

datatype StatementKind =
    SelectStatement
  | CreateDatabaseStatement
  | DropDatabaseStatement
  | ShowDatabasesStatement
  | CreateUserStatement
  | DropUserStatement
  | ShowUsersStatement
  | DropSeriesStatement
  | ShowSeriesStatement
  | ShowMeasurementsStatement
  | ShowTagKeysStatement
  | ShowTagValuesStatement
  | ShowFieldKeysStatement
  | GrantStatement
  | RevokeStatement
  | CreateRetentionPolicyStatement
  | AlterRetentionPolicyStatement
  | DropRetentionPolicyStatement
  | ShowRetentionPoliciesStatement
  | CreateContinuousQueryStatement
  | DropContinuousQueryStatement
  | ShowContinuousQueriesStatement
  | OtherStatement

type_synonym 'q Statement = "StatementKind \<times> 'q"

text \<open>
  \<^verbatim>\<open>Result\<close> and \<^verbatim>\<open>Results\<close>; the rows are values of the query language package.
\<close>

record 'r Result =
  Rows :: "'r list"
  Err :: "error option"

record 'r Results =
  Results :: "'r Result list"
  Err :: "error option"

text \<open>
  What the type switch does with a statement type: it calls the statement's
  executor, or \<^verbatim>\<open>continue\<close>s with the next statement (DROP SERIES and DROP
  CONTINUOUS QUERY), or panics in the default case.
\<close>

datatype branch = Execute | Continue | Unsupported

fun switch :: "StatementKind \<Rightarrow> branch" where
  "switch DropSeriesStatement = Continue"
| "switch DropContinuousQueryStatement = Continue"
| "switch OtherStatement = Unsupported"
| "switch SelectStatement = Execute"
| "switch CreateDatabaseStatement = Execute"
| "switch DropDatabaseStatement = Execute"
| "switch ShowDatabasesStatement = Execute"
| "switch CreateUserStatement = Execute"
| "switch DropUserStatement = Execute"
| "switch ShowUsersStatement = Execute"
| "switch ShowSeriesStatement = Execute"
| "switch ShowMeasurementsStatement = Execute"
| "switch ShowTagKeysStatement = Execute"
| "switch ShowTagValuesStatement = Execute"
| "switch ShowFieldKeysStatement = Execute"
| "switch GrantStatement = Execute"
| "switch RevokeStatement = Execute"
| "switch CreateRetentionPolicyStatement = Execute"
| "switch AlterRetentionPolicyStatement = Execute"
| "switch DropRetentionPolicyStatement = Execute"
| "switch ShowRetentionPoliciesStatement = Execute"
| "switch CreateContinuousQueryStatement = Execute"
| "switch ShowContinuousQueriesStatement = Execute"

text \<open>
  The loop over the statements of \<^verbatim>\<open>ExecuteQuery\<close>. The server is an arbitrary
  state here; \<open>NormalizeStatement\<close> gives the error or the statement's
  normalized body, and \<open>execute\<close> stands for the executor that the switch selects,
  returning the statement's result and the server it leaves. The loop's result is
  the slice \<^verbatim>\<open>results.Results\<close> (\<open>None\<close> for a \<^verbatim>\<open>nil\<close> entry) and the final
  server, or \<open>Inl\<close> for the panic.
\<close>

fun executeStatements ::
  "('st \<Rightarrow> 'q Statement \<Rightarrow> error + 'q) \<Rightarrow> ('st \<Rightarrow> 'q Statement \<Rightarrow> 'r Result \<times> 'st)
    \<Rightarrow> 'st \<Rightarrow> 'q Statement list \<Rightarrow> string + ('r Result option list \<times> 'st)" where
  "executeStatements NormalizeStatement execute st [] = Inr ([], st)"
| "executeStatements NormalizeStatement execute st (stmt # rest) =
     (case NormalizeStatement st stmt of
        Inl err \<Rightarrow> Inr (Some \<lparr>Rows = [], Result.Err = Some err\<rparr> # map (\<lambda>x. None) rest, st)
      | Inr q \<Rightarrow>
          (case switch (fst stmt) of
             Unsupported \<Rightarrow> Inl ''unsupported statement type''
           | Continue \<Rightarrow>
               (case executeStatements NormalizeStatement execute st rest of
                  Inl p \<Rightarrow> Inl p
                | Inr (rs, st') \<Rightarrow> Inr (None # rs, st'))
           | Execute \<Rightarrow>
               (case execute st (fst stmt, q) of
                  (res, st1) \<Rightarrow>
                    if Result.Err res \<noteq> None then Inr (Some res # map (\<lambda>x. None) rest, st1)
                    else
                      (case executeStatements NormalizeStatement execute st1 rest of
                         Inl p \<Rightarrow> Inl p
                       | Inr (rs, st') \<Rightarrow> Inr (Some res # rs, st')))))"

text \<open>The final loop: every entry still \<^verbatim>\<open>nil\<close> becomes the not-executed result.\<close>

definition fillNotExecuted :: "'r Result option \<Rightarrow> 'r Result" where
  "fillNotExecuted r =
     (case r of None \<Rightarrow> \<lparr>Rows = [], Result.Err = Some ErrNotExecuted\<rparr> | Some res \<Rightarrow> res)"

text \<open>
  \<^verbatim>\<open>ExecuteQuery\<close>; \<open>Authorize\<close> is what \<^verbatim>\<open>s.Authorize\<close> returns for the user and
  the query.
\<close>

definition ExecuteQuery ::
  "bool \<Rightarrow> error option \<Rightarrow> ('st \<Rightarrow> 'q Statement \<Rightarrow> error + 'q)
    \<Rightarrow> ('st \<Rightarrow> 'q Statement \<Rightarrow> 'r Result \<times> 'st) \<Rightarrow> 'st \<Rightarrow> 'q Statement list
    \<Rightarrow> string + ('r Results \<times> 'st)" where
  "ExecuteQuery authenticationEnabled Authorize NormalizeStatement execute st stmts =
     (case (if authenticationEnabled then Authorize else None) of
        Some err \<Rightarrow> Inr (\<lparr>Results = [], Results.Err = Some err\<rparr>, st)
      | None \<Rightarrow>
          (case executeStatements NormalizeStatement execute st stmts of
             Inl p \<Rightarrow> Inl p
           | Inr (rs, st') \<Rightarrow>
               Inr (\<lparr>Results = map fillNotExecuted rs, Results.Err = None\<rparr>, st')))"

text \<open>
  For the statements about the results: the not-executed result, a failing result
  (one that carries an error other than the not-executed sentinel), and a failed
  entry of the loop's slice.
\<close>

definition failed :: "'r Result option \<Rightarrow> bool" where
  "failed r = (case r of None \<Rightarrow> False | Some res \<Rightarrow> Result.Err res \<noteq> None)"

definition notExecuted :: "'r Result" where
  "notExecuted = \<lparr>Rows = [], Result.Err = Some ErrNotExecuted\<rparr>"

definition failing :: "'r Result \<Rightarrow> bool" where
  "failing r = (Result.Err r \<noteq> None \<and> Result.Err r \<noteq> Some ErrNotExecuted)"

section \<open>Example states\<close>

definition user_bob :: User where
  "user_bob = \<lparr>User.Name = ''bob'', Hash = ''h0'', Privileges = Map.empty, Admin = False\<rparr>"

definition server_synced :: Server where
  "server_synced = \<lparr>server_id = 1, index = 5, errors = [3 \<mapsto> ErrDatabaseNotFound],
     meta = \<lparr>dataNodeSeq = 0, shardSeq = 0, shardGroupSeq = 0\<rparr>,
     dataNodes = [], databases = [], users = Map.empty, shards = Map.empty,
     shardsBySeriesID = (\<lambda>i. []), stores = Map.empty\<rparr>"

definition server0 :: Server where
  "server0 = \<lparr>server_id = 1, index = 0, errors = Map.empty,
     meta = \<lparr>dataNodeSeq = 0, shardSeq = 0, shardGroupSeq = 0\<rparr>,
     dataNodes = [], databases = [], users = [''bob'' \<mapsto> user_bob], shards = Map.empty,
     shardsBySeriesID = (\<lambda>i. []), stores = Map.empty\<rparr>"

text \<open>
  A cluster of three data nodes with one database whose policy keeps two replicas,
  and the same cluster after a shard group has been created for timestamp 5 by
  the message with index 7.
\<close>

definition rp_hour :: RetentionPolicy where
  "rp_hour = \<lparr>RetentionPolicy.Name = ''rp'', RetentionPolicy.Duration = 10,
     RetentionPolicy.ReplicaN = 2, shardGroups = []\<rparr>"

definition db_metrics :: database where
  "db_metrics = \<lparr>name = ''db'', policies = [(''rp'', rp_hour)], defaultRetentionPolicy = ''rp'',
     measurements = [], continuousQueries = []\<rparr>"

definition server_cluster :: Server where
  "server_cluster = \<lparr>server_id = 1, index = 0, errors = Map.empty,
     meta = \<lparr>dataNodeSeq = 3, shardSeq = 0, shardGroupSeq = 0\<rparr>,
     dataNodes = [(3, \<lparr>DataNode.ID = 3, DataNode.URL = Some ''http://c''\<rparr>),
                  (1, \<lparr>DataNode.ID = 1, DataNode.URL = Some ''http://a''\<rparr>),
                  (2, \<lparr>DataNode.ID = 2, DataNode.URL = Some ''http://b''\<rparr>)],
     databases = [(''db'', db_metrics)], users = Map.empty, shards = Map.empty,
     shardsBySeriesID = (\<lambda>i. []), stores = Map.empty\<rparr>"

definition create_at :: "Time \<Rightarrow> createShardGroupIfNotExistsCommand" where
  "create_at t = \<lparr>createShardGroupIfNotExistsCommand.Database = ''db'',
     createShardGroupIfNotExistsCommand.Policy = ''rp'', createShardGroupIfNotExistsCommand.Timestamp = t\<rparr>"

definition server_grouped :: Server where
  "server_grouped = server_cluster
       \<lparr>meta := \<lparr>dataNodeSeq = 3, shardSeq = 1, shardGroupSeq = 1\<rparr>,
        databases := [(''db'', db_metrics\<lparr>policies := [(''rp'', rp_hour\<lparr>shardGroups :=
           [\<lparr>ShardGroup.ID = 1, StartTime = 0, EndTime = 10,
              Shards = [\<lparr>Shard.ID = 1, DataNodeIDs = [2, 3]\<rparr>]\<rparr>]\<rparr>)]\<rparr>)],
        stores := Map.empty,
        shards := [1 \<mapsto> \<lparr>Shard.ID = 1, DataNodeIDs = [2, 3]\<rparr>]\<rparr>"

definition delete_group :: "u64 \<Rightarrow> deleteShardGroupCommand" where
  "delete_group gid = \<lparr>deleteShardGroupCommand.Database = ''db'',
     deleteShardGroupCommand.Policy = ''rp'', deleteShardGroupCommand.ID = gid\<rparr>"

text \<open>
  The cluster after the policy's duration has been changed from 10 to 20 (or the
  policy renamed), and after a second group has then been created for timestamp 15.
\<close>

definition lengthen_rp :: updateRetentionPolicyCommand where
  "lengthen_rp = \<lparr>updateRetentionPolicyCommand.Database = ''db'',
     updateRetentionPolicyCommand.Name = ''rp'',
     updateRetentionPolicyCommand.Policy =
       Some \<lparr>RetentionPolicyUpdate.Name = None, RetentionPolicyUpdate.Duration = Some 20,
             RetentionPolicyUpdate.ReplicaN = None\<rparr>\<rparr>"

definition rename_rp :: updateRetentionPolicyCommand where
  "rename_rp = \<lparr>updateRetentionPolicyCommand.Database = ''db'',
     updateRetentionPolicyCommand.Name = ''rp'',
     updateRetentionPolicyCommand.Policy =
       Some \<lparr>RetentionPolicyUpdate.Name = Some ''weekly'', RetentionPolicyUpdate.Duration = None,
             RetentionPolicyUpdate.ReplicaN = None\<rparr>\<rparr>"

definition group_one :: ShardGroup where
  "group_one = \<lparr>ShardGroup.ID = 1, StartTime = 0, EndTime = 10,
     Shards = [\<lparr>Shard.ID = 1, DataNodeIDs = [2, 3]\<rparr>]\<rparr>"

definition group_two :: ShardGroup where
  "group_two = \<lparr>ShardGroup.ID = 2, StartTime = 0, EndTime = 20,
     Shards = [\<lparr>Shard.ID = 2, DataNodeIDs = [3, 1]\<rparr>]\<rparr>"

definition server_lengthened :: Server where
  "server_lengthened = server_grouped
     \<lparr>databases := [(''db'', db_metrics\<lparr>policies :=
        [(''rp'', rp_hour\<lparr>RetentionPolicy.Duration := 20, shardGroups := [group_one]\<rparr>)]\<rparr>)]\<rparr>"

definition server_renamed :: Server where
  "server_renamed = server_grouped
     \<lparr>databases := [(''db'', db_metrics\<lparr>policies :=
        [(''weekly'', rp_hour\<lparr>RetentionPolicy.Name := ''weekly'', shardGroups := [group_one]\<rparr>)]\<rparr>)]\<rparr>"

definition server_overlapping :: Server where
  "server_overlapping = server_lengthened
     \<lparr>meta := \<lparr>dataNodeSeq = 3, shardSeq = 2, shardGroupSeq = 2\<rparr>,
      databases := [(''db'', db_metrics\<lparr>policies :=
        [(''rp'', rp_hour\<lparr>RetentionPolicy.Duration := 20,
                           shardGroups := [group_one, group_two]\<rparr>)]\<rparr>)],
      stores := [2 \<mapsto> Map.empty],
      shards := [1 \<mapsto> \<lparr>Shard.ID = 1, DataNodeIDs = [2, 3]\<rparr>,
                 2 \<mapsto> \<lparr>Shard.ID = 2, DataNodeIDs = [3, 1]\<rparr>]\<rparr>"

text \<open>
  A query whose second statement fails, with a server that counts the statements
  executed.
\<close>

definition exec_example :: "nat \<Rightarrow> unit Statement \<Rightarrow> unit Result \<times> nat" where
  "exec_example n stmt =
     (if fst stmt = DropDatabaseStatement
      then (\<lparr>Rows = [], Result.Err = Some ErrDatabaseNotFound\<rparr>, Suc n)
      else (\<lparr>Rows = [()], Result.Err = None\<rparr>, Suc n))"

definition norm_example :: "nat \<Rightarrow> unit Statement \<Rightarrow> error + unit" where
  "norm_example n stmt = Inr (snd stmt)"

definition query_failing :: "unit Statement list" where
  "query_failing = [(CreateDatabaseStatement, ()), (DropDatabaseStatement, ()),
     (OtherStatement, ()), (ShowUsersStatement, ())]"

definition results_failing :: "unit Results" where
  "results_failing = \<lparr>Results =
       [\<lparr>Rows = [()], Result.Err = None\<rparr>,
        \<lparr>Rows = [], Result.Err = Some ErrDatabaseNotFound\<rparr>,
        \<lparr>Rows = [], Result.Err = Some ErrNotExecuted\<rparr>,
        \<lparr>Rows = [], Result.Err = Some ErrNotExecuted\<rparr>],
     Results.Err = None\<rparr>"

text \<open>
  A big-endian reading of the point header, a message for shard 1 that holds one
  record with a payload of 16 bytes, and one whose record has a payload of 2 bytes.
\<close>

definition be_nat :: "byte list \<Rightarrow> nat" where
  "be_nat bs = foldl (\<lambda>a b. a * 256 + unat b) 0 bs"

definition header_be :: "byte list \<Rightarrow> u32 \<times> u32 \<times> int" where
  "header_be bs =
     (of_nat (be_nat (take 4 bs)), of_nat (be_nat (take 4 (drop 4 bs))),
      sint (of_nat (be_nat (take 8 (drop 8 bs))) :: 64 word))"

definition one_record :: Message where
  "one_record = \<lparr>Type = 0x70, TopicID = 1, Index = 12,
     Data = [0, 0, 0, 7,  0, 0, 0, 16,  0, 0, 0, 0, 0, 0, 0, 5] @ replicate 16 1\<rparr>"

definition small_record :: Message where
  "small_record = \<lparr>Type = 0x70, TopicID = 1, Index = 13,
     Data = [0, 0, 0, 7,  0, 0, 0, 2,  0, 0, 0, 0, 0, 0, 0, 5,  1, 1]\<rparr>"

text \<open>
  A database whose measurement \<open>cpu\<close> has the field \<open>v\<close> of type number and the
  series \<open>host=a\<close>, and a point for that series whose value for \<open>v\<close> is a boolean.
\<close>

datatype GoValue = Float64 | Bool | GoString | Int64

fun inspect_example :: "GoValue \<Rightarrow> DataType" where
  "inspect_example Float64 = Number"
| "inspect_example Bool = Boolean"
| "inspect_example GoString = StringType"
| "inspect_example Int64 = Unknown"

definition marshal_example :: "Tags \<Rightarrow> string" where
  "marshal_example tags = concat (map (\<lambda>(k, v). k @ ''='' @ v @ '','') tags)"

definition cpu :: Measurement where
  "cpu = \<lparr>Measurement.Name = ''cpu'',
     Measurement.Fields = [\<lparr>Field.ID = 1, Field.Name = ''v'', Field.Type = Number\<rparr>],
     series = [\<lparr>Series.ID = 7, Series.Tags = [(''host'', ''a'')]\<rparr>]\<rparr>"

definition server_measured :: Server where
  "server_measured = server_grouped
     \<lparr>databases := [(''db'', db_metrics\<lparr>policies := [(''rp'', rp_hour\<lparr>shardGroups := [group_one]\<rparr>)],
                                           measurements := [(''cpu'', cpu)]\<rparr>)]\<rparr>"

definition conflicting_point :: "GoValue Point" where
  "conflicting_point = \<lparr>Point.Name = ''cpu'', Point.Tags = [(''host'', ''a'')],
     Point.Timestamp = 5, Values = [(''v'', Bool)]\<rparr>"

text \<open>
  A point for the same measurement whose series \<open>host=b\<close> the catalog does not
  have yet, with a value for a new field \<open>w\<close>.
\<close>

definition new_series_point :: "GoValue Point" where
  "new_series_point = \<lparr>Point.Name = ''cpu'', Point.Tags = [(''host'', ''b'')],
     Point.Timestamp = 6, Values = [(''w'', Float64)]\<rparr>"

text \<open>
  An environment in which every call outside server.go succeeds: URLs parse to
  themselves, stores open, and the metastore update returns no error.
\<close>

definition env_ok :: environment where
  "env_ok = \<lparr>hash_password = (\<lambda>p. Inr (''hash:'' @ p)), update_result = None,
     parse_url = Some, open_shard = (\<lambda>i. None), marshal_tags = marshal_example,
     create_series = (\<lambda>db m tags. Inr \<lparr>Series.ID = 1, Series.Tags = tags\<rparr>),
     save_measurement = (\<lambda>db m. None),
     new_continuous_query = (\<lambda>q. Inl (Errorf ''parse error'')),
     normalize_statement = (\<lambda>s cq. Inr cq),
     unmarshal_point_header = header_be, store_error = (\<lambda>seriesID timestamp. None),
     loop_fuel = 100\<rparr>"

section \<open>Properties\<close>

subsection \<open>Sync\<close>

lemma Sync_poll_ready:
  "idx \<le> index s \<Longrightarrow>
     Sync_poll idx s = Some (errors s idx, s\<lparr>errors := (errors s)(idx := None)\<rparr>)"
  by (cases "errors s idx") (simp_all add: Sync_poll_def fun_upd_idem)

lemma Sync_ready:
  "idx \<le> index s \<Longrightarrow>
     Sync idx s env = Some (errors s idx, s\<lparr>errors := (errors s)(idx := None)\<rparr>)"
  by (cases env) (simp_all add: Sync_poll_ready)

lemma fold_processor_record_later:
  "\<forall>m \<in> set ms. idx < fst m \<Longrightarrow> idx \<le> index s \<Longrightarrow> errors s idx = None \<Longrightarrow>
     idx \<le> index (fold processor_record ms s) \<and> errors (fold processor_record ms s) idx = None"
proof (induction ms arbitrary: s)
  case Nil
  then show ?case by simp
next
  case (Cons m ms)
  have "idx \<le> index (processor_record m s)" "errors (processor_record m s) idx = None"
    using Cons.prems by (auto simp: processor_record_def split: option.splits)
  with Cons show ?case by simp
qed

text \<open>
  Claim C6. \<^verbatim>\<open>Sync(i)\<close> does not return while the applied index is below \<open>i\<close>:
  a poll at such a state sleeps, and the call goes on from the state the
  processor has reached meanwhile. Once the applied index is at least \<open>i\<close> the
  call returns the error recorded under \<open>i\<close> and deletes the entry. Every later
  call of \<^verbatim>\<open>Sync(i)\<close>, also after the processor has recorded further messages
  (whose indexes are above \<open>i\<close>), returns success and leaves the server as it is.
\<close>

theorem Sync_returns_error_once:
  "(index s < i \<longrightarrow>
      Sync i s [] = None
    \<and> (\<forall>ms env. Sync i s (ms # env) = Sync i (fold processor_record ms s) env))
   \<and> (i \<le> index s \<longrightarrow>
      (\<forall>env. Sync i s env = Some (errors s i, s\<lparr>errors := (errors s)(i := None)\<rparr>))
    \<and> (\<forall>ms env. (\<forall>m \<in> set ms. i < fst m) \<longrightarrow>
          Sync i (fold processor_record ms (s\<lparr>errors := (errors s)(i := None)\<rparr>)) env
            = Some (None, fold processor_record ms (s\<lparr>errors := (errors s)(i := None)\<rparr>))))"
proof (intro conjI impI allI)
  assume "index s < i"
  then have "\<not> i \<le> index s"
    by (simp add: not_le)
  then show "Sync i s [] = None"
    by (simp add: Sync_poll_def)
next
  fix ms env
  assume "index s < i"
  then have "\<not> i \<le> index s"
    by (simp add: not_le)
  then show "Sync i s (ms # env) = Sync i (fold processor_record ms s) env"
    by (simp add: Sync_poll_def)
next
  fix env
  assume "i \<le> index s"
  then show "Sync i s env = Some (errors s i, s\<lparr>errors := (errors s)(i := None)\<rparr>)"
    by (rule Sync_ready)
next
  fix ms env
  let ?s' = "s\<lparr>errors := (errors s)(i := None)\<rparr>"
  let ?t = "fold processor_record ms ?s'"
  assume ready: "i \<le> index s" and later: "\<forall>m \<in> set ms. i < fst m"
  have "i \<le> index ?t \<and> errors ?t i = None"
    using later ready by (intro fold_processor_record_later) simp_all
  then have "Sync i ?t env = Some (None, ?t\<lparr>errors := (errors ?t)(i := None)\<rparr>)"
    using Sync_ready [of i ?t env] by simp
  moreover have "(errors ?t)(i := None) = errors ?t"
    using \<open>i \<le> index ?t \<and> errors ?t i = None\<close> by (simp add: fun_upd_idem)
  ultimately show "Sync i ?t env = Some (None, ?t)"
    by simp
qed

theorem Sync_returns_error_once_witness:
  "Sync 7 server_synced [] = None
   \<and> map_option fst (Sync 7 server_synced [[(6, None)], [(7, Some ErrUserExists)]])
       = Some (Some ErrUserExists)
   \<and> map_option fst (Sync 3 server_synced []) = Some (Some ErrDatabaseNotFound)
   \<and> map_option fst (Sync 3 (snd (the (Sync 3 server_synced []))) []) = Some None
   \<and> map_option fst
        (Sync 3 (fold processor_record [(6, Some ErrUserExists)]
                   (snd (the (Sync 3 server_synced [])))) []) = Some None"
proof -
  have i5: "index server_synced = 5" and e3: "errors server_synced 3 = Some ErrDatabaseNotFound"
    by (simp_all add: server_synced_def)
  note blocked = Sync_returns_error_once
    [where s = server_synced and i = 7, THEN conjunct1, rule_format]
  have lt: "index server_synced < 7" and le: "(3::u64) \<le> index server_synced"
    by (simp_all add: i5 word_le_nat_alt)
  note ready = Sync_returns_error_once
    [where s = server_synced and i = 3, THEN conjunct2, THEN mp, OF le]
  note first = ready [THEN conjunct1, rule_format]
  note later = ready [THEN conjunct2, rule_format]
  have a: "Sync 7 server_synced [] = None"
    using blocked lt by simp
  have b: "Sync 7 server_synced [[(6, None)], [(7, Some ErrUserExists)]]
      = Sync 7 (fold processor_record [(6, None)] server_synced) [[(7, Some ErrUserExists)]]"
    using blocked lt by simp
  have c: "Sync 3 server_synced [] = Some (Some ErrDatabaseNotFound,
      server_synced\<lparr>errors := (errors server_synced)(3 := None)\<rparr>)"
    using first [of "[]"] e3 by simp
  have d: "Sync 3 (fold processor_record [] (server_synced\<lparr>errors := (errors server_synced)(3 := None)\<rparr>)) []
      = Some (None, fold processor_record [] (server_synced\<lparr>errors := (errors server_synced)(3 := None)\<rparr>))"
    using later [of "[]" "[]"] by simp
  have e: "Sync 3 (fold processor_record [(6, Some ErrUserExists)]
        (server_synced\<lparr>errors := (errors server_synced)(3 := None)\<rparr>)) []
      = Some (None, fold processor_record [(6, Some ErrUserExists)]
        (server_synced\<lparr>errors := (errors server_synced)(3 := None)\<rparr>))"
    using later [of "[(6, Some ErrUserExists)]" "[]"] by (simp add: word_less_nat_alt)
  have b': "map_option fst (Sync 7 (fold processor_record [(6, None)] server_synced)
      [[(7, Some ErrUserExists)]]) = Some (Some ErrUserExists)"
    by (simp add: Sync_poll_def processor_record_def i5 word_le_nat_alt)
  show ?thesis
    using a b b' c d e by simp
qed

subsection \<open>Persistence failure in the create handlers\<close>

lemma urlExists_parsed:
  "\<forall>n \<in> set ns. DataNode.URL n \<noteq> None \<Longrightarrow>
     urlExists (Some u) ns = Inr (Some u \<in> DataNode.URL ` set ns)"
  by (induction ns) (auto split: option.splits)

lemma urlExists_nil: "ns \<noteq> [] \<Longrightarrow> urlExists None ns = Inl ''nil pointer dereference''"
  by (cases ns) (simp_all split: option.splits)

text \<open>
  Claim C1, as stated, fails: when the metastore update of \<^verbatim>\<open>applyCreateDataNode\<close>
  or of \<^verbatim>\<open>applyCreateDatabase\<close> returns an error, the handler returns that error
  and has nevertheless entered the data node (the database) into the catalog.
\<close>

theorem create_handlers_persist_failure_counterexample:
  "dataNodes server0 = []
   \<and> (\<exists>s'. applyCreateDataNode Some (Some (Errorf ''disk full''))
          \<lparr>createDataNodeCommand.URL = ''http://a:8086''\<rparr> server0
        = Inr (Some (Errorf ''disk full''), s')
      \<and> dataNodes s' = [(1, \<lparr>DataNode.ID = 1, DataNode.URL = Some ''http://a:8086''\<rparr>)])
   \<and> databases server0 = []
   \<and> applyCreateDatabase (Some (Errorf ''disk full''))
        \<lparr>createDatabaseCommand.Name = ''db''\<rparr> server0
      = (Some (Errorf ''disk full''),
         server0\<lparr>databases := [(''db'', newDatabase\<lparr>name := ''db''\<rparr>)]\<rparr>)"
  by (simp add: applyCreateDataNode_def applyCreateDatabase_def server0_def nextDataNodeID_def
      commit_def newDatabase_def)

text \<open>
  Claim C1, amended. \<^verbatim>\<open>applyCreateDataNode\<close> and \<^verbatim>\<open>applyCreateDatabase\<close> leave the
  catalog unchanged only when validation rejects the command (an empty URL, a URL
  or a database name that exists already). Once validation has passed (for a
  data node: the URL parses, and every data node has a URL, which is not the
  parsed one), the handler returns whatever the metastore update returns and the
  new data node (under the id that the node holds after the update) or the new
  database is in the catalog, whether the update succeeded or failed. A URL
  that does not parse leaves \<^verbatim>\<open>applyCreateDataNode\<close> with a \<^verbatim>\<open>nil\<close> URL: the
  handler panics when there is a data node to compare it with, and enters a
  node without URL otherwise. The other handlers with a single metastore update
  whose in-memory change does not wait for it behave alike: the server they
  leave does not depend on what the update returned.
\<close>

theorem create_handlers_add_entry_whatever_persist:
  "(createDataNodeCommand.URL c \<noteq> [] \<and> Parse (createDataNodeCommand.URL c) = Some u
      \<and> (\<forall>n \<in> snd ` set (dataNodes s). DataNode.URL n \<noteq> None \<and> DataNode.URL n \<noteq> Some u) \<longrightarrow>
      (\<exists>nid s'. applyCreateDataNode Parse persist c s = Inr (persist, s')
         \<and> dataNodes s' = AList.update nid \<lparr>DataNode.ID = nid, DataNode.URL = Some u\<rparr> (dataNodes s)
         \<and> map_of (dataNodes s') nid = Some \<lparr>DataNode.ID = nid, DataNode.URL = Some u\<rparr>
         \<and> databases s' = databases s \<and> users s' = users s \<and> shards s' = shards s))
   \<and> (createDataNodeCommand.URL c = [] \<longrightarrow>
        applyCreateDataNode Parse persist c s = Inr (Some ErrDataNodeURLRequired, s))
   \<and> (createDataNodeCommand.URL c \<noteq> [] \<and> Parse (createDataNodeCommand.URL c) = Some u
      \<and> (\<forall>n \<in> snd ` set (dataNodes s). DataNode.URL n \<noteq> None)
      \<and> (\<exists>n \<in> snd ` set (dataNodes s). DataNode.URL n = Some u) \<longrightarrow>
        applyCreateDataNode Parse persist c s = Inr (Some ErrDataNodeExists, s))
   \<and> (createDataNodeCommand.URL c \<noteq> [] \<and> Parse (createDataNodeCommand.URL c) = None
      \<and> dataNodes s \<noteq> [] \<longrightarrow>
        applyCreateDataNode Parse persist c s = Inl ''nil pointer dereference'')
   \<and> (createDataNodeCommand.URL c \<noteq> [] \<and> Parse (createDataNodeCommand.URL c) = None
      \<and> dataNodes s = [] \<longrightarrow>
      (\<exists>nid s'. applyCreateDataNode Parse persist c s = Inr (persist, s')
         \<and> dataNodes s' = [(nid, \<lparr>DataNode.ID = nid, DataNode.URL = None\<rparr>)]))
   \<and> (map_of (databases s) (createDatabaseCommand.Name d) = None \<longrightarrow>
        applyCreateDatabase persist d s
          = (persist,
             s\<lparr>databases := AList.update (createDatabaseCommand.Name d)
                  (newDatabase\<lparr>name := createDatabaseCommand.Name d\<rparr>) (databases s)\<rparr>))
   \<and> (map_of (databases s) (createDatabaseCommand.Name d) \<noteq> None \<longrightarrow>
        applyCreateDatabase persist d s = (Some ErrDatabaseExists, s))
   \<and> snd (applyDeleteDataNode persist c1 s) = snd (applyDeleteDataNode None c1 s)
   \<and> snd (applyDeleteDatabase persist c2 s) = snd (applyDeleteDatabase None c2 s)
   \<and> snd (applyCreateUser HashPassword persist c3 s) = snd (applyCreateUser HashPassword None c3 s)
   \<and> snd (applyUpdateUser HashPassword persist c4 s) = snd (applyUpdateUser HashPassword None c4 s)
   \<and> snd (applySetPrivilege persist c5 s) = snd (applySetPrivilege None c5 s)
   \<and> map_sum id snd (applyUpdateRetentionPolicy persist c6 s)
       = map_sum id snd (applyUpdateRetentionPolicy None c6 s)
   \<and> snd (applyDeleteRetentionPolicy persist c7 s) = snd (applyDeleteRetentionPolicy None c7 s)
   \<and> snd (applySetDefaultRetentionPolicy persist c8 s)
       = snd (applySetDefaultRetentionPolicy None c8 s)
   \<and> snd (applyDeleteShardGroup persist c9 s) = snd (applyDeleteShardGroup None c9 s)"
proof (intro conjI impI)
  assume a: "createDataNodeCommand.URL c \<noteq> [] \<and> Parse (createDataNodeCommand.URL c) = Some u
      \<and> (\<forall>n \<in> snd ` set (dataNodes s). DataNode.URL n \<noteq> None \<and> DataNode.URL n \<noteq> Some u)"
  then have "urlExists (Some u) (map snd (dataNodes s)) = Inr False"
    using urlExists_parsed [of "map snd (dataNodes s)" u] by auto
  with a show "\<exists>nid s'. applyCreateDataNode Parse persist c s = Inr (persist, s')
         \<and> dataNodes s' = AList.update nid \<lparr>DataNode.ID = nid, DataNode.URL = Some u\<rparr> (dataNodes s)
         \<and> map_of (dataNodes s') nid = Some \<lparr>DataNode.ID = nid, DataNode.URL = Some u\<rparr>
         \<and> databases s' = databases s \<and> users s' = users s \<and> shards s' = shards s"
    by (intro exI [of _ "dataNodeSeq (meta s) + 1"])
      (simp add: applyCreateDataNode_def nextDataNodeID_def update_conv')
next
  assume "createDataNodeCommand.URL c = []"
  then show "applyCreateDataNode Parse persist c s = Inr (Some ErrDataNodeURLRequired, s)"
    by (simp add: applyCreateDataNode_def)
next
  assume a: "createDataNodeCommand.URL c \<noteq> [] \<and> Parse (createDataNodeCommand.URL c) = Some u
      \<and> (\<forall>n \<in> snd ` set (dataNodes s). DataNode.URL n \<noteq> None)
      \<and> (\<exists>n \<in> snd ` set (dataNodes s). DataNode.URL n = Some u)"
  then have "Some u \<in> DataNode.URL ` set (map snd (dataNodes s))"
    by force
  moreover have "\<forall>n \<in> set (map snd (dataNodes s)). DataNode.URL n \<noteq> None"
    using a by simp
  ultimately have "urlExists (Some u) (map snd (dataNodes s)) = Inr True"
    using urlExists_parsed [of "map snd (dataNodes s)" u] by simp
  with a show "applyCreateDataNode Parse persist c s = Inr (Some ErrDataNodeExists, s)"
    by (simp add: applyCreateDataNode_def)
next
  assume a: "createDataNodeCommand.URL c \<noteq> [] \<and> Parse (createDataNodeCommand.URL c) = None
      \<and> dataNodes s \<noteq> []"
  then have "urlExists None (map snd (dataNodes s)) = Inl ''nil pointer dereference''"
    by (intro urlExists_nil) simp
  with a show "applyCreateDataNode Parse persist c s = Inl ''nil pointer dereference''"
    by (simp add: applyCreateDataNode_def)
next
  assume "createDataNodeCommand.URL c \<noteq> [] \<and> Parse (createDataNodeCommand.URL c) = None
      \<and> dataNodes s = []"
  then show "\<exists>nid s'. applyCreateDataNode Parse persist c s = Inr (persist, s')
         \<and> dataNodes s' = [(nid, \<lparr>DataNode.ID = nid, DataNode.URL = None\<rparr>)]"
    by (simp add: applyCreateDataNode_def nextDataNodeID_def)
next
  assume "map_of (databases s) (createDatabaseCommand.Name d) = None"
  then show "applyCreateDatabase persist d s
          = (persist,
             s\<lparr>databases := AList.update (createDatabaseCommand.Name d)
                  (newDatabase\<lparr>name := createDatabaseCommand.Name d\<rparr>) (databases s)\<rparr>)"
    by (simp add: applyCreateDatabase_def)
next
  assume "map_of (databases s) (createDatabaseCommand.Name d) \<noteq> None"
  then show "applyCreateDatabase persist d s = (Some ErrDatabaseExists, s)"
    by (auto simp: applyCreateDatabase_def)
next
  show "snd (applyDeleteDataNode persist c1 s) = snd (applyDeleteDataNode None c1 s)"
    by (simp add: applyDeleteDataNode_def split: option.splits)
next
  show "snd (applyDeleteDatabase persist c2 s) = snd (applyDeleteDatabase None c2 s)"
    by (simp add: applyDeleteDatabase_def split: option.splits)
next
  show "snd (applyCreateUser HashPassword persist c3 s) = snd (applyCreateUser HashPassword None c3 s)"
    by (simp add: applyCreateUser_def split: sum.splits)
next
  show "snd (applyUpdateUser HashPassword persist c4 s) = snd (applyUpdateUser HashPassword None c4 s)"
    by (simp add: applyUpdateUser_def split: option.splits sum.splits)
next
  show "snd (applySetPrivilege persist c5 s) = snd (applySetPrivilege None c5 s)"
    by (simp add: applySetPrivilege_def split: option.splits)
next
  show "map_sum id snd (applyUpdateRetentionPolicy persist c6 s)
       = map_sum id snd (applyUpdateRetentionPolicy None c6 s)"
    by (simp add: applyUpdateRetentionPolicy_def Let_def split: option.splits)
next
  show "snd (applyDeleteRetentionPolicy persist c7 s) = snd (applyDeleteRetentionPolicy None c7 s)"
    by (simp add: applyDeleteRetentionPolicy_def split: option.splits)
next
  show "snd (applySetDefaultRetentionPolicy persist c8 s)
       = snd (applySetDefaultRetentionPolicy None c8 s)"
    by (simp add: applySetDefaultRetentionPolicy_def split: option.splits)
next
  show "snd (applyDeleteShardGroup persist c9 s) = snd (applyDeleteShardGroup None c9 s)"
    by (simp add: applyDeleteShardGroup_def Let_def split: option.splits)
qed

theorem create_handlers_add_entry_whatever_persist_witness:
  "(\<exists>nid s'. applyCreateDataNode Some (Some (Errorf ''disk full''))
        \<lparr>createDataNodeCommand.URL = ''http://d''\<rparr> server_cluster
          = Inr (Some (Errorf ''disk full''), s')
      \<and> map_of (dataNodes s') nid = Some \<lparr>DataNode.ID = nid, DataNode.URL = Some ''http://d''\<rparr>)
   \<and> applyCreateDataNode Some (Some (Errorf ''disk full''))
        \<lparr>createDataNodeCommand.URL = []\<rparr> server_cluster
      = Inr (Some ErrDataNodeURLRequired, server_cluster)
   \<and> applyCreateDataNode Some (Some (Errorf ''disk full''))
        \<lparr>createDataNodeCommand.URL = ''http://b''\<rparr> server_cluster
      = Inr (Some ErrDataNodeExists, server_cluster)
   \<and> applyCreateDataNode (\<lambda>u. None) None
        \<lparr>createDataNodeCommand.URL = ''%zz''\<rparr> server_cluster = Inl ''nil pointer dereference''
   \<and> (\<exists>nid s'. applyCreateDataNode (\<lambda>u. None) None
        \<lparr>createDataNodeCommand.URL = ''%zz''\<rparr> server0 = Inr (None, s')
      \<and> dataNodes s' = [(nid, \<lparr>DataNode.ID = nid, DataNode.URL = None\<rparr>)])
   \<and> applyCreateDatabase (Some (Errorf ''disk full'')) \<lparr>createDatabaseCommand.Name = ''db''\<rparr> server0
      = (Some (Errorf ''disk full''),
         server0\<lparr>databases := [(''db'', newDatabase\<lparr>name := ''db''\<rparr>)]\<rparr>)
   \<and> applyCreateDatabase None \<lparr>createDatabaseCommand.Name = ''db''\<rparr> server_cluster
      = (Some ErrDatabaseExists, server_cluster)"
proof -
  let ?e = "Some (Errorf ''disk full'')"
  let ?d = "\<lparr>createDatabaseCommand.Name = ''db''\<rparr>"
  note t = create_handlers_add_entry_whatever_persist
  have urls: "\<forall>n \<in> snd ` set (dataNodes server_cluster). DataNode.URL n \<noteq> None"
    by (simp add: server_cluster_def)
  have fresh: "\<forall>n \<in> snd ` set (dataNodes server_cluster).
      DataNode.URL n \<noteq> None \<and> DataNode.URL n \<noteq> Some ''http://d''"
    by (simp add: server_cluster_def)
  have known: "\<exists>n \<in> snd ` set (dataNodes server_cluster). DataNode.URL n = Some ''http://b''"
    by (simp add: server_cluster_def)
  have nodes: "dataNodes server_cluster \<noteq> []" "dataNodes server0 = []"
    by (simp_all add: server_cluster_def server0_def)
  have dbs: "map_of (databases server0) ''db'' = None"
    "map_of (databases server_cluster) ''db'' \<noteq> None" "databases server0 = []"
    by (simp_all add: server_cluster_def server0_def)
  have a: "\<exists>nid s'. applyCreateDataNode Some ?e
        \<lparr>createDataNodeCommand.URL = ''http://d''\<rparr> server_cluster = Inr (?e, s')
      \<and> map_of (dataNodes s') nid = Some \<lparr>DataNode.ID = nid, DataNode.URL = Some ''http://d''\<rparr>"
    using t [where Parse = Some and c = "\<lparr>createDataNodeCommand.URL = ''http://d''\<rparr>"
        and u = "''http://d''" and s = server_cluster and persist = ?e, THEN conjunct1] fresh
    by auto
  have b: "applyCreateDataNode Some ?e \<lparr>createDataNodeCommand.URL = []\<rparr> server_cluster
      = Inr (Some ErrDataNodeURLRequired, server_cluster)"
    using t [where Parse = Some and c = "\<lparr>createDataNodeCommand.URL = []\<rparr>"
        and s = server_cluster and persist = ?e, THEN conjunct2, THEN conjunct1]
    by simp
  have c: "applyCreateDataNode Some ?e \<lparr>createDataNodeCommand.URL = ''http://b''\<rparr> server_cluster
      = Inr (Some ErrDataNodeExists, server_cluster)"
    using t [where Parse = Some and c = "\<lparr>createDataNodeCommand.URL = ''http://b''\<rparr>"
        and u = "''http://b''" and s = server_cluster and persist = ?e,
        THEN conjunct2, THEN conjunct2, THEN conjunct1] urls known
    by simp
  have d: "applyCreateDataNode (\<lambda>u. None) None
        \<lparr>createDataNodeCommand.URL = ''%zz''\<rparr> server_cluster = Inl ''nil pointer dereference''"
    using t [where Parse = "\<lambda>u. None" and c = "\<lparr>createDataNodeCommand.URL = ''%zz''\<rparr>"
        and s = server_cluster and persist = None,
        THEN conjunct2, THEN conjunct2, THEN conjunct2, THEN conjunct1] nodes
    by simp
  have e: "\<exists>nid s'. applyCreateDataNode (\<lambda>u. None) None
        \<lparr>createDataNodeCommand.URL = ''%zz''\<rparr> server0 = Inr (None, s')
      \<and> dataNodes s' = [(nid, \<lparr>DataNode.ID = nid, DataNode.URL = None\<rparr>)]"
    using t [where Parse = "\<lambda>u. None" and c = "\<lparr>createDataNodeCommand.URL = ''%zz''\<rparr>"
        and s = server0 and persist = None,
        THEN conjunct2, THEN conjunct2, THEN conjunct2, THEN conjunct2, THEN conjunct1] nodes
    by simp
  have f: "applyCreateDatabase ?e ?d server0
      = (?e, server0\<lparr>databases := [(''db'', newDatabase\<lparr>name := ''db''\<rparr>)]\<rparr>)"
    using t [where d = ?d and s = server0 and persist = ?e,
        THEN conjunct2, THEN conjunct2, THEN conjunct2, THEN conjunct2, THEN conjunct2,
        THEN conjunct1] dbs
    by simp
  have g: "applyCreateDatabase None ?d server_cluster = (Some ErrDatabaseExists, server_cluster)"
    using t [where d = ?d and s = server_cluster and persist = None,
        THEN conjunct2, THEN conjunct2, THEN conjunct2, THEN conjunct2, THEN conjunct2,
        THEN conjunct2, THEN conjunct1] dbs
    by simp
  show ?thesis
    using a b c d e f g by blast
qed

subsection \<open>Shard placement\<close>

lemma appendReplicas_eq:
  "appendReplicas nodes k ni sh =
     (sh\<lparr>DataNodeIDs := DataNodeIDs sh @
          map (\<lambda>i. DataNode.ID (nodes ! ((ni + i) mod length nodes))) [0..<k]\<rparr>, ni + k)"
proof (induction k arbitrary: ni sh)
  case 0
  then show ?case by simp
next
  case (Suc k)
  show ?case
    by (simp add: Suc.IH map_upt_Suc del: upt_Suc)
qed

lemma length_assignDataNodes [simp]:
  "length (assignDataNodes nodes k ni shs) = length shs"
  by (induction shs arbitrary: ni) (simp_all add: appendReplicas_eq)

lemma nth_assignDataNodes:
  "j < length shs \<Longrightarrow>
     assignDataNodes nodes k ni shs ! j =
       (shs ! j)\<lparr>DataNodeIDs := DataNodeIDs (shs ! j) @
          map (\<lambda>i. DataNode.ID (nodes ! ((ni + j * k + i) mod length nodes))) [0..<k]\<rparr>"
proof (induction shs arbitrary: ni j)
  case Nil
  then show ?case by simp
next
  case (Cons sh shs)
  show ?case
  proof (cases j)
    case 0
    then show ?thesis by (simp add: appendReplicas_eq)
  next
    case (Suc j')
    with Cons.prems have "j' < length shs" by simp
    from Cons.IH [OF this, of "ni + k"] Suc show ?thesis
      by (simp add: appendReplicas_eq add.assoc add.left_commute)
  qed
qed

lemma assignShardIDs_shape:
  "length (fst (assignShardIDs m shs)) = length shs
   \<and> map DataNodeIDs (fst (assignShardIDs m shs)) = map DataNodeIDs shs"
  by (induction shs arbitrary: m) (simp_all add: split_beta Let_def)

lemma shift_mod_inj:
  fixes a x y n :: nat
  assumes "x < n" "y < n" "(a + x) mod n = (a + y) mod n"
  shows "x = y"
proof -
  have aux: "u = v" if "u \<le> v" "v < n" "(a + u) mod n = (a + v) mod n" for u v :: nat
  proof -
    have "n dvd (a + v) - (a + u)"
      using that mod_eq_dvd_iff_nat [of "a + u" "a + v" n] by simp
    then have "n dvd v - u" by simp
    moreover have "v - u < n" using that by simp
    ultimately have "v - u = 0"
      using nat_dvd_not_less by blast
    with that show ?thesis by simp
  qed
  show ?thesis
  proof (cases "x \<le> y")
    case True
    then show ?thesis using aux [of x y] assms by simp
  next
    case False
    then show ?thesis using aux [of y x] assms by simp
  qed
qed

lemma round_robin_distinct:
  assumes "distinct (map DataNode.ID nodes)" and "k \<le> length nodes"
  shows "distinct (map (\<lambda>i. DataNode.ID (nodes ! ((a + i) mod length nodes))) [0..<k])"
proof -
  let ?n = "length nodes"
  let ?f = "\<lambda>i. DataNode.ID (nodes ! ((a + i) mod ?n))"
  have "inj_on ?f (set [0..<k])"
  proof (rule inj_onI)
    fix x y
    assume x: "x \<in> set [0..<k]" and y: "y \<in> set [0..<k]" and eq: "?f x = ?f y"
    from x y assms(2) have lt: "x < ?n" "y < ?n" by auto
    then have pos: "0 < ?n" by (cases nodes) simp_all
    have ix: "(a + x) mod ?n < length (map DataNode.ID nodes)"
      and iy: "(a + y) mod ?n < length (map DataNode.ID nodes)"
      using pos by simp_all
    have "map DataNode.ID nodes ! ((a + x) mod ?n) = map DataNode.ID nodes ! ((a + y) mod ?n)"
      using eq ix iy by (simp only: nth_map length_map)
    then have "(a + x) mod ?n = (a + y) mod ?n"
      using nth_eq_iff_index_eq [OF assms(1) ix iy] by simp
    with lt show "x = y" by (rule shift_mod_inj)
  qed
  then show ?thesis
    by (simp add: distinct_map)
qed

lemma distinct_map_sort_key:
  "distinct (map f xs) \<Longrightarrow> distinct (map f (sort_key f xs))"
  by (simp add: distinct_map)

lemma assignShardIDs_replicate:
  assumes "j < n"
  shows "DataNodeIDs (fst (assignShardIDs m (replicate n newShard)) ! j) = []"
proof -
  let ?shs = "fst (assignShardIDs m (replicate n newShard))"
  have len: "j < length ?shs"
    using assms by (simp add: assignShardIDs_shape)
  have "DataNodeIDs (?shs ! j) = map DataNodeIDs ?shs ! j"
    using len by (rule nth_map [symmetric])
  also have "\<dots> = map DataNodeIDs (replicate n newShard) ! j"
    by (simp only: assignShardIDs_shape)
  also have "\<dots> = []"
    using assms by (simp add: newShard_def)
  finally show ?thesis .
qed

lemma create_result:
  assumes db: "map_of (databases s) (createShardGroupIfNotExistsCommand.Database c) = Some db"
    and rp: "map_of (policies db) (createShardGroupIfNotExistsCommand.Policy c) = Some rp"
    and new: "shardGroupByTimestamp rp (createShardGroupIfNotExistsCommand.Timestamp c) = None"
    and nodes: "dataNodes s \<noteq> []"
    and ret: "applyCreateShardGroupIfNotExists openShard persist mIndex c s = Inr (e, s')"
  shows "e = persist \<and>
     policyGroups (createShardGroupIfNotExistsCommand.Database c)
        (createShardGroupIfNotExistsCommand.Policy c) s'
     = shardGroups rp @
       [newShardGroup
          \<lparr>ShardGroup.ID := shardGroupSeq (meta s) + 1,
           StartTime := Truncate (createShardGroupIfNotExistsCommand.Timestamp c) (RetentionPolicy.Duration rp),
           EndTime := Truncate (createShardGroupIfNotExistsCommand.Timestamp c) (RetentionPolicy.Duration rp)
                        + RetentionPolicy.Duration rp,
           Shards :=
             (let ns = sort_key DataNode.ID (map snd (dataNodes s));
                  k = min (max (unat (RetentionPolicy.ReplicaN rp)) 1) (length ns)
              in assignDataNodes ns k (unat mIndex mod length ns)
                   (fst (assignShardIDs (snd (nextShardGroupID (meta s)))
                      (replicate (length ns div k) newShard))))\<rparr>]"
proof -
  let ?ns = "sort_key DataNode.ID (map snd (dataNodes s))"
  have n1: "1 \<le> length (dataNodes s)"
    using nodes by (cases "dataNodes s") simp_all
  have len: "length ?ns \<noteq> 0" using nodes by simp
  have k: "(if unat (RetentionPolicy.ReplicaN rp) = 0 then 1
            else if unat (RetentionPolicy.ReplicaN rp) > length ?ns then length ?ns
            else unat (RetentionPolicy.ReplicaN rp))
           = min (max (unat (RetentionPolicy.ReplicaN rp)) 1) (length ?ns)"
    using n1 by (simp add: min_def max_def)
  have kpos: "min (max (unat (RetentionPolicy.ReplicaN rp)) 1) (length ?ns) \<noteq> 0"
    using n1 nodes by (auto simp: min_def max_def)
  show ?thesis
    using ret len kpos
    unfolding applyCreateShardGroupIfNotExists_def db rp new option.case Let_def k
    by (auto simp: policyGroups_def update_conv' nextShardGroupID_def split_beta
        split: option.splits if_splits)
qed

lemma create_returns:
  assumes db: "map_of (databases s) (createShardGroupIfNotExistsCommand.Database c) = Some db"
    and rp: "map_of (policies db) (createShardGroupIfNotExistsCommand.Policy c) = Some rp"
    and new: "shardGroupByTimestamp rp (createShardGroupIfNotExistsCommand.Timestamp c) = None"
    and nodes: "dataNodes s \<noteq> []"
    and opens: "persist \<noteq> None \<or> (\<forall>i. openShard i = None)"
  shows "\<exists>s'. applyCreateShardGroupIfNotExists openShard persist mIndex c s = Inr (persist, s')"
proof -
  let ?ns = "sort_key DataNode.ID (map snd (dataNodes s))"
  have n1: "1 \<le> length (dataNodes s)"
    using nodes by (cases "dataNodes s") simp_all
  have len: "length ?ns \<noteq> 0" using nodes by simp
  have kpos: "(if unat (RetentionPolicy.ReplicaN rp) = 0 then 1
            else if unat (RetentionPolicy.ReplicaN rp) > length ?ns then length ?ns
            else unat (RetentionPolicy.ReplicaN rp)) \<noteq> 0"
    using n1 nodes by simp
  show ?thesis
  proof (cases persist)
    case (Some e)
    then show ?thesis
      using len kpos
      unfolding applyCreateShardGroupIfNotExists_def db rp new option.case Let_def
      by (simp add: split_beta)
  next
    case None
    with opens have "\<forall>i. openShard i = None" by simp
    then show ?thesis
      using len kpos None
      unfolding applyCreateShardGroupIfNotExists_def db rp new option.case Let_def
      by (simp add: split_beta list_ex_iff)
  qed
qed

lemma appendReplicas_numeral:
  "appendReplicas nodes (numeral v) nodeIndex sh =
     appendReplicas nodes (pred_numeral v) (nodeIndex + 1)
       (sh\<lparr>DataNodeIDs := DataNodeIDs sh @ [DataNode.ID (nodes ! (nodeIndex mod length nodes))]\<rparr>)"
  by (simp add: numeral_eq_Suc)

text \<open>
  Claim C4. Take an apply of create-shard-group-if-not-exists for a database and
  policy that exist, a timestamp that no group of the policy contains, and a
  non-empty set of data nodes (with distinct ids, as the keys of the Go map are),
  and let the metastore update fail or every store open (the handler panics when
  the update succeeds and a store of its own cannot be opened). Then the handler
  returns what the update returned, and one group \<open>g\<close> has been appended to the
  policy. With \<open>nodes\<close> the data nodes sorted by id ascending, \<open>n\<close> their number
  and \<open>replicaN = min (max policy.replicaN 1) n\<close>, the group has
  \<open>n div replicaN\<close> shards, and shard \<open>j\<close> holds exactly the ids of the
  \<open>replicaN\<close> consecutive nodes (cyclically) that start at position
  \<open>(index mod n) + j * replicaN\<close>: the round robin that starts at offset
  \<open>index mod n\<close>. These ids are \<open>replicaN\<close> many and distinct.
\<close>

theorem applyCreateShardGroupIfNotExists_round_robin:
  assumes db: "map_of (databases s) (createShardGroupIfNotExistsCommand.Database c) = Some db"
    and rp: "map_of (policies db) (createShardGroupIfNotExistsCommand.Policy c) = Some rp"
    and new: "shardGroupByTimestamp rp (createShardGroupIfNotExistsCommand.Timestamp c) = None"
    and nodes: "dataNodes s \<noteq> []"
    and ids: "distinct (map (DataNode.ID \<circ> snd) (dataNodes s))"
    and opens: "persist \<noteq> None \<or> (\<forall>i. openShard i = None)"
  shows "\<exists>s' g. applyCreateShardGroupIfNotExists openShard persist mIndex c s = Inr (persist, s')
     \<and> policyGroups (createShardGroupIfNotExistsCommand.Database c)
               (createShardGroupIfNotExistsCommand.Policy c) s' = shardGroups rp @ [g]
     \<and> (let nodes = sort_key DataNode.ID (map snd (dataNodes s));
             n = length nodes;
             replicaN = min (max (unat (RetentionPolicy.ReplicaN rp)) 1) n
         in n = length (dataNodes s)
          \<and> sorted (map DataNode.ID nodes)
          \<and> set nodes = snd ` set (dataNodes s)
          \<and> length (Shards g) = n div replicaN
          \<and> (\<forall>j < length (Shards g).
                DataNodeIDs (Shards g ! j)
                  = map (\<lambda>i. DataNode.ID (nodes ! ((unat mIndex mod n + j * replicaN + i) mod n)))
                      [0..<replicaN]
              \<and> length (DataNodeIDs (Shards g ! j)) = replicaN
              \<and> distinct (DataNodeIDs (Shards g ! j))))"
proof -
  let ?ns = "sort_key DataNode.ID (map snd (dataNodes s))"
  let ?n = "length ?ns"
  let ?k = "min (max (unat (RetentionPolicy.ReplicaN rp)) 1) ?n"
  let ?shs = "fst (assignShardIDs (snd (nextShardGroupID (meta s))) (replicate (?n div ?k) newShard))"
  let ?g = "newShardGroup
          \<lparr>ShardGroup.ID := shardGroupSeq (meta s) + 1,
           StartTime := Truncate (createShardGroupIfNotExistsCommand.Timestamp c) (RetentionPolicy.Duration rp),
           EndTime := Truncate (createShardGroupIfNotExistsCommand.Timestamp c) (RetentionPolicy.Duration rp)
                        + RetentionPolicy.Duration rp,
           Shards := assignDataNodes ?ns ?k (unat mIndex mod ?n) ?shs\<rparr>"
  from create_returns [OF db rp new nodes opens] obtain s' where
    ret: "applyCreateShardGroupIfNotExists openShard persist mIndex c s = Inr (persist, s')"
    by blast
  have groups: "policyGroups (createShardGroupIfNotExistsCommand.Database c)
      (createShardGroupIfNotExistsCommand.Policy c) s' = shardGroups rp @ [?g]"
    using create_result [OF db rp new nodes ret] by (simp add: Let_def)
  have shards: "Shards ?g = assignDataNodes ?ns ?k (unat mIndex mod ?n) ?shs"
    by simp
  have len_shs: "length ?shs = ?n div ?k"
    by (simp only: assignShardIDs_shape length_replicate)
  have len: "length (Shards ?g) = ?n div ?k"
    unfolding shards by (simp only: length_assignDataNodes len_shs)
  have dist: "distinct (map DataNode.ID ?ns)"
    using ids by (intro distinct_map_sort_key) (simp add: comp_def)
  have k_le: "?k \<le> ?n"
    by simp
  have each: "DataNodeIDs (Shards ?g ! j)
        = map (\<lambda>i. DataNode.ID (?ns ! ((unat mIndex mod ?n + j * ?k + i) mod ?n))) [0..<?k]
      \<and> length (DataNodeIDs (Shards ?g ! j)) = ?k
      \<and> distinct (DataNodeIDs (Shards ?g ! j))" if j: "j < length (Shards ?g)" for j
  proof -
    have j': "j < length ?shs" and j'': "j < ?n div ?k"
      using j len len_shs by simp_all
    have eq: "DataNodeIDs (Shards ?g ! j)
        = map (\<lambda>i. DataNode.ID (?ns ! ((unat mIndex mod ?n + j * ?k + i) mod ?n))) [0..<?k]"
      unfolding shards nth_assignDataNodes [OF j']
      using assignShardIDs_replicate [OF j''] by simp
    moreover have "distinct (map (\<lambda>i. DataNode.ID (?ns ! ((unat mIndex mod ?n + j * ?k + i) mod ?n)))
        [0..<?k])"
      using round_robin_distinct [OF dist k_le] .
    ultimately show ?thesis
      by simp
  qed
  have "?n = length (dataNodes s)" "sorted (map DataNode.ID ?ns)" "set ?ns = snd ` set (dataNodes s)"
    by simp_all
  with ret groups len each show ?thesis
    unfolding Let_def by blast
qed

lemma create_at_5:
  "applyCreateShardGroupIfNotExists (\<lambda>i. None) None 7 (create_at 5) server_cluster
     = Inr (None, server_grouped)"
  by (simp add: applyCreateShardGroupIfNotExists_def server_cluster_def create_at_def
     db_metrics_def rp_hour_def shardGroupByTimestamp_def Truncate_def word_le_nat_alt
     nextShardGroupID_def nextShardID_def newShard_def newShardGroup_def commit_def
     HasDataNodeID_def openShards_def addShards_def contains_def Let_def appendReplicas_numeral
     server_grouped_def)

theorem applyCreateShardGroupIfNotExists_round_robin_witness:
  "\<exists>s' g. applyCreateShardGroupIfNotExists (\<lambda>i. None) None 7 (create_at 5) server_cluster
          = Inr (None, s')
      \<and> policyGroups ''db'' ''rp'' s' = [g]
      \<and> length (Shards g) = 1
      \<and> DataNodeIDs (Shards g ! 0) = [2, 3]
      \<and> distinct (DataNodeIDs (Shards g ! 0))"
proof -
  have db: "map_of (databases server_cluster)
      (createShardGroupIfNotExistsCommand.Database (create_at 5)) = Some db_metrics"
    by (simp add: server_cluster_def create_at_def)
  have rp: "map_of (policies db_metrics)
      (createShardGroupIfNotExistsCommand.Policy (create_at 5)) = Some rp_hour"
    by (simp add: db_metrics_def create_at_def)
  have new: "shardGroupByTimestamp rp_hour (createShardGroupIfNotExistsCommand.Timestamp (create_at 5)) = None"
    by (simp add: shardGroupByTimestamp_def rp_hour_def)
  have nodes: "dataNodes server_cluster \<noteq> []"
    by (simp add: server_cluster_def)
  have ids: "distinct (map (DataNode.ID \<circ> snd) (dataNodes server_cluster))"
    by (simp add: server_cluster_def)
  have opens: "(None :: error option) \<noteq> None \<or> (\<forall>i. (\<lambda>i :: u64. (None :: error option)) i = None)"
    by simp
  have sorted: "sort_key DataNode.ID (map snd (dataNodes server_cluster))
     = [\<lparr>DataNode.ID = 1, DataNode.URL = Some ''http://a''\<rparr>,
        \<lparr>DataNode.ID = 2, DataNode.URL = Some ''http://b''\<rparr>,
        \<lparr>DataNode.ID = 3, DataNode.URL = Some ''http://c''\<rparr>]"
    by (simp add: server_cluster_def word_le_nat_alt)
  have n: "length (sort_key DataNode.ID (map snd (dataNodes server_cluster))) = 3"
    by (simp add: server_cluster_def)
  have k: "min (max (unat (RetentionPolicy.ReplicaN rp_hour)) 1) 3 = 2"
    by (simp add: rp_hour_def)
  have up: "[0..<2] = [0, Suc 0]"
    by (simp add: upt_rec)
  obtain s' g where ret: "applyCreateShardGroupIfNotExists (\<lambda>i. None) None 7 (create_at 5)
        server_cluster = Inr (None, s')"
    and g: "policyGroups ''db'' ''rp'' s' = shardGroups rp_hour @ [g]"
    and rest: "(let nodes = sort_key DataNode.ID (map snd (dataNodes server_cluster));
             n = length nodes;
             replicaN = min (max (unat (RetentionPolicy.ReplicaN rp_hour)) 1) n
         in n = length (dataNodes server_cluster)
          \<and> sorted (map DataNode.ID nodes)
          \<and> set nodes = snd ` set (dataNodes server_cluster)
          \<and> length (Shards g) = n div replicaN
          \<and> (\<forall>j < length (Shards g).
                DataNodeIDs (Shards g ! j)
                  = map (\<lambda>i. DataNode.ID (nodes ! ((unat (7::u64) mod n + j * replicaN + i) mod n)))
                      [0..<replicaN]
              \<and> length (DataNodeIDs (Shards g ! j)) = replicaN
              \<and> distinct (DataNodeIDs (Shards g ! j))))"
    using applyCreateShardGroupIfNotExists_round_robin
      [where openShard = "\<lambda>i. None" and persist = None and mIndex = 7, OF db rp new nodes ids opens]
    unfolding create_at_def by auto
  note r = rest [unfolded Let_def n k]
  from r have len: "length (Shards g) = 3 div 2"
    by blast
  then have len1: "length (Shards g) = 1" "0 < length (Shards g)"
    by simp_all
  from r have "\<forall>j < length (Shards g).
      DataNodeIDs (Shards g ! j)
        = map (\<lambda>i. DataNode.ID (sort_key DataNode.ID (map snd (dataNodes server_cluster))
                 ! ((unat (7::u64) mod 3 + j * 2 + i) mod 3))) [0..<2]
      \<and> length (DataNodeIDs (Shards g ! j)) = 2
      \<and> distinct (DataNodeIDs (Shards g ! j))"
    by blast
  with len1(2) have "DataNodeIDs (Shards g ! 0)
        = map (\<lambda>i. DataNode.ID (sort_key DataNode.ID (map snd (dataNodes server_cluster))
                 ! ((unat (7::u64) mod 3 + 0 * 2 + i) mod 3))) [0..<2]"
      and d: "distinct (DataNodeIDs (Shards g ! 0))"
    by blast+
  then have "DataNodeIDs (Shards g ! 0) = [2, 3]"
    by (simp add: sorted up)
  with ret g len1 d show ?thesis
    by (auto simp: rp_hour_def)
qed

subsection \<open>Disjoint shard group windows\<close>

lemma Truncate_idem: "Truncate (Truncate t d) d = Truncate t d"
  by (simp add: Truncate_def)

lemma window_contains:
  assumes "window_of d g" and "contains g t"
  shows "0 < d \<and> StartTime g = Truncate t d"
proof -
  let ?S = "StartTime g"
  from assms have le: "?S \<le> t" and lt: "t < ?S + d" and al: "?S = Truncate ?S d"
    by (simp_all add: window_of_def contains_def)
  from le lt have pos: "0 < d" by simp
  with al have "?S mod d = 0" by (simp add: Truncate_def)
  then obtain q where q: "?S = d * q" by (auto simp: mod_eq_0_iff_dvd)
  have "t mod d = (t - ?S) mod d"
    unfolding q by (simp add: mod_diff_right_eq [symmetric])
  also have "\<dots> = t - ?S"
    using le lt by (simp add: mod_pos_pos_trivial)
  finally have "t - t mod d = ?S" by simp
  with pos show ?thesis by (simp add: Truncate_def)
qed

lemma distinct_const_short:
  "distinct (map f xs) \<Longrightarrow> \<forall>x \<in> set xs. f x = c \<Longrightarrow> length xs \<le> 1"
proof (cases xs)
  case Nil
  then show ?thesis by simp
next
  case (Cons a ys)
  assume "distinct (map f xs)" "\<forall>x \<in> set xs. f x = c"
  with Cons show ?thesis by (cases ys) auto
qed

lemma aligned_disjoint:
  assumes "windows_aligned rp"
  shows "length (containing rp t) \<le> 1"
proof (cases "containing rp t = []")
  case True
  then show ?thesis by simp
next
  case False
  then obtain g where g: "g \<in> set (shardGroups rp)" "contains g t"
    by (auto simp: containing_def filter_empty_conv)
  let ?d = "RetentionPolicy.Duration rp"
  have win: "\<forall>h \<in> set (shardGroups rp). window_of ?d h"
    using assms by (simp add: windows_aligned_def list_all_iff)
  then have "0 < ?d" using g window_contains by blast
  then have "distinct (map StartTime (shardGroups rp))"
    using assms by (simp add: windows_aligned_def)
  then have "distinct (map StartTime (containing rp t))"
    unfolding containing_def by (rule distinct_map_filter)
  moreover have "\<forall>h \<in> set (containing rp t). StartTime h = Truncate t ?d"
    using win window_contains by (auto simp: containing_def)
  ultimately show ?thesis by (rule distinct_const_short)
qed

lemma aligned_append:
  assumes al: "windows_aligned rp"
    and new: "shardGroupByTimestamp rp ts = None"
    and st: "StartTime g = Truncate ts (RetentionPolicy.Duration rp)"
    and en: "EndTime g = StartTime g + RetentionPolicy.Duration rp"
  shows "windows_aligned (rp\<lparr>shardGroups := shardGroups rp @ [g]\<rparr>)"
proof -
  let ?d = "RetentionPolicy.Duration rp"
  have w: "window_of ?d g"
    using st en by (simp add: window_of_def Truncate_idem)
  have none: "\<forall>h \<in> set (shardGroups rp). \<not> contains h ts"
    using new by (simp add: shardGroupByTimestamp_def find_None_iff)
  have fresh: "StartTime g \<notin> StartTime ` set (shardGroups rp)" if pos: "0 < ?d"
  proof
    assume "StartTime g \<in> StartTime ` set (shardGroups rp)"
    then obtain h where h: "h \<in> set (shardGroups rp)" "StartTime h = StartTime g" by auto
    have "window_of ?d h"
      using al h(1) by (simp add: windows_aligned_def list_all_iff)
    then have "EndTime h = StartTime g + ?d"
      using h(2) by (simp add: window_of_def)
    moreover have "StartTime g \<le> ts" "ts < StartTime g + ?d"
      using pos st by (simp_all add: Truncate_def pos_mod_bound)
    ultimately have "contains h ts"
      using h(2) by (simp add: contains_def)
    with none h(1) show False by blast
  qed
  show ?thesis
    using al w fresh by (auto simp: windows_aligned_def)
qed

lemma set_update_cases:
  "(a, b) \<in> set (AList.update k v al) \<Longrightarrow> (a, b) = (k, v) \<or> (a, b) \<in> set al"
  by (induction al) (auto split: if_splits)

lemma set_delete_subset: "(a, b) \<in> set (AList.delete k al) \<Longrightarrow> (a, b) \<in> set al"
  by (induction al) (auto split: if_splits)

lemma windows_inv_iff:
  "windows_inv s \<longleftrightarrow>
     (\<forall>dn db pn rp. (dn, db) \<in> set (databases s) \<longrightarrow> (pn, rp) \<in> set (policies db)
        \<longrightarrow> windows_aligned rp)"
  by (fastforce simp: windows_inv_def list_all_iff)

lemma windows_inv_update_db:
  assumes "windows_inv s" and "\<forall>pn rp. (pn, rp) \<in> set (policies db') \<longrightarrow> windows_aligned rp"
    and "databases s' = AList.update dn db' (databases s)"
  shows "windows_inv s'"
  unfolding windows_inv_iff
proof (intro allI impI)
  fix k d pn rp
  assume "(k, d) \<in> set (databases s')" and p: "(pn, rp) \<in> set (policies d)"
  then have "(k, d) = (dn, db') \<or> (k, d) \<in> set (databases s)"
    using assms(3) set_update_cases by metis
  then show "windows_aligned rp"
    using p assms(1,2) unfolding windows_inv_iff by blast
qed

lemma windows_inv_policy:
  "windows_inv s \<Longrightarrow> map_of (databases s) dn = Some db \<Longrightarrow> (pn, rp) \<in> set (policies db)
     \<Longrightarrow> windows_aligned rp"
  unfolding windows_inv_iff by (blast dest: map_of_SomeD)

lemma create_preserves:
  assumes inv: "windows_inv s"
    and ret: "applyCreateShardGroupIfNotExists openShard persist mIndex c s = Inr (e, s')"
  shows "windows_inv s'"
proof (cases "map_of (databases s) (createShardGroupIfNotExistsCommand.Database c)")
  case None
  with ret inv show ?thesis by (simp add: applyCreateShardGroupIfNotExists_def)
next
  case (Some db)
  note db = this
  show ?thesis
  proof (cases "map_of (policies db) (createShardGroupIfNotExistsCommand.Policy c)")
    case None
    with ret inv db show ?thesis by (simp add: applyCreateShardGroupIfNotExists_def)
  next
    case (Some rp)
    note rp = this
    show ?thesis
    proof (cases "shardGroupByTimestamp rp (createShardGroupIfNotExistsCommand.Timestamp c)")
      case (Some g)
      with ret inv db rp show ?thesis by (simp add: applyCreateShardGroupIfNotExists_def)
    next
      case None
      note new = this
      have al: "windows_aligned rp"
        using inv db rp by (blast intro: windows_inv_policy dest: map_of_SomeD)
      let ?ns = "sort_key DataNode.ID (map snd (dataNodes s))"
      let ?k = "if unat (RetentionPolicy.ReplicaN rp) = 0 then 1
                 else if unat (RetentionPolicy.ReplicaN rp) > length ?ns then length ?ns
                 else unat (RetentionPolicy.ReplicaN rp)"
      define g where "g = newShardGroup
          \<lparr>ShardGroup.ID := fst (nextShardGroupID (meta s)),
           StartTime := Truncate (createShardGroupIfNotExistsCommand.Timestamp c) (RetentionPolicy.Duration rp),
           EndTime := Truncate (createShardGroupIfNotExistsCommand.Timestamp c) (RetentionPolicy.Duration rp)
                        + RetentionPolicy.Duration rp,
           Shards := assignDataNodes ?ns ?k (unat mIndex mod length ?ns)
             (fst (assignShardIDs (snd (nextShardGroupID (meta s)))
                (replicate (length ?ns div ?k) newShard)))\<rparr>"
      have g: "StartTime g = Truncate (createShardGroupIfNotExistsCommand.Timestamp c) (RetentionPolicy.Duration rp)"
          "EndTime g = StartTime g + RetentionPolicy.Duration rp"
        by (simp_all add: g_def)
      have dbs: "databases s' = AList.update (createShardGroupIfNotExistsCommand.Database c)
            (db\<lparr>policies := AList.update (createShardGroupIfNotExistsCommand.Policy c)
                 (rp\<lparr>shardGroups := shardGroups rp @ [g]\<rparr>) (policies db)\<rparr>) (databases s)"
        using ret unfolding applyCreateShardGroupIfNotExists_def db rp new option.case Let_def g_def
        by (auto simp: split_beta split: if_splits option.splits)
      have al': "windows_aligned (rp\<lparr>shardGroups := shardGroups rp @ [g]\<rparr>)"
        using al new g by (rule aligned_append)
      show ?thesis
      proof (rule windows_inv_update_db [OF inv _ dbs], intro allI impI)
        fix pn p
        assume "(pn, p) \<in> set (policies (db\<lparr>policies :=
            AList.update (createShardGroupIfNotExistsCommand.Policy c)
                 (rp\<lparr>shardGroups := shardGroups rp @ [g]\<rparr>) (policies db)\<rparr>))"
        then have "p = rp\<lparr>shardGroups := shardGroups rp @ [g]\<rparr> \<or> (pn, p) \<in> set (policies db)"
          using set_update_cases by fastforce
        then show "windows_aligned p"
          using al' inv db by (blast intro: windows_inv_policy)
      qed
    qed
  qed
qed

lemma windows_inv_step:
  assumes inv: "windows_inv s"
    and db: "map_of (databases s) dn = Some db"
    and pols: "\<And>pn rp. (pn, rp) \<in> set pols \<Longrightarrow> (pn, rp) \<in> set (policies db) \<or> windows_aligned rp"
    and dbs: "databases s' = AList.update dn (db\<lparr>policies := pols\<rparr>) (databases s)"
  shows "windows_inv s'"
proof (rule windows_inv_update_db [OF inv _ dbs], intro allI impI)
  fix pn rp
  assume "(pn, rp) \<in> set (policies (db\<lparr>policies := pols\<rparr>))"
  then have "(pn, rp) \<in> set (policies db) \<or> windows_aligned rp"
    using pols by simp
  then show "windows_aligned rp"
    using inv db by (blast intro: windows_inv_policy)
qed

lemma update_policy_shape:
  assumes ret: "applyUpdateRetentionPolicy persist c s = Inr (e, s')"
  shows "s' = s \<or>
    (\<exists>db p u p' pols.
        map_of (databases s) (updateRetentionPolicyCommand.Database c) = Some db
      \<and> map_of (policies db) (updateRetentionPolicyCommand.Name c) = Some p
      \<and> updateRetentionPolicyCommand.Policy c = Some u
      \<and> shardGroups p' = shardGroups p
      \<and> RetentionPolicy.Duration p'
          = (case RetentionPolicyUpdate.Duration u of
               None \<Rightarrow> RetentionPolicy.Duration p | Some d \<Rightarrow> d)
      \<and> (\<forall>pn rp. (pn, rp) \<in> set pols \<longrightarrow> rp = p' \<or> (pn, rp) \<in> set (policies db))
      \<and> databases s' = AList.update (updateRetentionPolicyCommand.Database c)
            (db\<lparr>policies := pols\<rparr>) (databases s))"
proof (cases "map_of (databases s) (updateRetentionPolicyCommand.Database c)")
  case None
  with ret show ?thesis by (simp add: applyUpdateRetentionPolicy_def)
next
  case (Some db)
  note db = this
  show ?thesis
  proof (cases "updateRetentionPolicyCommand.Name c = []
      \<or> map_of (policies db) (updateRetentionPolicyCommand.Name c) = None")
    case True
    with ret db show ?thesis
      by (auto simp: applyUpdateRetentionPolicy_def split: if_splits)
  next
    case False
    then obtain p where nm: "updateRetentionPolicyCommand.Name c \<noteq> []"
      and p: "map_of (policies db) (updateRetentionPolicyCommand.Name c) = Some p"
      by auto
    from ret db nm p obtain u where u: "updateRetentionPolicyCommand.Policy c = Some u"
      by (cases "updateRetentionPolicyCommand.Policy c") (simp_all add: applyUpdateRetentionPolicy_def)
    let ?p' = "p\<lparr>RetentionPolicy.Name :=
                   (case RetentionPolicyUpdate.Name u of
                      None \<Rightarrow> RetentionPolicy.Name p | Some n \<Rightarrow> n),
                 RetentionPolicy.Duration :=
                   (case RetentionPolicyUpdate.Duration u of
                      None \<Rightarrow> RetentionPolicy.Duration p | Some d \<Rightarrow> d),
                 RetentionPolicy.ReplicaN :=
                   (case RetentionPolicyUpdate.ReplicaN u of
                      None \<Rightarrow> RetentionPolicy.ReplicaN p | Some r \<Rightarrow> r)\<rparr>"
    let ?ck = "updateRetentionPolicyCommand.Name c"
    let ?pols = "(case RetentionPolicyUpdate.Name u of
                    None \<Rightarrow> AList.update ?ck ?p' (policies db)
                  | Some n \<Rightarrow>
                      AList.update n ?p'
                        (if RetentionPolicy.Name p = ?ck
                         then AList.delete (RetentionPolicy.Name p) (policies db)
                         else AList.update ?ck ?p'
                                (AList.delete (RetentionPolicy.Name p) (policies db))))"
    have dbs: "databases s' = AList.update (updateRetentionPolicyCommand.Database c)
            (db\<lparr>policies := ?pols\<rparr>) (databases s)"
      using ret db nm p u by (auto simp: applyUpdateRetentionPolicy_def Let_def)
    have pols: "\<forall>pn rp. (pn, rp) \<in> set ?pols \<longrightarrow> rp = ?p' \<or> (pn, rp) \<in> set (policies db)"
      by (auto split: option.splits if_splits dest!: set_update_cases set_delete_subset)
    have "shardGroups ?p' = shardGroups p" by simp
    moreover have "RetentionPolicy.Duration ?p'
          = (case RetentionPolicyUpdate.Duration u of
               None \<Rightarrow> RetentionPolicy.Duration p | Some d \<Rightarrow> d)" by simp
    ultimately show ?thesis
      using db p u pols dbs by blast
  qed
qed

lemma windows_disjoint_iff:
  "windows_disjoint s \<longleftrightarrow>
     (\<forall>dn db pn rp t. (dn, db) \<in> set (databases s) \<longrightarrow> (pn, rp) \<in> set (policies db)
        \<longrightarrow> length (filter (\<lambda>g. contains g t) (shardGroups rp)) \<le> 1)"
  by (fastforce simp: windows_disjoint_def containing_def)

lemma update_keeps_disjoint:
  assumes dis: "windows_disjoint s"
    and ret: "applyUpdateRetentionPolicy persist c s = Inr (e, s')"
  shows "windows_disjoint s'"
proof -
  from update_policy_shape [OF ret] show ?thesis
  proof
    assume "s' = s"
    with dis show ?thesis by simp
  next
    assume "\<exists>db p u p' pols.
        map_of (databases s) (updateRetentionPolicyCommand.Database c) = Some db
      \<and> map_of (policies db) (updateRetentionPolicyCommand.Name c) = Some p
      \<and> updateRetentionPolicyCommand.Policy c = Some u
      \<and> shardGroups p' = shardGroups p
      \<and> RetentionPolicy.Duration p'
          = (case RetentionPolicyUpdate.Duration u of
               None \<Rightarrow> RetentionPolicy.Duration p | Some d \<Rightarrow> d)
      \<and> (\<forall>pn rp. (pn, rp) \<in> set pols \<longrightarrow> rp = p' \<or> (pn, rp) \<in> set (policies db))
      \<and> databases s' = AList.update (updateRetentionPolicyCommand.Database c)
            (db\<lparr>policies := pols\<rparr>) (databases s)"
    then obtain db p u p' pols where
      db: "map_of (databases s) (updateRetentionPolicyCommand.Database c) = Some db"
      and p: "map_of (policies db) (updateRetentionPolicyCommand.Name c) = Some p"
      and sg: "shardGroups p' = shardGroups p"
      and pols: "\<forall>pn rp. (pn, rp) \<in> set pols \<longrightarrow> rp = p' \<or> (pn, rp) \<in> set (policies db)"
      and dbs: "databases s' = AList.update (updateRetentionPolicyCommand.Database c)
            (db\<lparr>policies := pols\<rparr>) (databases s)"
      by blast
    have old: "length (filter (\<lambda>g. contains g t) (shardGroups rp)) \<le> 1"
      if "(pn, rp) \<in> set (policies db)" for pn rp t
      using dis db that unfolding windows_disjoint_iff by (blast dest: map_of_SomeD)
    show ?thesis
      unfolding windows_disjoint_iff
    proof (intro allI impI)
      fix dn d pn rp t
      assume d: "(dn, d) \<in> set (databases s')" and r: "(pn, rp) \<in> set (policies d)"
      from d dbs have "(dn, d) = (updateRetentionPolicyCommand.Database c, db\<lparr>policies := pols\<rparr>)
          \<or> (dn, d) \<in> set (databases s)"
        using set_update_cases by metis
      then show "length (filter (\<lambda>g. contains g t) (shardGroups rp)) \<le> 1"
      proof
        assume "(dn, d) \<in> set (databases s)"
        with dis r show ?thesis unfolding windows_disjoint_iff by blast
      next
        assume "(dn, d) = (updateRetentionPolicyCommand.Database c, db\<lparr>policies := pols\<rparr>)"
        with r have "(pn, rp) \<in> set pols" by simp
        with pols have "rp = p' \<or> (pn, rp) \<in> set (policies db)" by blast
        then show ?thesis
          using old sg p by (auto dest: map_of_SomeD)
      qed
    qed
  qed
qed

lemma delete_group_preserves:
  assumes inv: "windows_inv s"
  shows "windows_inv (snd (applyDeleteShardGroup persist c s))"
proof (cases "map_of (databases s) (deleteShardGroupCommand.Database c)")
  case None
  with inv show ?thesis by (simp add: applyDeleteShardGroup_def)
next
  case (Some db)
  note db = this
  show ?thesis
  proof (cases "map_of (policies db) (deleteShardGroupCommand.Policy c)")
    case None
    with inv db show ?thesis by (simp add: applyDeleteShardGroup_def)
  next
    case (Some rp)
    note rp = this
    show ?thesis
    proof (cases "shardGroupByID rp (deleteShardGroupCommand.ID c)")
      case None
      with inv db rp show ?thesis by (simp add: applyDeleteShardGroup_def)
    next
      case (Some g)
      let ?rp' = "removeShardGroupByID rp (deleteShardGroupCommand.ID c)"
      let ?pols = "AList.update (deleteShardGroupCommand.Policy c) ?rp' (policies db)"
      have "windows_aligned rp"
        using inv db rp by (blast intro: windows_inv_policy dest: map_of_SomeD)
      then have al: "windows_aligned ?rp'"
        by (auto simp: windows_aligned_def removeShardGroupByID_def list_all_iff
            intro: distinct_map_filter)
      have dbs: "databases (snd (applyDeleteShardGroup persist c s))
          = AList.update (deleteShardGroupCommand.Database c) (db\<lparr>policies := ?pols\<rparr>) (databases s)"
        using db rp Some by (simp add: applyDeleteShardGroup_def Let_def)
      show ?thesis
        using al by (intro windows_inv_step [OF inv db _ dbs]) (auto dest!: set_update_cases)
    qed
  qed
qed

lemma lengthen_grouped:
  "applyUpdateRetentionPolicy None lengthen_rp server_grouped = Inr (None, server_lengthened)"
  by (simp add: applyUpdateRetentionPolicy_def lengthen_rp_def server_grouped_def
      server_cluster_def db_metrics_def rp_hour_def server_lengthened_def group_one_def Let_def)

lemma rename_grouped:
  "applyUpdateRetentionPolicy None rename_rp server_grouped = Inr (None, server_renamed)"
  by (simp add: applyUpdateRetentionPolicy_def rename_rp_def server_grouped_def
      server_cluster_def db_metrics_def rp_hour_def server_renamed_def group_one_def Let_def)

lemma create_at_15:
  "applyCreateShardGroupIfNotExists (\<lambda>i. None) None 8 (create_at 15) server_lengthened
     = Inr (None, server_overlapping)"
  by (simp add: applyCreateShardGroupIfNotExists_def server_cluster_def create_at_def
     db_metrics_def rp_hour_def shardGroupByTimestamp_def Truncate_def word_le_nat_alt
     nextShardGroupID_def nextShardID_def newShard_def newShardGroup_def commit_def
     HasDataNodeID_def openShards_def addShards_def contains_def Let_def appendReplicas_numeral
     server_grouped_def server_lengthened_def server_overlapping_def group_one_def group_two_def)

lemma windows_inv_cluster: "windows_inv server_cluster"
  by (simp add: windows_inv_def server_cluster_def db_metrics_def rp_hour_def windows_aligned_def)

lemma windows_inv_same: "databases s' = databases s \<Longrightarrow> windows_inv s \<Longrightarrow> windows_inv s'"
  by (simp add: windows_inv_def)

lemma policies_createSeriesAll:
  "policies (snd (createSeriesAll marshalTags createSeries nm ts db)) = policies db"
proof (induction ts arbitrary: db)
  case Nil
  then show ?case by simp
next
  case (Cons t ts)
  show ?case
  proof (cases "snd (MeasurementAndSeries marshalTags db nm t)")
    case (Some ss)
    then show ?thesis using Cons.IH [of db] by simp
  next
    case None
    show ?thesis
    proof (cases "createSeries (name db) nm t")
      case (Inl err)
      with None show ?thesis by simp
    next
      case (Inr sr)
      have "policies (addSeriesToIndex db nm sr) = policies db"
        by (simp add: addSeriesToIndex_def Let_def)
      with None Inr show ?thesis using Cons.IH [of "addSeriesToIndex db nm sr"] by simp
    qed
  qed
qed

lemma delete_database_preserves:
  "windows_inv s \<Longrightarrow> windows_inv (snd (applyDeleteDatabase persist c s))"
proof (cases "map_of (databases s) (deleteDatabaseCommand.Name c)")
  case None
  assume "windows_inv s"
  with None show ?thesis by (simp add: applyDeleteDatabase_def)
next
  case (Some d)
  assume inv: "windows_inv s"
  have dbs: "databases (snd (applyDeleteDatabase persist c s))
      = AList.delete (deleteDatabaseCommand.Name c) (databases s)"
    using Some by (simp add: applyDeleteDatabase_def)
  show ?thesis
    unfolding windows_inv_iff dbs
    using inv [unfolded windows_inv_iff] by (blast dest: set_delete_subset)
qed

lemma addShardBySeriesID_databases [simp]:
  "databases (addShardBySeriesID sh seriesID s) = databases s"
  by (simp add: addShardBySeriesID_def)

lemma writeSeries_databases:
  "databases (snd (writeSeries storeError sh seriesID timestamp data overwrite s)) = databases s"
  by (simp add: writeSeries_def Let_def split: option.splits)

lemma loop_databases:
  "applyWriteRawSeries_loop hdr storeError fuel m sh i s = Some (Inr (e, s')) \<Longrightarrow>
     databases s' = databases s"
proof (induction fuel arbitrary: s)
  case 0
  then show ?case by simp
next
  case (Suc fuel)
  obtain seriesID payloadLength timestamp where
    h: "hdr (take pointHeaderSize (Data m)) = (seriesID, payloadLength, timestamp)"
    by (cases "hdr (take pointHeaderSize (Data m))")
  let ?s1 = "addShardBySeriesID sh seriesID s"
  let ?data = "drop pointHeaderSize (take (unat payloadLength) (Data m))"
  obtain r s2 where w: "writeSeries storeError sh seriesID timestamp ?data True ?s1 = (r, s2)"
    by (cases "writeSeries storeError sh seriesID timestamp ?data True ?s1")
  have d2: "databases s2 = databases s"
    using writeSeries_databases [of storeError sh seriesID timestamp ?data True ?s1] w by simp
  have ok: "\<not> length (Data m) < pointHeaderSize"
    "\<not> (unat payloadLength < pointHeaderSize \<or> length (Data m) < unat payloadLength)"
    using Suc.prems h by (auto split: if_splits)
  show ?case
  proof (cases r)
    case (Some err)
    with Suc.prems h w ok have "s' = s2"
      by (simp add: Let_def)
    with d2 show ?thesis by simp
  next
    case None
    show ?thesis
    proof (cases "i > int (length (Data m))")
      case True
      with Suc.prems h w ok None have "s' = s2"
        by (simp add: Let_def)
      with d2 show ?thesis by simp
    next
      case False
      with Suc.prems h w ok None have
        "applyWriteRawSeries_loop hdr storeError fuel m sh i s2 = Some (Inr (e, s'))"
        by (simp add: Let_def)
      from Suc.IH [OF this] d2 show ?thesis by simp
    qed
  qed
qed

lemma write_raw_preserves:
  "applyWriteRawSeries hdr storeError fuel m s = Some (Inr (e, s')) \<Longrightarrow> databases s' = databases s"
proof (cases "shards s (TopicID m)")
  case None
  assume "applyWriteRawSeries hdr storeError fuel m s = Some (Inr (e, s'))"
  with None show ?thesis by (simp add: applyWriteRawSeries_def)
next
  case (Some sh)
  assume "applyWriteRawSeries hdr storeError fuel m s = Some (Inr (e, s'))"
  with Some have "applyWriteRawSeries_loop hdr storeError fuel m sh 0 s = Some (Inr (e, s'))"
    by (simp add: applyWriteRawSeries_def)
  then show ?thesis by (rule loop_databases)
qed

lemma policies_createMeasurementsAll:
  "createMeasurementsAll marshalTags createSeries saveMeasurement persist cms db = Inr (e, db')
     \<Longrightarrow> policies db' = policies db"
proof (induction cms arbitrary: db)
  case Nil
  then show ?case by simp
next
  case (Cons kcm cms)
  obtain k cm where kcm: "kcm = (k, cm)" by (cases kcm)
  obtain r db1 where cs: "createSeriesAll marshalTags createSeries (createMeasurementSubcommand.Name cm)
             (map snd (createMeasurementSubcommand.Tags cm)) db = (r, db1)"
    by (cases "createSeriesAll marshalTags createSeries (createMeasurementSubcommand.Name cm)
             (map snd (createMeasurementSubcommand.Tags cm)) db")
  have p1: "policies db1 = policies db"
    using policies_createSeriesAll [of marshalTags createSeries "createMeasurementSubcommand.Name cm"
        "map snd (createMeasurementSubcommand.Tags cm)" db] cs by simp
  show ?case
  proof (cases r)
    case (Some err)
    with Cons.prems kcm cs p1 show ?thesis by simp
  next
    case None
    note r = this
    show ?thesis
    proof (cases "map_of (measurements db1) (createMeasurementSubcommand.Name cm)")
      case None
      with Cons.prems kcm cs r show ?thesis by simp
    next
      case (Some mm)
      obtain r2 mm' where cf: "createFieldsAll saveMeasurement (name db1)
                       (createMeasurementSubcommand.Fields cm) mm = (r2, mm')"
        by (cases "createFieldsAll saveMeasurement (name db1)
                       (createMeasurementSubcommand.Fields cm) mm")
      let ?db2 = "db1\<lparr>measurements :=
                                  AList.update (createMeasurementSubcommand.Name cm) mm'
                                    (measurements db1)\<rparr>"
      have p2: "policies ?db2 = policies db" using p1 by simp
      show ?thesis
      proof (cases "r2 = None \<and> persist = None")
        case True
        with Cons.prems kcm cs r Some cf have
          "createMeasurementsAll marshalTags createSeries saveMeasurement persist cms ?db2 = Inr (e, db')"
          by (simp add: Let_def)
        from Cons.IH [OF this] p2 show ?thesis by simp
      next
        case False
        with Cons.prems kcm cs r Some cf have "db' = ?db2"
          by (auto simp: Let_def split: option.splits)
        with p2 show ?thesis by simp
      qed
    qed
  qed
qed

lemma windows_inv_same_policies:
  assumes inv: "windows_inv s"
    and db: "map_of (databases s) dn = Some db"
    and pols: "\<And>pn rp. (pn, rp) \<in> set (policies db') \<Longrightarrow> (pn, rp) \<in> set (policies db) \<or> windows_aligned rp"
    and dbs: "databases s' = AList.update dn db' (databases s)"
  shows "windows_inv s'"
proof (rule windows_inv_update_db [OF inv _ dbs], intro allI impI)
  fix pn rp
  assume "(pn, rp) \<in> set (policies db')"
  then have "(pn, rp) \<in> set (policies db) \<or> windows_aligned rp"
    by (rule pols)
  then show "windows_aligned rp"
    using inv db by (blast intro: windows_inv_policy)
qed

lemma create_measurements_preserves:
  assumes inv: "windows_inv s"
    and ret: "applyCreateMeasurementsIfNotExists marshalTags createSeries saveMeasurement persist c s
       = Inr (e, s')"
  shows "windows_inv s'"
proof (cases "map_of (databases s) (createMeasurementsIfNotExistsCommand.Database c)")
  case None
  with ret inv show ?thesis by (simp add: applyCreateMeasurementsIfNotExists_def)
next
  case (Some db)
  with ret obtain db' where
    run: "createMeasurementsAll marshalTags createSeries saveMeasurement persist (Measurements c) db
       = Inr (e, db')"
    and dbs: "databases s' = AList.update (createMeasurementsIfNotExistsCommand.Database c) db'
          (databases s)"
    by (auto simp: applyCreateMeasurementsIfNotExists_def split: sum.splits)
  have "policies db' = policies db"
    using run by (rule policies_createMeasurementsAll)
  then show ?thesis
    by (intro windows_inv_same_policies [OF inv Some _ dbs]) simp
qed

lemma create_database_preserves:
  "windows_inv s \<Longrightarrow> windows_inv (snd (applyCreateDatabase persist c s))"
proof (cases "map_of (databases s) (createDatabaseCommand.Name c)")
  case None
  assume inv: "windows_inv s"
  have dbs: "databases (snd (applyCreateDatabase persist c s))
      = AList.update (createDatabaseCommand.Name c)
          (newDatabase\<lparr>name := createDatabaseCommand.Name c\<rparr>) (databases s)"
    using None by (simp add: applyCreateDatabase_def)
  show ?thesis
    by (rule windows_inv_update_db [OF inv _ dbs]) (simp add: newDatabase_def)
next
  case (Some d)
  assume "windows_inv s"
  with Some show ?thesis by (simp add: applyCreateDatabase_def)
qed

lemma create_policy_preserves:
  assumes inv: "windows_inv s"
  shows "windows_inv (snd (applyCreateRetentionPolicy c s))"
proof (cases "map_of (databases s) (createRetentionPolicyCommand.Database c)")
  case None
  with inv show ?thesis by (simp add: applyCreateRetentionPolicy_def)
next
  case (Some db)
  show ?thesis
  proof (cases "createRetentionPolicyCommand.Name c = []
      \<or> map_of (policies db) (createRetentionPolicyCommand.Name c) \<noteq> None")
    case True
    with inv Some show ?thesis by (auto simp: applyCreateRetentionPolicy_def)
  next
    case False
    let ?rp = "\<lparr>RetentionPolicy.Name = createRetentionPolicyCommand.Name c,
                       RetentionPolicy.Duration = createRetentionPolicyCommand.Duration c,
                       RetentionPolicy.ReplicaN = createRetentionPolicyCommand.ReplicaN c,
                       shardGroups = []\<rparr>"
    let ?db' = "db\<lparr>policies := AList.update (createRetentionPolicyCommand.Name c) ?rp (policies db)\<rparr>"
    have dbs: "databases (snd (applyCreateRetentionPolicy c s))
        = AList.update (createRetentionPolicyCommand.Database c) ?db' (databases s)"
      using Some False by (simp add: applyCreateRetentionPolicy_def Let_def)
    have al: "windows_aligned ?rp"
      by (simp add: windows_aligned_def)
    show ?thesis
      using al by (intro windows_inv_same_policies [OF inv Some _ dbs]) (auto dest!: set_update_cases)
  qed
qed

lemma delete_policy_preserves:
  assumes inv: "windows_inv s"
  shows "windows_inv (snd (applyDeleteRetentionPolicy persist c s))"
proof (cases "map_of (databases s) (deleteRetentionPolicyCommand.Database c)")
  case None
  with inv show ?thesis by (simp add: applyDeleteRetentionPolicy_def)
next
  case (Some db)
  show ?thesis
  proof (cases "deleteRetentionPolicyCommand.Name c = []
      \<or> map_of (policies db) (deleteRetentionPolicyCommand.Name c) = None")
    case True
    with inv Some show ?thesis by (auto simp: applyDeleteRetentionPolicy_def)
  next
    case False
    let ?db' = "db\<lparr>policies := AList.delete (deleteRetentionPolicyCommand.Name c) (policies db)\<rparr>"
    have dbs: "databases (snd (applyDeleteRetentionPolicy persist c s))
        = AList.update (deleteRetentionPolicyCommand.Database c) ?db' (databases s)"
      using Some False by (auto simp: applyDeleteRetentionPolicy_def Let_def)
    show ?thesis
      by (intro windows_inv_same_policies [OF inv Some _ dbs]) (auto dest!: set_delete_subset)
  qed
qed

lemma set_default_preserves:
  assumes inv: "windows_inv s"
  shows "windows_inv (snd (applySetDefaultRetentionPolicy persist c s))"
proof (cases "map_of (databases s) (setDefaultRetentionPolicyCommand.Database c)")
  case None
  with inv show ?thesis by (simp add: applySetDefaultRetentionPolicy_def)
next
  case (Some db)
  show ?thesis
  proof (cases "map_of (policies db) (setDefaultRetentionPolicyCommand.Name c) = None")
    case True
    with inv Some show ?thesis by (simp add: applySetDefaultRetentionPolicy_def)
  next
    case False
    let ?db' = "db\<lparr>defaultRetentionPolicy := setDefaultRetentionPolicyCommand.Name c\<rparr>"
    have dbs: "databases (snd (applySetDefaultRetentionPolicy persist c s))
        = AList.update (setDefaultRetentionPolicyCommand.Database c) ?db' (databases s)"
      using Some False by (auto simp: applySetDefaultRetentionPolicy_def Let_def)
    show ?thesis
      by (intro windows_inv_same_policies [OF inv Some _ dbs]) simp
  qed
qed

lemma continuous_query_preserves:
  assumes inv: "windows_inv s"
  shows "windows_inv (snd (applyCreateContinuousQueryCommand NewContinuousQuery NormalizeStatement c s))"
proof -
  let ?r = "applyCreateContinuousQueryCommand NewContinuousQuery NormalizeStatement c s"
  have "snd ?r = s \<or> (\<exists>dn db cqs. map_of (databases s) dn = Some db
      \<and> databases (snd ?r) = AList.update dn (db\<lparr>continuousQueries := cqs\<rparr>) (databases s))"
    by (auto simp: applyCreateContinuousQueryCommand_def split: sum.splits option.splits)
  then show ?thesis
  proof (elim disjE exE conjE)
    assume "snd ?r = s"
    with inv show ?thesis by simp
  next
    fix dn db cqs
    assume db: "map_of (databases s) dn = Some db"
      and dbs: "databases (snd ?r) = AList.update dn (db\<lparr>continuousQueries := cqs\<rparr>) (databases s)"
    show ?thesis
      by (intro windows_inv_same_policies [OF inv db _ dbs]) simp
  qed
qed

lemma update_policy_preserves:
  assumes inv: "windows_inv s"
    and ret: "applyUpdateRetentionPolicy persist c s = Inr (e, s')"
    and keep: "\<not> changesDuration s (UpdateRetentionPolicy c)"
  shows "windows_inv s'"
proof -
  from update_policy_shape [OF ret] show ?thesis
  proof (elim disjE exE conjE)
    assume "s' = s"
    with inv show ?thesis by simp
  next
    fix db p u p' pols
    assume db: "map_of (databases s) (updateRetentionPolicyCommand.Database c) = Some db"
      and p: "map_of (policies db) (updateRetentionPolicyCommand.Name c) = Some p"
      and u: "updateRetentionPolicyCommand.Policy c = Some u"
      and sg: "shardGroups p' = shardGroups p"
      and du: "RetentionPolicy.Duration p'
          = (case RetentionPolicyUpdate.Duration u of
               None \<Rightarrow> RetentionPolicy.Duration p | Some d \<Rightarrow> d)"
      and pols: "\<forall>pn rp. (pn, rp) \<in> set pols \<longrightarrow> rp = p' \<or> (pn, rp) \<in> set (policies db)"
      and dbs: "databases s' = AList.update (updateRetentionPolicyCommand.Database c)
            (db\<lparr>policies := pols\<rparr>) (databases s)"
    have al: "windows_aligned p"
      using inv db p by (blast intro: windows_inv_policy dest: map_of_SomeD)
    have "RetentionPolicy.Duration p' = RetentionPolicy.Duration p \<or> shardGroups p = []"
      using keep db p u du by (auto simp: changesDuration_def split: option.splits)
    then have "windows_aligned p'"
      using al sg by (auto simp: windows_aligned_def)
    with pols show ?thesis
      by (intro windows_inv_step [OF inv db _ dbs]) blast
  qed
qed

lemma processor_apply_preserves:
  assumes inv: "windows_inv s"
    and run: "processor_apply env idx m s = Some (Inr (e, s'))"
    and keep: "\<not> changesDuration s m"
  shows "windows_inv s'"
proof (cases m)
  case (WriteRawSeries msg)
  with run have "databases s' = databases s"
    by (auto simp: processor_apply_def dest: write_raw_preserves)
  with inv show ?thesis by (rule windows_inv_same [rotated])
next
  case (CreateDataNode c)
  with run have "databases s' = databases s"
    by (auto simp: processor_apply_def applyCreateDataNode_def Let_def
        split: if_splits sum.splits bool.splits prod.splits)
  with inv show ?thesis by (rule windows_inv_same [rotated])
next
  case (DeleteDataNode c)
  with run have "databases s' = databases s"
    by (auto simp: processor_apply_def applyDeleteDataNode_def split: option.splits)
  with inv show ?thesis by (rule windows_inv_same [rotated])
next
  case (CreateDatabase c)
  with run create_database_preserves [OF inv, of "update_result env" c] show ?thesis
    by (auto simp: processor_apply_def)
next
  case (DeleteDatabase c)
  with run delete_database_preserves [OF inv, of "update_result env" c] show ?thesis
    by (auto simp: processor_apply_def)
next
  case (CreateUser c)
  with run have "databases s' = databases s"
    by (auto simp: processor_apply_def applyCreateUser_def Let_def split: if_splits sum.splits)
  with inv show ?thesis by (rule windows_inv_same [rotated])
next
  case (UpdateUser c)
  with run have "databases s' = databases s"
    by (auto simp: processor_apply_def applyUpdateUser_def split: if_splits sum.splits option.splits)
  with inv show ?thesis by (rule windows_inv_same [rotated])
next
  case (DeleteUser c)
  with run have "databases s' = databases s"
    by (auto simp: processor_apply_def applyDeleteUser_def split: if_splits)
  with inv show ?thesis by (rule windows_inv_same [rotated])
next
  case (CreateRetentionPolicy c)
  with run create_policy_preserves [OF inv, of c] show ?thesis
    by (auto simp: processor_apply_def)
next
  case (UpdateRetentionPolicy c)
  with run have "applyUpdateRetentionPolicy (update_result env) c s = Inr (e, s')"
    by (simp add: processor_apply_def)
  moreover have "\<not> changesDuration s (UpdateRetentionPolicy c)"
    using keep UpdateRetentionPolicy by simp
  ultimately show ?thesis
    by (rule update_policy_preserves [OF inv])
next
  case (DeleteRetentionPolicy c)
  with run delete_policy_preserves [OF inv, of "update_result env" c] show ?thesis
    by (auto simp: processor_apply_def)
next
  case (CreateShardGroupIfNotExists c)
  with run have "applyCreateShardGroupIfNotExists (open_shard env) (update_result env) idx c s
      = Inr (e, s')"
    by (simp add: processor_apply_def)
  with inv show ?thesis by (rule create_preserves)
next
  case (DeleteShardGroup c)
  with run delete_group_preserves [OF inv, of "update_result env" c] show ?thesis
    by (auto simp: processor_apply_def)
next
  case (SetDefaultRetentionPolicy c)
  with run set_default_preserves [OF inv, of "update_result env" c] show ?thesis
    by (auto simp: processor_apply_def)
next
  case (CreateMeasurementsIfNotExists c)
  with run have "applyCreateMeasurementsIfNotExists (marshal_tags env) (create_series env)
                  (save_measurement env) (update_result env) c s = Inr (e, s')"
    by (simp add: processor_apply_def)
  with inv show ?thesis by (rule create_measurements_preserves)
next
  case (SetPrivilege c)
  with run have "databases s' = databases s"
    by (auto simp: processor_apply_def applySetPrivilege_def split: if_splits option.splits)
  with inv show ?thesis by (rule windows_inv_same [rotated])
next
  case (CreateContinuousQuery c)
  with run continuous_query_preserves [OF inv, of "new_continuous_query env" "normalize_statement env" c]
  show ?thesis
    by (auto simp: processor_apply_def)
next
  case OtherMessage
  with run inv show ?thesis by (simp add: processor_apply_def)
qed

lemma apply_create_at_5:
  "processor_apply env_ok 7 (CreateShardGroupIfNotExists (create_at 5)) server_cluster
     = Some (Inr (None, server_grouped))"
  using create_at_5 by (simp add: processor_apply_def env_ok_def)

lemma apply_rename:
  "processor_apply env_ok 8 (UpdateRetentionPolicy rename_rp) server_grouped
     = Some (Inr (None, server_renamed))"
  using rename_grouped by (simp add: processor_apply_def env_ok_def)

lemma apply_delete_group:
  "processor_apply env_ok 8 (DeleteShardGroup (delete_group 1)) server_grouped
     = Some (Inr (None, server_cluster\<lparr>meta := \<lparr>dataNodeSeq = 3, shardSeq = 1, shardGroupSeq = 1\<rparr>,
          shards := [1 \<mapsto> \<lparr>Shard.ID = 1, DataNodeIDs = [2, 3]\<rparr>]\<rparr>))"
  by (simp add: processor_apply_def env_ok_def applyDeleteShardGroup_def server_grouped_def
      server_cluster_def db_metrics_def rp_hour_def delete_group_def shardGroupByID_def
      removeShardGroupByID_def HasDataNodeID_def Let_def)




subsection \<open>Retention enforcement\<close>

lemma find_filter_None: "find (\<lambda>g. f g = k) (filter (\<lambda>g. f g \<noteq> k) xs) = None"
  by (induction xs) simp_all

text \<open>
  Claim C9, as stated, fails in its second part. A sweep at time 21 asks for the
  deletion of group 1. When the database (or only the retention policy) of the
  group is dropped before that command is applied, the group no longer exists,
  and the apply does not return success: the handler's first two checks return
  the database-not-found (the policy-not-found) error.
\<close>

theorem applyDeleteShardGroup_after_drop_counterexample:
  "EnforceRetentionPolicies 21 server_grouped = [delete_group 1]
   \<and> applyDeleteDatabase None \<lparr>deleteDatabaseCommand.Name = ''db''\<rparr> server_grouped
       = (None, server_grouped\<lparr>databases := []\<rparr>)
   \<and> policyGroups ''db'' ''rp'' (server_grouped\<lparr>databases := []\<rparr>) = []
   \<and> applyDeleteShardGroup None (delete_group 1) (server_grouped\<lparr>databases := []\<rparr>)
       = (Some ErrDatabaseNotFound, server_grouped\<lparr>databases := []\<rparr>)
   \<and> applyDeleteRetentionPolicy None
         \<lparr>deleteRetentionPolicyCommand.Database = ''db'',
          deleteRetentionPolicyCommand.Name = ''rp''\<rparr> server_grouped
       = (None, server_grouped\<lparr>databases := [(''db'', db_metrics\<lparr>policies := []\<rparr>)]\<rparr>)
   \<and> policyGroups ''db'' ''rp''
         (server_grouped\<lparr>databases := [(''db'', db_metrics\<lparr>policies := []\<rparr>)]\<rparr>) = []
   \<and> applyDeleteShardGroup None (delete_group 1)
         (server_grouped\<lparr>databases := [(''db'', db_metrics\<lparr>policies := []\<rparr>)]\<rparr>)
       = (Some ErrRetentionPolicyNotFound,
          server_grouped\<lparr>databases := [(''db'', db_metrics\<lparr>policies := []\<rparr>)]\<rparr>)"
  by (simp add: EnforceRetentionPolicies_def applyDeleteDatabase_def applyDeleteRetentionPolicy_def
      applyDeleteShardGroup_def policyGroups_def server_grouped_def server_cluster_def
      db_metrics_def rp_hour_def delete_group_def)

text \<open>
  Claim C9, amended. The delete-shard-group commands that one sweep of
  \<^verbatim>\<open>EnforceRetentionPolicies\<close> broadcasts are exactly those for the shard groups,
  over every database and policy, with \<open>endTime + policy.duration < now\<close>.
  Applying a delete-shard-group for a group that the policy (an existing policy
  of an existing database) no longer has returns success and leaves the server
  as it is; in particular a second apply of the same command, as happens when
  several nodes ask for the deletion, is such a no-op. When the database or the
  policy of the command does not exist, the server is left as it is as well, but
  the handler returns the database-not-found or the policy-not-found error.
\<close>

theorem EnforceRetentionPolicies_deletes_expired:
  "set (EnforceRetentionPolicies now s)
     = {\<lparr>deleteShardGroupCommand.Database = name db,
         deleteShardGroupCommand.Policy = RetentionPolicy.Name rp,
         deleteShardGroupCommand.ID = ShardGroup.ID g\<rparr> | db rp g.
          db \<in> snd ` set (databases s) \<and> rp \<in> snd ` set (policies db)
          \<and> g \<in> set (shardGroups rp) \<and> EndTime g + RetentionPolicy.Duration rp < now}
   \<and> (\<forall>db rp. map_of (databases s) (deleteShardGroupCommand.Database c) = Some db
          \<and> map_of (policies db) (deleteShardGroupCommand.Policy c) = Some rp
          \<and> shardGroupByID rp (deleteShardGroupCommand.ID c) = None \<longrightarrow>
        applyDeleteShardGroup persist c s = (None, s))
   \<and> (\<forall>db rp. map_of (databases s) (deleteShardGroupCommand.Database c) = Some db
          \<and> map_of (policies db) (deleteShardGroupCommand.Policy c) = Some rp \<longrightarrow>
        applyDeleteShardGroup persist' c (snd (applyDeleteShardGroup persist c s))
          = (None, snd (applyDeleteShardGroup persist c s)))
   \<and> (map_of (databases s) (deleteShardGroupCommand.Database c) = None \<longrightarrow>
        applyDeleteShardGroup persist c s = (Some ErrDatabaseNotFound, s))
   \<and> (\<forall>db. map_of (databases s) (deleteShardGroupCommand.Database c) = Some db
          \<and> map_of (policies db) (deleteShardGroupCommand.Policy c) = None \<longrightarrow>
        applyDeleteShardGroup persist c s = (Some ErrRetentionPolicyNotFound, s))"
proof (intro conjI allI impI)
  show "set (EnforceRetentionPolicies now s)
     = {\<lparr>deleteShardGroupCommand.Database = name db,
         deleteShardGroupCommand.Policy = RetentionPolicy.Name rp,
         deleteShardGroupCommand.ID = ShardGroup.ID g\<rparr> | db rp g.
          db \<in> snd ` set (databases s) \<and> rp \<in> snd ` set (policies db)
          \<and> g \<in> set (shardGroups rp) \<and> EndTime g + RetentionPolicy.Duration rp < now}"
    unfolding EnforceRetentionPolicies_def
    by (auto simp: image_iff)
next
  fix db rp
  assume "map_of (databases s) (deleteShardGroupCommand.Database c) = Some db
          \<and> map_of (policies db) (deleteShardGroupCommand.Policy c) = Some rp
          \<and> shardGroupByID rp (deleteShardGroupCommand.ID c) = None"
  then show "applyDeleteShardGroup persist c s = (None, s)"
    by (simp add: applyDeleteShardGroup_def)
next
  fix db rp
  assume a: "map_of (databases s) (deleteShardGroupCommand.Database c) = Some db
          \<and> map_of (policies db) (deleteShardGroupCommand.Policy c) = Some rp"
  show "applyDeleteShardGroup persist' c (snd (applyDeleteShardGroup persist c s))
          = (None, snd (applyDeleteShardGroup persist c s))"
  proof (cases "shardGroupByID rp (deleteShardGroupCommand.ID c)")
    case None
    with a show ?thesis by (simp add: applyDeleteShardGroup_def)
  next
    case (Some g)
    with a show ?thesis
      by (simp add: applyDeleteShardGroup_def Let_def update_conv' removeShardGroupByID_def
          shardGroupByID_def find_filter_None)
  qed
next
  assume "map_of (databases s) (deleteShardGroupCommand.Database c) = None"
  then show "applyDeleteShardGroup persist c s = (Some ErrDatabaseNotFound, s)"
    by (simp add: applyDeleteShardGroup_def)
next
  fix db
  assume "map_of (databases s) (deleteShardGroupCommand.Database c) = Some db
          \<and> map_of (policies db) (deleteShardGroupCommand.Policy c) = None"
  then show "applyDeleteShardGroup persist c s = (Some ErrRetentionPolicyNotFound, s)"
    by (simp add: applyDeleteShardGroup_def)
qed

theorem EnforceRetentionPolicies_deletes_expired_witness:
  "EnforceRetentionPolicies 21 server_grouped = [delete_group 1]
   \<and> EnforceRetentionPolicies 20 server_grouped = []
   \<and> applyDeleteShardGroup None (delete_group 9) server_grouped = (None, server_grouped)
   \<and> policyGroups ''db'' ''rp'' (snd (applyDeleteShardGroup None (delete_group 1) server_grouped)) = []
   \<and> applyDeleteShardGroup None (delete_group 1)
        (snd (applyDeleteShardGroup None (delete_group 1) server_grouped))
      = (None, snd (applyDeleteShardGroup None (delete_group 1) server_grouped))
   \<and> applyDeleteShardGroup None (delete_group 1) server0 = (Some ErrDatabaseNotFound, server0)
   \<and> applyDeleteShardGroup None
        \<lparr>deleteShardGroupCommand.Database = ''db'', deleteShardGroupCommand.Policy = ''weekly'',
         deleteShardGroupCommand.ID = 1\<rparr> server_grouped
      = (Some ErrRetentionPolicyNotFound, server_grouped)"
proof -
  let ?rp = "rp_hour\<lparr>shardGroups :=
           [\<lparr>ShardGroup.ID = 1, StartTime = 0, EndTime = 10,
              Shards = [\<lparr>Shard.ID = 1, DataNodeIDs = [2, 3]\<rparr>]\<rparr>]\<rparr>"
  let ?db = "db_metrics\<lparr>policies := [(''rp'', ?rp)]\<rparr>"
  let ?w = "\<lparr>deleteShardGroupCommand.Database = ''db'', deleteShardGroupCommand.Policy = ''weekly'',
         deleteShardGroupCommand.ID = 1\<rparr>"
  have db: "map_of (databases server_grouped) (deleteShardGroupCommand.Database (delete_group g)) = Some ?db"
    for g by (simp add: server_grouped_def delete_group_def)
  have rp: "map_of (policies ?db) (deleteShardGroupCommand.Policy (delete_group g)) = Some ?rp"
    for g by (simp add: delete_group_def)
  have none: "shardGroupByID ?rp (deleteShardGroupCommand.ID (delete_group 9)) = None"
    by (simp add: shardGroupByID_def delete_group_def)
  note t = EnforceRetentionPolicies_deletes_expired [where s = server_grouped and persist = None]
  have a: "applyDeleteShardGroup None (delete_group 9) server_grouped = (None, server_grouped)"
    using t [where c = "delete_group 9", THEN conjunct2, THEN conjunct1, rule_format, of ?db ?rp]
      db rp none by simp
  have b: "applyDeleteShardGroup None (delete_group 1)
        (snd (applyDeleteShardGroup None (delete_group 1) server_grouped))
      = (None, snd (applyDeleteShardGroup None (delete_group 1) server_grouped))"
    using t [where c = "delete_group 1" and persist' = None, THEN conjunct2, THEN conjunct2,
        THEN conjunct1, rule_format, of ?db ?rp] db rp by simp
  have c: "EnforceRetentionPolicies 21 server_grouped = [delete_group 1]"
    "EnforceRetentionPolicies 20 server_grouped = []"
    by (simp_all add: EnforceRetentionPolicies_def server_grouped_def server_cluster_def
        db_metrics_def rp_hour_def delete_group_def)
  have d: "policyGroups ''db'' ''rp'' (snd (applyDeleteShardGroup None (delete_group 1) server_grouped)) = []"
    by (simp add: applyDeleteShardGroup_def server_grouped_def server_cluster_def
        db_metrics_def rp_hour_def delete_group_def policyGroups_def shardGroupByID_def
        removeShardGroupByID_def Let_def)
  have nodb: "map_of (databases server0) (deleteShardGroupCommand.Database (delete_group 1)) = None"
    by (simp add: server0_def)
  have e: "applyDeleteShardGroup None (delete_group 1) server0 = (Some ErrDatabaseNotFound, server0)"
    using EnforceRetentionPolicies_deletes_expired
      [where s = server0 and persist = None and c = "delete_group 1",
        THEN conjunct2, THEN conjunct2, THEN conjunct2, THEN conjunct1] nodb by simp
  have dbw: "map_of (databases server_grouped) (deleteShardGroupCommand.Database ?w) = Some ?db"
    by (simp add: server_grouped_def)
  have norp: "map_of (policies ?db) (deleteShardGroupCommand.Policy ?w) = None"
    by simp
  have f: "applyDeleteShardGroup None ?w server_grouped = (Some ErrRetentionPolicyNotFound, server_grouped)"
    using t [where c = ?w, THEN conjunct2, THEN conjunct2, THEN conjunct2, THEN conjunct2,
        rule_format, of ?db] dbw norp by simp
  show ?thesis
    using a b c d e f by simp
qed

subsection \<open>Field type conflicts in the write path\<close>

lemma createMeasurementsIfNotExists_drops_local_error:
  "fst (createMeasurementsIfNotExists marshalTags InspectDataType broadcast s database rp points)
     = (let c = snd (localCheck marshalTags InspectDataType s database points)
        in if length (Measurements c) > 0 then fst (broadcast c s) else None)"
  by (auto simp: createMeasurementsIfNotExists_def Let_def split: prod.splits option.splits)

text \<open>
  For a batch that holds only the point with the conflicting value, the local
  function finds the conflict, its error is dropped, and whether the write fails
  is left to the field codec, which is not in server.go: \<^verbatim>\<open>WriteSeries\<close> returns
  the error of \<^verbatim>\<open>EncodeFields\<close> if it has one, and publishes the point otherwise.
\<close>

lemma WriteSeries_single_conflict_left_to_codec:
  "WriteSeries marshal_example inspect_example broadcast createGroup NewFieldCodec EncodeFields
      marshalPointHeader Publish server_measured ''db'' [] [conflicting_point]
   = (case NewFieldCodec (Some cpu) of
        None \<Rightarrow> Inl ''field codec is nil''
      | Some codec \<Rightarrow>
          (case EncodeFields codec [(''v'', Bool)] of
             Inl err \<Rightarrow> Inr ((0, Some err), server_measured)
           | Inr encodedFields \<Rightarrow>
               Inr (publishAll Publish
                      [(1, marshalPointHeader 7 (of_nat (length encodedFields)) 5 @ encodedFields)]
                      0,
                    server_measured)))"
  by (simp add: WriteSeries_def createMeasurementsIfNotExists_def localCheck_def
      DefaultRetentionPolicy_def server_measured_def db_metrics_def rp_hour_def
      conflicting_point_def cpu_def MeasurementAndSeries_def FieldByName_def
      newCreateMeasurementsIfNotExistsCommand_def marshal_example_def Let_def
      Server_shardGroupByTimestamp_def database_shardGroupByTimestamp_def
      shardGroupByTimestamp_def group_one_def contains_def ShardBySeriesID_def
      split: option.splits sum.splits)

text \<open>
  Claim C2 says that a batch with a point whose field exists in the catalog with
  another type makes \<^verbatim>\<open>WriteSeries\<close> return a conflict error. Take the batch of a
  point for a series that the catalog does not have yet, followed by the point
  with the conflicting value. The local function of
  \<^verbatim>\<open>createMeasurementsIfNotExists\<close> reaches the second point, finds the conflict
  and returns the error, but its result is dropped:
  \<^verbatim>\<open>createMeasurementsIfNotExists\<close> returns no error and broadcasts nothing (the
  new series was not entered into the command, whose measurement is missing),
  and \<^verbatim>\<open>WriteSeries\<close> goes on to build the payloads, where the first point panics
  with \<^verbatim>\<open>series not found\<close>, whatever the broker and the field codec do.
\<close>

theorem WriteSeries_ignores_local_field_conflict:
  "fst (localCheck marshal_example inspect_example server_measured ''db''
          [new_series_point, conflicting_point])
     = Some (Errorf ''field type conflict: v'')
   \<and> createMeasurementsIfNotExists marshal_example inspect_example broadcast server_measured
        ''db'' ''rp'' [new_series_point, conflicting_point]
     = (None, server_measured)
   \<and> WriteSeries marshal_example inspect_example broadcast createGroup NewFieldCodec EncodeFields
        marshalPointHeader Publish server_measured ''db'' [] [new_series_point, conflicting_point]
     = Inl ''series not found''"
  by (simp add: WriteSeries_def createMeasurementsIfNotExists_def localCheck_def
      DefaultRetentionPolicy_def server_measured_def db_metrics_def rp_hour_def
      conflicting_point_def new_series_point_def cpu_def MeasurementAndSeries_def FieldByName_def
      newCreateMeasurementsIfNotExistsCommand_def marshal_example_def Let_def
      addSeriesIfNotExists_def
      Server_shardGroupByTimestamp_def database_shardGroupByTimestamp_def
      shardGroupByTimestamp_def group_one_def contains_def)

subsection \<open>Raw series writes\<close>

lemma loop_never_succeeds:
  "applyWriteRawSeries_loop hdr storeError fuel m sh 0 s \<noteq> Some (Inr (None, s'))"
proof (induction fuel arbitrary: s)
  case 0
  then show ?case by simp
next
  case (Suc fuel)
  show ?case
    using Suc.IH by (auto simp: Let_def split: prod.splits option.splits)
qed

lemma loop_spins:
  assumes len: "pointHeaderSize \<le> length (Data m)"
    and hdr: "hdr (take pointHeaderSize (Data m)) = (seriesID, payloadLength, timestamp)"
    and lo: "pointHeaderSize \<le> unat payloadLength"
    and hi: "unat payloadLength \<le> length (Data m)"
    and ok: "storeError seriesID timestamp = None"
  shows "applyWriteRawSeries_loop hdr storeError fuel m sh 0 s = None"
proof (induction fuel arbitrary: s)
  case 0
  then show ?case by simp
next
  case (Suc fuel)
  show ?case
    using len hdr lo hi ok Suc.IH by (simp add: Let_def writeSeries_def not_less)
qed

text \<open>
  Claim C3 says that \<^verbatim>\<open>applyWriteRawSeries\<close> processes each record of the payload
  in order and terminates once the buffer is exhausted. The code does not: for
  the message with one well-formed record (and a store that accepts every write)
  the loop is still running after any number of iterations, writing the same
  record again, and for the record with a 2-byte payload the slice expression
  panics in the first iteration. By \<open>loop_never_succeeds\<close> above, the loop never
  returns success for any payload.
\<close>

theorem applyWriteRawSeries_one_record_never_returns:
  "(\<forall>fuel. applyWriteRawSeries header_be (\<lambda>seriesID timestamp. None) fuel one_record
        server_grouped = None)
   \<and> (\<forall>fuel. applyWriteRawSeries header_be (\<lambda>seriesID timestamp. None) (Suc fuel) small_record
        server_grouped = Some (Inl ''slice bounds out of range''))"
proof (intro conjI allI)
  fix fuel
  show "applyWriteRawSeries header_be (\<lambda>seriesID timestamp. None) (Suc fuel) small_record
        server_grouped = Some (Inl ''slice bounds out of range'')"
    by (simp add: applyWriteRawSeries_def server_grouped_def small_record_def header_be_def
        be_nat_def pointHeaderSize_def)
next
  fix fuel
  have sh: "shards server_grouped (TopicID one_record)
      = Some \<lparr>Shard.ID = 1, DataNodeIDs = [2, 3]\<rparr>"
    by (simp add: server_grouped_def one_record_def)
  have hdr: "header_be (take pointHeaderSize (Data one_record)) = (7, 16, 5)"
    by (simp add: header_be_def be_nat_def one_record_def pointHeaderSize_def)
  have len: "pointHeaderSize \<le> length (Data one_record)"
    and lo: "pointHeaderSize \<le> unat (16 :: u32)"
    and hi: "unat (16 :: u32) \<le> length (Data one_record)"
    by (simp_all add: one_record_def pointHeaderSize_def)
  have "applyWriteRawSeries_loop header_be (\<lambda>seriesID timestamp. None) fuel one_record
      \<lparr>Shard.ID = 1, DataNodeIDs = [2, 3]\<rparr> 0 server_grouped = None"
    using loop_spins [where hdr = header_be and storeError = "\<lambda>seriesID timestamp. None"
        and m = one_record and seriesID = 7 and payloadLength = 16 and timestamp = 5,
        OF len hdr lo hi]
    by simp
  then show "applyWriteRawSeries header_be (\<lambda>seriesID timestamp. None) fuel one_record
      server_grouped = None"
    by (simp add: applyWriteRawSeries_def sh)
qed

subsection \<open>Multi-statement queries\<close>

lemma shape:
  "executeStatements norm exec st stmts = Inr (rs, st') \<Longrightarrow>
    length rs = length stmts \<and>
    (\<exists>k \<le> length stmts.
       (\<forall>i < k. if switch (fst (stmts ! i)) = Continue then rs ! i = None
                else (\<exists>res. rs ! i = Some res \<and> Result.Err res = None))
     \<and> (k < length stmts \<longrightarrow> failed (rs ! k))
     \<and> (\<forall>i. k < i \<and> i < length stmts \<longrightarrow> rs ! i = None))"
proof (induction stmts arbitrary: st rs)
  case Nil
  then show ?case by simp
next
  case (Cons stmt rest)
  show ?case
  proof (cases "norm st stmt")
    case (Inl err)
    with Cons.prems have rs: "rs = Some \<lparr>Rows = [], Result.Err = Some err\<rparr> # map (\<lambda>x. None) rest"
      by simp
    show ?thesis
      unfolding rs by (auto simp: failed_def nth_Cons' intro!: exI [of _ 0])
  next
    case (Inr q)
    note nq = this
    show ?thesis
    proof (cases "switch (fst stmt)")
      case Unsupported
      with Cons.prems nq show ?thesis by simp
    next
      case Continue
      with Cons.prems nq obtain rs' where
        run: "executeStatements norm exec st rest = Inr (rs', st')" and rs: "rs = None # rs'"
        by (auto split: sum.splits)
      from Cons.IH [OF run] obtain k where len: "length rs' = length rest" and k: "k \<le> length rest"
        and pre: "\<forall>i < k. if switch (fst (rest ! i)) = Continue then rs' ! i = None
                else (\<exists>res. rs' ! i = Some res \<and> Result.Err res = None)"
        and at: "k < length rest \<longrightarrow> failed (rs' ! k)"
        and post: "\<forall>i. k < i \<and> i < length rest \<longrightarrow> rs' ! i = None"
        by blast
      show ?thesis
        unfolding rs using len k pre at post Continue
        by (auto simp: nth_Cons' less_Suc_eq_0_disj intro!: exI [of _ "Suc k"])
    next
      case Execute
      obtain res st1 where ex: "exec st (fst stmt, q) = (res, st1)"
        by (cases "exec st (fst stmt, q)")
      show ?thesis
      proof (cases "Result.Err res")
        case (Some e)
        with Cons.prems nq Execute ex have rs: "rs = Some res # map (\<lambda>x. None) rest"
          by simp
        show ?thesis
          unfolding rs using Some by (auto simp: failed_def nth_Cons' intro!: exI [of _ 0])
      next
        case None
        with Cons.prems nq Execute ex obtain rs' where
          run: "executeStatements norm exec st1 rest = Inr (rs', st')" and rs: "rs = Some res # rs'"
          by (auto split: sum.splits)
        from Cons.IH [OF run] obtain k where len: "length rs' = length rest" and k: "k \<le> length rest"
          and pre: "\<forall>i < k. if switch (fst (rest ! i)) = Continue then rs' ! i = None
                  else (\<exists>res. rs' ! i = Some res \<and> Result.Err res = None)"
          and at: "k < length rest \<longrightarrow> failed (rs' ! k)"
          and post: "\<forall>i. k < i \<and> i < length rest \<longrightarrow> rs' ! i = None"
          by blast
        show ?thesis
          unfolding rs using len k pre at post Execute None
          by (auto simp: nth_Cons' less_Suc_eq_0_disj intro!: exI [of _ "Suc k"])
      qed
    qed
  qed
qed

lemma raw_results:
  assumes run: "executeStatements norm exec st stmts = Inr (rs, st')" and i: "i < length stmts"
  shows "(failed (rs ! i) \<longrightarrow> (\<forall>j. i < j \<and> j < length stmts \<longrightarrow> rs ! j = None))
       \<and> (rs ! i = None \<longleftrightarrow>
            (\<exists>j < i. failed (rs ! j)) \<or> (switch (fst (stmts ! i)) = Continue \<and> \<not> failed (rs ! i)))"
proof -
  from shape [OF run] obtain k where k: "k \<le> length stmts"
    and pre: "\<And>i. i < k \<Longrightarrow> if switch (fst (stmts ! i)) = Continue then rs ! i = None
                else (\<exists>res. rs ! i = Some res \<and> Result.Err res = None)"
    and at: "k < length stmts \<Longrightarrow> failed (rs ! k)"
    and post: "\<And>i. k < i \<Longrightarrow> i < length stmts \<Longrightarrow> rs ! i = None"
    by blast
  have ok: "\<not> failed (rs ! j)" if "j < k" for j
    using pre [OF that] by (auto simp: failed_def split: if_splits)
  have gone: "\<not> failed (rs ! j)" if "k < j" "j < length stmts" for j
    using post [OF that] by (simp add: failed_def)
  have first: "j = k" if "failed (rs ! j)" "j < length stmts" for j
    using that ok gone by (cases j k rule: linorder_cases) auto
  show ?thesis
  proof (cases i k rule: linorder_cases)
    case less
    have nf: "\<not> failed (rs ! i)" using ok [OF less] .
    have before: "\<not> (\<exists>j < i. failed (rs ! j))"
    proof
      assume "\<exists>j < i. failed (rs ! j)"
      then obtain j where "j < i" "failed (rs ! j)" by blast
      with less ok [of j] show False by simp
    qed
    have "(rs ! i = None) = (switch (fst (stmts ! i)) = Continue)"
      using pre [OF less] by (cases "switch (fst (stmts ! i)) = Continue") auto
    with nf before show ?thesis by blast
  next
    case equal
    have f: "failed (rs ! i)" using at i equal by simp
    then have some: "rs ! i \<noteq> None" by (cases "rs ! i") (simp_all add: failed_def)
    have before: "\<not> (\<exists>j < i. failed (rs ! j))"
    proof
      assume "\<exists>j < i. failed (rs ! j)"
      then obtain j where "j < i" "failed (rs ! j)" by blast
      with equal ok [of j] show False by simp
    qed
    have after: "\<forall>j. i < j \<and> j < length stmts \<longrightarrow> rs ! j = None"
      using post equal by simp
    from f some before after show ?thesis by blast
  next
    case greater
    have none: "rs ! i = None" using post [OF greater i] .
    then have nf: "\<not> failed (rs ! i)" by (simp add: failed_def)
    have "k < length stmts" using greater i by simp
    then have "failed (rs ! k)" by (rule at)
    with greater have "\<exists>j < i. failed (rs ! j)" by blast
    with none nf show ?thesis by blast
  qed
qed

lemma executed_not_sentinel:
  assumes n: "\<forall>s q. norm s q \<noteq> Inl ErrNotExecuted"
    and x: "\<forall>s q. Result.Err (fst (exec s q)) \<noteq> Some ErrNotExecuted"
  shows "executeStatements norm exec st stmts = Inr (rs, st') \<Longrightarrow> Some res \<in> set rs \<Longrightarrow>
     Result.Err res \<noteq> Some ErrNotExecuted"
proof (induction stmts arbitrary: st rs)
  case Nil
  then show ?case by simp
next
  case (Cons stmt rest)
  show ?case
  proof (cases "norm st stmt")
    case (Inl err)
    with Cons.prems(1) have rs: "rs = Some \<lparr>Rows = [], Result.Err = Some err\<rparr> # map (\<lambda>x. None) rest"
      by simp
    have "err \<noteq> ErrNotExecuted" using n Inl by metis
    moreover have "res = \<lparr>Rows = [], Result.Err = Some err\<rparr>"
      using Cons.prems(2) unfolding rs by auto
    ultimately show ?thesis by simp
  next
    case (Inr q)
    note nq = this
    show ?thesis
    proof (cases "switch (fst stmt)")
      case Unsupported
      with Cons.prems(1) nq show ?thesis by simp
    next
      case Continue
      with Cons.prems(1) nq obtain rs' where
        run: "executeStatements norm exec st rest = Inr (rs', st')" and rs: "rs = None # rs'"
        by (auto split: sum.splits)
      from Cons.prems(2) have "Some res \<in> set rs'" unfolding rs by simp
      with run show ?thesis by (rule Cons.IH)
    next
      case Execute
      obtain r st1 where ex: "exec st (fst stmt, q) = (r, st1)"
        by (cases "exec st (fst stmt, q)")
      have r: "Result.Err r \<noteq> Some ErrNotExecuted"
        using x [rule_format, of st "(fst stmt, q)"] ex by simp
      show ?thesis
      proof (cases "Result.Err r")
        case (Some e)
        with Cons.prems(1) nq Execute ex have rs: "rs = Some r # map (\<lambda>x. None) rest"
          by simp
        have "res = r" using Cons.prems(2) unfolding rs by auto
        with r show ?thesis by simp
      next
        case None
        with Cons.prems(1) nq Execute ex obtain rs' where
          run: "executeStatements norm exec st1 rest = Inr (rs', st')" and rs: "rs = Some r # rs'"
          by (auto split: sum.splits)
        from Cons.prems(2) have "res = r \<or> Some res \<in> set rs'" unfolding rs by auto
        then show ?thesis
        proof
          assume "res = r" with r show ?thesis by simp
        next
          assume "Some res \<in> set rs'"
          with run show ?thesis by (rule Cons.IH)
        qed
      qed
    qed
  qed
qed

lemma stops_at_failure:
  "executeStatements norm exec st stmts = Inr (rs, st') \<Longrightarrow> i < length stmts \<Longrightarrow> failed (rs ! i)
    \<Longrightarrow> executeStatements norm exec st (take (Suc i) stmts) = Inr (take (Suc i) rs, st')"
proof (induction stmts arbitrary: st rs i)
  case Nil
  then show ?case by simp
next
  case (Cons stmt rest)
  show ?case
  proof (cases "norm st stmt")
    case (Inl err)
    with Cons.prems have rs: "rs = Some \<lparr>Rows = [], Result.Err = Some err\<rparr> # map (\<lambda>x. None) rest"
      and st: "st' = st" by auto
    from Cons.prems(2,3) have "i = 0"
      unfolding rs by (cases i) (simp_all add: failed_def)
    then show ?thesis
      using Inl rs st by simp
  next
    case (Inr q)
    note nq = this
    show ?thesis
    proof (cases "switch (fst stmt)")
      case Unsupported
      with Cons.prems nq show ?thesis by simp
    next
      case Continue
      with Cons.prems nq obtain rs' where
        run: "executeStatements norm exec st rest = Inr (rs', st')" and rs: "rs = None # rs'"
        by (auto split: sum.splits)
      from Cons.prems(2,3) obtain i' where i': "i = Suc i'" "i' < length rest" "failed (rs' ! i')"
        unfolding rs by (cases i) (simp_all add: failed_def)
      from Cons.IH [OF run i'(2,3)] show ?thesis
        using nq Continue rs i'(1) by simp
    next
      case Execute
      obtain r st1 where ex: "exec st (fst stmt, q) = (r, st1)"
        by (cases "exec st (fst stmt, q)")
      show ?thesis
      proof (cases "Result.Err r")
        case (Some e)
        with Cons.prems nq Execute ex have rs: "rs = Some r # map (\<lambda>x. None) rest" and st: "st' = st1"
          by auto
        from Cons.prems(2,3) have "i = 0"
          unfolding rs by (cases i) (simp_all add: failed_def)
        then show ?thesis
          using nq Execute ex Some rs st by simp
      next
        case None
        with Cons.prems nq Execute ex obtain rs' where
          run: "executeStatements norm exec st1 rest = Inr (rs', st')" and rs: "rs = Some r # rs'"
          by (auto split: sum.splits)
        from Cons.prems(2,3) None obtain i' where i': "i = Suc i'" "i' < length rest" "failed (rs' ! i')"
          unfolding rs by (cases i) (simp_all add: failed_def)
        from Cons.IH [OF run i'(2,3)] show ?thesis
          using nq Execute ex None rs i'(1) by simp
      qed
    qed
  qed
qed

text \<open>
  Claim C7, as stated, fails: a DROP SERIES (or DROP CONTINUOUS QUERY) statement
  is skipped by the type switch, so its result is the not-executed sentinel
  although no statement of the query has failed.
\<close>

theorem ExecuteQuery_skipped_statement_counterexample:
  "ExecuteQuery False None norm_example exec_example 0
      [(DropSeriesStatement, ()), (ShowDatabasesStatement, ())]
    = Inr (\<lparr>Results = [\<lparr>Rows = [], Result.Err = Some ErrNotExecuted\<rparr>,
                         \<lparr>Rows = [()], Result.Err = None\<rparr>],
            Results.Err = None\<rparr>, 1)"
  by (simp add: ExecuteQuery_def norm_example_def exec_example_def fillNotExecuted_def)

text \<open>
  Claim C7, amended. Let an authorized query return (no panic), and let no
  executor or normalization return the not-executed error itself. Then there is
  one result per statement. A statement fails when its result carries an error
  other than the not-executed sentinel. When a statement fails, every later
  statement's result is the not-executed sentinel, and the query stopped there:
  the results up to that statement and the final server are those of the query
  cut off after it. A statement's result is the not-executed sentinel if and
  only if the statement comes after the first failing statement, or it is a
  DROP SERIES or DROP CONTINUOUS QUERY statement that did not fail in
  normalization.
\<close>

theorem ExecuteQuery_not_executed_results:
  assumes run: "ExecuteQuery authenticationEnabled Authorize norm exec st stmts = Inr (R, st')"
    and authorized: "Results.Err R = None"
    and n: "\<forall>s q. norm s q \<noteq> Inl ErrNotExecuted"
    and x: "\<forall>s q. Result.Err (fst (exec s q)) \<noteq> Some ErrNotExecuted"
  shows "length (Results R) = length stmts
     \<and> (\<forall>i < length stmts.
          (failing (Results R ! i) \<longrightarrow>
             (\<forall>j. i < j \<and> j < length stmts \<longrightarrow> Results R ! j = notExecuted)
           \<and> ExecuteQuery authenticationEnabled Authorize norm exec st (take (Suc i) stmts)
               = Inr (R\<lparr>Results := take (Suc i) (Results R)\<rparr>, st'))
        \<and> (Results R ! i = notExecuted \<longleftrightarrow>
             (\<exists>j < i. failing (Results R ! j))
           \<or> (switch (fst (stmts ! i)) = Continue \<and> \<not> failing (Results R ! i))))"
proof -
  have auth: "(if authenticationEnabled then Authorize else None) = None"
    using run authorized by (auto simp: ExecuteQuery_def split: option.splits)
  then obtain rs where raw: "executeStatements norm exec st stmts = Inr (rs, st')"
    and R: "R = \<lparr>Results = map fillNotExecuted rs, Results.Err = None\<rparr>"
    using run by (auto simp: ExecuteQuery_def split: sum.splits)
  have len: "length rs = length stmts"
    using shape [OF raw] by blast
  have real: "Result.Err res \<noteq> Some ErrNotExecuted" if "Some res \<in> set rs" for res
    using executed_not_sentinel [OF n x raw that] .
  have fill: "failing (fillNotExecuted (rs ! j)) = failed (rs ! j)
      \<and> (fillNotExecuted (rs ! j) = notExecuted) = (rs ! j = None)" if j: "j < length stmts" for j
  proof (cases "rs ! j")
    case None
    then show ?thesis by (simp add: fillNotExecuted_def failing_def failed_def notExecuted_def)
  next
    case (Some res)
    then have "Some res \<in> set rs"
      using j len nth_mem [of j rs] by simp
    from real [OF this] Some show ?thesis
      by (auto simp: fillNotExecuted_def failing_def failed_def notExecuted_def)
  qed
  have nth: "Results R ! j = fillNotExecuted (rs ! j)" if "j < length stmts" for j
    using that len by (simp add: R)
  have each: "(failing (Results R ! i) \<longrightarrow>
             (\<forall>j. i < j \<and> j < length stmts \<longrightarrow> Results R ! j = notExecuted)
           \<and> ExecuteQuery authenticationEnabled Authorize norm exec st (take (Suc i) stmts)
               = Inr (R\<lparr>Results := take (Suc i) (Results R)\<rparr>, st'))
        \<and> (Results R ! i = notExecuted \<longleftrightarrow>
             (\<exists>j < i. failing (Results R ! j))
           \<or> (switch (fst (stmts ! i)) = Continue \<and> \<not> failing (Results R ! i)))"
    if i: "i < length stmts" for i
  proof -
    note rr = raw_results [OF raw i]
    have a: "\<forall>j. i < j \<and> j < length stmts \<longrightarrow> Results R ! j = notExecuted"
      if f: "failing (Results R ! i)"
    proof (intro allI impI)
      fix j
      assume j: "i < j \<and> j < length stmts"
      from f have "failed (rs ! i)" using fill [OF i] nth [OF i] by simp
      with rr j have "rs ! j = None" by blast
      then show "Results R ! j = notExecuted"
        using fill [of j] nth [of j] j by simp
    qed
    have b: "ExecuteQuery authenticationEnabled Authorize norm exec st (take (Suc i) stmts)
               = Inr (R\<lparr>Results := take (Suc i) (Results R)\<rparr>, st')"
      if "failing (Results R ! i)"
    proof -
      from that have "failed (rs ! i)" using fill nth i by simp
      from stops_at_failure [OF raw i this] show ?thesis
        by (simp add: ExecuteQuery_def auth R take_map)
    qed
    have c: "(Results R ! i = notExecuted) \<longleftrightarrow>
             (\<exists>j < i. failing (Results R ! j))
           \<or> (switch (fst (stmts ! i)) = Continue \<and> \<not> failing (Results R ! i))"
    proof -
      have "failing (Results R ! j) = failed (rs ! j)" if "j < i" for j
      proof -
        from that i have "j < length stmts" by simp
        then show ?thesis using fill nth by simp
      qed
      then have "(\<exists>j < i. failing (Results R ! j)) = (\<exists>j < i. failed (rs ! j))"
        by blast
      then show ?thesis
        using rr fill [OF i] nth [OF i] by simp
    qed
    from a b c show ?thesis by blast
  qed
  have "length (Results R) = length stmts"
    using len by (simp add: R)
  with each show ?thesis by blast
qed

lemma run_query_failing:
  "ExecuteQuery True None norm_example exec_example 0 query_failing = Inr (results_failing, 2)"
  by (simp add: ExecuteQuery_def norm_example_def exec_example_def fillNotExecuted_def
      query_failing_def results_failing_def)

theorem ExecuteQuery_not_executed_results_witness:
  "ExecuteQuery True None norm_example exec_example 0 query_failing = Inr (results_failing, 2)
   \<and> failing (Results results_failing ! 1)
   \<and> Results results_failing ! 2 = notExecuted
   \<and> Results results_failing ! 3 = notExecuted
   \<and> Results results_failing ! 0 \<noteq> notExecuted
   \<and> ExecuteQuery True None norm_example exec_example 0 (take 2 query_failing)
       = Inr (results_failing\<lparr>Results := take 2 (Results results_failing)\<rparr>, 2)"
proof -
  have n: "\<forall>s q. norm_example s q \<noteq> Inl ErrNotExecuted"
    by (simp add: norm_example_def)
  have x: "\<forall>s q. Result.Err (fst (exec_example s q)) \<noteq> Some ErrNotExecuted"
    by (simp add: exec_example_def)
  have a: "Results.Err results_failing = None"
    by (simp add: results_failing_def)
  have len: "length query_failing = 4"
    by (simp add: query_failing_def)
  note t = ExecuteQuery_not_executed_results [OF run_query_failing a n x, THEN conjunct2,
      rule_format]
  have f1: "failing (Results results_failing ! 1)"
    by (simp add: results_failing_def failing_def)
  have f0: "\<not> failing (Results results_failing ! 0)"
    by (simp add: results_failing_def failing_def)
  have k0: "switch (fst (query_failing ! 0)) \<noteq> Continue"
    by (simp add: query_failing_def)
  from t [of 1, THEN conjunct1, rule_format, OF _ f1] len
  have after: "\<forall>j. 1 < j \<and> j < length query_failing \<longrightarrow> Results results_failing ! j = notExecuted"
    and stop: "ExecuteQuery True None norm_example exec_example 0 (take (Suc 1) query_failing)
       = Inr (results_failing\<lparr>Results := take (Suc 1) (Results results_failing)\<rparr>, 2)"
    by simp_all
  from after len have r2: "Results results_failing ! 2 = notExecuted"
    and r3: "Results results_failing ! 3 = notExecuted"
    by simp_all
  from t [of 0, THEN conjunct2] len f0 k0
  have r0: "Results results_failing ! 0 \<noteq> notExecuted"
    by simp
  have two: "Suc 1 = 2" by simp
  show ?thesis
    using run_query_failing f1 r2 r3 r0 stop unfolding two by blast
qed

subsection \<open>Privileges\<close>

text \<open>
  Claim C8. An applied set-privilege command that names an existing user (a
  non-empty user name found in the \<^verbatim>\<open>users\<close> map) does the following. With an empty
  database, privilege ALL sets the user's admin flag to true and privilege NONE
  sets it to false; any other privilege with an empty database is rejected with
  the invalid-grant error and the server is unchanged. With a non-empty database
  the user's privilege for that database is set to the command's privilege. In
  the accepting cases nothing but that one user entry changes, and the handler
  returns what the metastore update returns.
\<close>

theorem applySetPrivilege_sets_admin_or_privilege:
  assumes "setPrivilegeCommand.Username c \<noteq> []" and "users s (setPrivilegeCommand.Username c) = Some u"
  shows "(setPrivilegeCommand.Database c = [] \<and> setPrivilegeCommand.Privilege c = AllPrivileges \<longrightarrow>
            applySetPrivilege persist c s =
              (persist, s\<lparr>users := (users s)(setPrivilegeCommand.Username c \<mapsto> u\<lparr>Admin := True\<rparr>)\<rparr>))
       \<and> (setPrivilegeCommand.Database c = [] \<and> setPrivilegeCommand.Privilege c = NoPrivileges \<longrightarrow>
            applySetPrivilege persist c s =
              (persist, s\<lparr>users := (users s)(setPrivilegeCommand.Username c \<mapsto> u\<lparr>Admin := False\<rparr>)\<rparr>))
       \<and> (setPrivilegeCommand.Database c = [] \<and> setPrivilegeCommand.Privilege c \<noteq> AllPrivileges \<and> setPrivilegeCommand.Privilege c \<noteq> NoPrivileges \<longrightarrow>
            applySetPrivilege persist c s = (Some ErrInvalidGrantRevoke, s))
       \<and> (setPrivilegeCommand.Database c \<noteq> [] \<longrightarrow>
            applySetPrivilege persist c s =
              (persist, s\<lparr>users := (users s)(setPrivilegeCommand.Username c \<mapsto>
                 u\<lparr>Privileges := (Privileges u)(setPrivilegeCommand.Database c \<mapsto> setPrivilegeCommand.Privilege c)\<rparr>)\<rparr>))"
  using assms by (simp add: applySetPrivilege_def)

theorem applySetPrivilege_sets_admin_or_privilege_witness:
  "(case users (snd (applySetPrivilege None
        \<lparr>setPrivilegeCommand.Privilege = AllPrivileges, setPrivilegeCommand.Username = ''bob'', setPrivilegeCommand.Database = []\<rparr> server0)) ''bob'' of
      Some u \<Rightarrow> Admin u | None \<Rightarrow> False)
   \<and> (case users (snd (applySetPrivilege None
        \<lparr>setPrivilegeCommand.Privilege = NoPrivileges, setPrivilegeCommand.Username = ''bob'', setPrivilegeCommand.Database = []\<rparr> server0)) ''bob'' of
      Some u \<Rightarrow> \<not> Admin u | None \<Rightarrow> False)
   \<and> applySetPrivilege None
        \<lparr>setPrivilegeCommand.Privilege = ReadPrivilege, setPrivilegeCommand.Username = ''bob'', setPrivilegeCommand.Database = []\<rparr> server0
      = (Some ErrInvalidGrantRevoke, server0)
   \<and> (case users (snd (applySetPrivilege None
        \<lparr>setPrivilegeCommand.Privilege = ReadPrivilege, setPrivilegeCommand.Username = ''bob'', setPrivilegeCommand.Database = ''db''\<rparr> server0)) ''bob'' of
      Some u \<Rightarrow> Privileges u ''db'' = Some ReadPrivilege \<and> \<not> Admin u | None \<Rightarrow> False)"
proof -
  have bob: "users server0 ''bob'' = Some user_bob"
    by (simp add: server0_def)
  note t = applySetPrivilege_sets_admin_or_privilege [where s = server0 and u = user_bob and persist = None]
  have a: "applySetPrivilege None
      \<lparr>setPrivilegeCommand.Privilege = AllPrivileges, setPrivilegeCommand.Username = ''bob'', setPrivilegeCommand.Database = []\<rparr> server0
    = (None, server0\<lparr>users := (users server0)(''bob'' \<mapsto> user_bob\<lparr>Admin := True\<rparr>)\<rparr>)"
    using t [where c = "\<lparr>setPrivilegeCommand.Privilege = AllPrivileges, setPrivilegeCommand.Username = ''bob'', setPrivilegeCommand.Database = []\<rparr>"] bob
    by simp
  have b: "applySetPrivilege None
      \<lparr>setPrivilegeCommand.Privilege = NoPrivileges, setPrivilegeCommand.Username = ''bob'', setPrivilegeCommand.Database = []\<rparr> server0
    = (None, server0\<lparr>users := (users server0)(''bob'' \<mapsto> user_bob\<lparr>Admin := False\<rparr>)\<rparr>)"
    using t [where c = "\<lparr>setPrivilegeCommand.Privilege = NoPrivileges, setPrivilegeCommand.Username = ''bob'', setPrivilegeCommand.Database = []\<rparr>"] bob
    by simp
  have c: "applySetPrivilege None
      \<lparr>setPrivilegeCommand.Privilege = ReadPrivilege, setPrivilegeCommand.Username = ''bob'', setPrivilegeCommand.Database = []\<rparr> server0
    = (Some ErrInvalidGrantRevoke, server0)"
    using t [where c = "\<lparr>setPrivilegeCommand.Privilege = ReadPrivilege, setPrivilegeCommand.Username = ''bob'', setPrivilegeCommand.Database = []\<rparr>"] bob
    by simp
  have d: "applySetPrivilege None
      \<lparr>setPrivilegeCommand.Privilege = ReadPrivilege, setPrivilegeCommand.Username = ''bob'', setPrivilegeCommand.Database = ''db''\<rparr> server0
    = (None, server0\<lparr>users := (users server0)(''bob'' \<mapsto>
         user_bob\<lparr>Privileges := (Privileges user_bob)(''db'' \<mapsto> ReadPrivilege)\<rparr>)\<rparr>)"
    using t [where c = "\<lparr>setPrivilegeCommand.Privilege = ReadPrivilege, setPrivilegeCommand.Username = ''bob'', setPrivilegeCommand.Database = ''db''\<rparr>"] bob
    by simp
  show ?thesis
    unfolding a b c d by (simp add: user_bob_def)
qed

subsection \<open>Updating a user\<close>

text \<open>
  Claim C10. For an applied update-user command that names an existing user: if
  the password field is empty the server (and with it the stored hash) is left
  exactly as it was; if the password is non-empty and hashing succeeds the stored
  hash becomes the hash of the new plaintext; in every case the user's name,
  privileges and admin flag after the handler are the ones before it, and no
  other user changes.
\<close>

theorem applyUpdateUser_only_changes_hash:
  assumes "users s (updateUserCommand.Username c) = Some u"
  shows "(Password c = [] \<longrightarrow> applyUpdateUser HashPassword persist c s = (persist, s))
       \<and> (\<forall>h. Password c \<noteq> [] \<and> HashPassword (Password c) = Inr h \<longrightarrow>
            applyUpdateUser HashPassword persist c s =
              (persist, s\<lparr>users := (users s)(updateUserCommand.Username c \<mapsto> u\<lparr>Hash := h\<rparr>)\<rparr>))
       \<and> (\<forall>e. Password c \<noteq> [] \<and> HashPassword (Password c) = Inl e \<longrightarrow>
            applyUpdateUser HashPassword persist c s = (Some e, s))
       \<and> (\<exists>u'. users (snd (applyUpdateUser HashPassword persist c s))
                   (updateUserCommand.Username c) = Some u'
              \<and> User.Name u' = User.Name u \<and> Privileges u' = Privileges u \<and> Admin u' = Admin u
              \<and> (Hash u' \<noteq> Hash u \<longrightarrow> Password c \<noteq> []))
       \<and> (\<forall>n. n \<noteq> updateUserCommand.Username c \<longrightarrow>
            users (snd (applyUpdateUser HashPassword persist c s)) n = users s n)"
  using assms by (auto simp: applyUpdateUser_def split: sum.splits)

theorem applyUpdateUser_only_changes_hash_witness:
  "applyUpdateUser (\<lambda>p. Inr (''hash:'' @ p)) None
      \<lparr>updateUserCommand.Username = ''bob'', Password = []\<rparr> server0 = (None, server0)
   \<and> (case users (snd (applyUpdateUser (\<lambda>p. Inr (''hash:'' @ p)) None
        \<lparr>updateUserCommand.Username = ''bob'', Password = ''pw''\<rparr> server0)) ''bob'' of
      Some u \<Rightarrow> Hash u = ''hash:pw'' \<and> User.Name u = ''bob'' \<and> \<not> Admin u | None \<Rightarrow> False)"
proof -
  have bob: "users server0 ''bob'' = Some user_bob"
    by (simp add: server0_def)
  note t = applyUpdateUser_only_changes_hash
    [where s = server0 and u = user_bob and persist = None
       and HashPassword = "\<lambda>p. Inr (''hash:'' @ p)"]
  have a: "applyUpdateUser (\<lambda>p. Inr (''hash:'' @ p)) None
      \<lparr>updateUserCommand.Username = ''bob'', Password = []\<rparr> server0 = (None, server0)"
    using t [where c = "\<lparr>updateUserCommand.Username = ''bob'', Password = []\<rparr>"] bob
    by simp
  have b: "applyUpdateUser (\<lambda>p. Inr (''hash:'' @ p)) None
      \<lparr>updateUserCommand.Username = ''bob'', Password = ''pw''\<rparr> server0
    = (None, server0\<lparr>users := (users server0)(''bob'' \<mapsto> user_bob\<lparr>Hash := ''hash:pw''\<rparr>)\<rparr>)"
    using t [where c = "\<lparr>updateUserCommand.Username = ''bob'', Password = ''pw''\<rparr>"] bob
    by simp
  show ?thesis
    unfolding a b by (simp add: user_bob_def)
qed

end
